theory Spec2Isabelle
  imports Complex_Main "HOL-Library.Sublist" "HOL-Library.AList"
begin

section \<open>Values of the two scripts\<close>

text \<open>
  Both scripts are Python and work on parsed JSON. A Python float is a finite value, an
  infinity or NaN; the finite ones are modelled by the real number they denote, so the
  comparison of two floats is the comparison of two reals.
\<close>

datatype pyfloat = Finite real | PosInf | NegInf | NaN

text \<open>Python's \<^verbatim>\<open>x >= y\<close> and \<^verbatim>\<open>x < y\<close> on floats: every comparison with NaN is false.\<close>

fun float_ge :: "pyfloat \<Rightarrow> pyfloat \<Rightarrow> bool" where
  "float_ge NaN _ = False"
| "float_ge _ NaN = False"
| "float_ge PosInf _ = True"
| "float_ge _ NegInf = True"
| "float_ge NegInf _ = False"
| "float_ge _ PosInf = False"
| "float_ge (Finite x) (Finite y) = (y \<le> x)"

fun float_lt :: "pyfloat \<Rightarrow> pyfloat \<Rightarrow> bool" where
  "float_lt NaN _ = False"
| "float_lt _ NaN = False"
| "float_lt PosInf _ = False"
| "float_lt _ NegInf = False"
| "float_lt NegInf _ = True"
| "float_lt _ PosInf = True"
| "float_lt (Finite x) (Finite y) = (x < y)"

text \<open>
  A parsed JSON value. An object is the Python dict it parses to, kept as an association
  list in insertion order; a lookup takes the first entry of a key.
\<close>

datatype json =
    JNull
  | JBool bool
  | JInt int
  | JFloat pyfloat
  | JStr string
  | JArr "json list"
  | JObj "(string \<times> json) list"

text \<open>
  The exceptions the scripts can meet. Every handler of the repository is
  \<^verbatim>\<open>except Exception\<close>, so the class of an exception is never observed.
\<close>

datatype exn =
    TypeError | AttributeError | KeyError | ValueError | IndexError
  | OSError | JSONDecodeError | ZeroDivisionError | ScorerError

text \<open>\<^verbatim>\<open>d.get(k, default)\<close> and \<^verbatim>\<open>d.get(k)\<close>, whose default is None.\<close>

definition dict_get :: "(string \<times> json) list \<Rightarrow> string \<Rightarrow> json \<Rightarrow> json" where
  "dict_get d k dflt = (case map_of d k of None \<Rightarrow> dflt | Some v \<Rightarrow> v)"

text \<open>Python's truth value of a JSON value, as \<^verbatim>\<open>not x\<close> reads it.\<close>

fun truthy :: "json \<Rightarrow> bool" where
  "truthy JNull = False"
| "truthy (JBool b) = b"
| "truthy (JInt n) = (n \<noteq> 0)"
| "truthy (JFloat f) = (f \<noteq> Finite 0)"
| "truthy (JStr s) = (s \<noteq> [])"
| "truthy (JArr xs) = (xs \<noteq> [])"
| "truthy (JObj d) = (d \<noteq> [])"

section \<open>The annotator: binoculars\_analysis.py\<close>

subsection \<open>Thresholds and predictions\<close>

text \<open>
  The two constants are the doubles that the literals 0.9015310749276843 and
  0.8536432310785527 denote, written as exact fractions.
\<close>

definition BINOCULARS_ACCURACY_THRESHOLD :: pyfloat where
  "BINOCULARS_ACCURACY_THRESHOLD = Finite (8120270026214483 / 9007199254740992)"

definition BINOCULARS_FPR_THRESHOLD :: pyfloat where
  "BINOCULARS_FPR_THRESHOLD = Finite (961116834348179 / 1125899906842624)"

text \<open>\<^verbatim>\<open>0 if score >= THRESHOLD else 1\<close> (0 for Human, 1 for AI).\<close>

definition accuracy_prediction :: "pyfloat \<Rightarrow> int" where
  "accuracy_prediction score = (if float_ge score BINOCULARS_ACCURACY_THRESHOLD then 0 else 1)"

definition fpr_prediction :: "pyfloat \<Rightarrow> int" where
  "fpr_prediction score = (if float_ge score BINOCULARS_FPR_THRESHOLD then 0 else 1)"

subsection \<open>First pass: the streaming loop\<close>

text \<open>The dict appended to \<^verbatim>\<open>processed_items\<close> for a newly scored article.\<close>

record processed_item =
  Scopus_ID :: json
  Binoculars_Score :: pyfloat
  Accuracy_Prediction :: int
  FPR_Prediction :: int

text \<open>
  The state of the loop: the list \<^verbatim>\<open>processed_items\<close>, and the articles whose abstract
  was handed to \<^verbatim>\<open>bino.compute_score\<close>, in the order of the calls.
\<close>

record stream_state =
  processed_items :: "processed_item list"
  scorer_calls :: "json list"

text \<open>
  \<^verbatim>\<open>"Binoculars_Score" in article and article["Binoculars_Score"] is not None\<close>
\<close>

definition has_score :: "(string \<times> json) list \<Rightarrow> bool" where
  "has_score article =
     (case map_of article ''Binoculars_Score'' of None \<Rightarrow> False | Some v \<Rightarrow> v \<noteq> JNull)"

text \<open>\<^verbatim>\<open>not abstract or abstract == "N/A"\<close>\<close>

definition no_text :: "json \<Rightarrow> bool" where
  "no_text abstract = (\<not> truthy abstract \<or> abstract = JStr ''N/A'')"

definition make_item :: "(string \<times> json) list \<Rightarrow> pyfloat \<Rightarrow> processed_item" where
  "make_item article score =
     \<lparr>Scopus_ID = dict_get article ''Scopus_ID'' (JStr ''''),
      Binoculars_Score = score,
      Accuracy_Prediction = accuracy_prediction score,
      FPR_Prediction = fpr_prediction score\<rparr>"

text \<open>
  The body of the loop for one streamed article. The scorer is the external
  \<^verbatim>\<open>bino.compute_score\<close>: it returns a float or raises, and whatever it raises is caught by
  the inner handler, which leaves the article out and goes on. (A result that is not a
  float makes the comparison with the threshold raise inside the same \<^verbatim>\<open>try\<close>, so it is
  an \<open>Inl\<close> here as well.) An array element that is not an object makes the membership test,
  the subscript or \<^verbatim>\<open>article.get\<close> raise outside the inner \<^verbatim>\<open>try\<close>; the first component
  of the result is that exception.
\<close>

fun process_article ::
  "(json \<Rightarrow> exn + pyfloat) \<Rightarrow> json \<Rightarrow> stream_state \<Rightarrow> exn option \<times> stream_state" where
  "process_article bino (JObj article) st =
     (if has_score article then (None, st)
      else
        let abstract = dict_get article ''Abstract'' (JStr '''') in
        if no_text abstract then (None, st)
        else
          let st' = st\<lparr>scorer_calls := scorer_calls st @ [JObj article]\<rparr> in
          (case bino abstract of
             Inl e \<Rightarrow> (None, st')
           | Inr score \<Rightarrow>
               (None, st'\<lparr>processed_items := processed_items st' @ [make_item article score]\<rparr>)))"
| "process_article bino (JStr s) st = (Some AttributeError, st)"
| "process_article bino (JArr xs) st = (Some AttributeError, st)"
| "process_article bino _ st = (Some TypeError, st)"

fun stream_loop ::
  "(json \<Rightarrow> exn + pyfloat) \<Rightarrow> json list \<Rightarrow> stream_state \<Rightarrow> exn option \<times> stream_state" where
  "stream_loop bino [] st = (None, st)"
| "stream_loop bino (article # items) st =
     (case process_article bino article st of
        (Some e, st') \<Rightarrow> (Some e, st')
      | (None, st') \<Rightarrow> stream_loop bino items st')"

subsection \<open>Python dict keys\<close>

text \<open>
  A value used as a dict key is hashed, which raises TypeError for a list or a dict, and
  found by equality. Python's equality identifies a bool, an int and a float (or Decimal)
  of the same numeric value and gives them the same hash; a string equals only the same
  string and None only None. A key is therefore modelled by its equality class. NaN equals
  nothing, itself included, and the keys of the lookup and the keys looked up are
  different objects (they come from two parses), so a lookup of NaN never finds an entry.
\<close>

datatype pykey = KNone | KNum pyfloat | KStr string

fun py_hash :: "json \<Rightarrow> exn + pykey" where
  "py_hash JNull = Inr KNone"
| "py_hash (JBool b) = Inr (KNum (Finite (if b then 1 else 0)))"
| "py_hash (JInt n) = Inr (KNum (Finite (of_int n)))"
| "py_hash (JFloat f) = Inr (KNum f)"
| "py_hash (JStr s) = Inr (KStr s)"
| "py_hash (JArr xs) = Inl TypeError"
| "py_hash (JObj d) = Inl TypeError"

definition dict_lookup :: "(pykey \<rightharpoonup> 'v) \<Rightarrow> pykey \<Rightarrow> 'v option" where
  "dict_lookup d k = (if k = KNum NaN then None else d k)"

subsection \<open>Second pass: the merge\<close>

text \<open>
  \<^verbatim>\<open>scores_dict = {item['Scopus_ID']: item for item in processed_items}\<close>:
  the items are entered in order, a later item replacing an earlier one of an equal key.
\<close>

fun build_scores_dict ::
  "processed_item list \<Rightarrow> (pykey \<rightharpoonup> processed_item) \<Rightarrow> exn + (pykey \<rightharpoonup> processed_item)" where
  "build_scores_dict [] d = Inr d"
| "build_scores_dict (item # items) d =
     (case py_hash (Scopus_ID item) of
        Inl e \<Rightarrow> Inl e
      | Inr k \<Rightarrow> build_scores_dict items (d(k \<mapsto> item)))"

text \<open>The three assignments to the article, in the order of the source.\<close>

definition set_scores :: "processed_item \<Rightarrow> (string \<times> json) list \<Rightarrow> (string \<times> json) list" where
  "set_scores scores article =
     AList.update ''FPR_Prediction'' (JInt (FPR_Prediction scores))
       (AList.update ''Accuracy_Prediction'' (JInt (Accuracy_Prediction scores))
         (AList.update ''Binoculars_Score'' (JFloat (Binoculars_Score scores)) article))"

text \<open>
  The body of the merge loop. \<^verbatim>\<open>article.get('Scopus_ID')\<close> is None for an article
  without the field, and the membership test hashes it. When the test succeeds the source
  subscripts \<^verbatim>\<open>article['Scopus_ID']\<close>, which raises KeyError for an article without
  the field. An element that is not an object has no \<^verbatim>\<open>get\<close>.
\<close>

fun merge_article :: "(pykey \<rightharpoonup> processed_item) \<Rightarrow> json \<Rightarrow> exn + json" where
  "merge_article scores_dict (JObj article) =
     (case py_hash (dict_get article ''Scopus_ID'' JNull) of
        Inl e \<Rightarrow> Inl e
      | Inr k \<Rightarrow>
          (case dict_lookup scores_dict k of
             None \<Rightarrow> Inr (JObj article)
           | Some scores \<Rightarrow>
               (case map_of article ''Scopus_ID'' of
                  None \<Rightarrow> Inl KeyError
                | Some v \<Rightarrow> Inr (JObj (set_scores scores article)))))"
| "merge_article scores_dict _ = Inl AttributeError"

fun merge_loop :: "(pykey \<rightharpoonup> processed_item) \<Rightarrow> json list \<Rightarrow> exn + json list" where
  "merge_loop scores_dict [] = Inr []"
| "merge_loop scores_dict (article # rest) =
     (case merge_article scores_dict article of
        Inl e \<Rightarrow> Inl e
      | Inr article' \<Rightarrow>
          (case merge_loop scores_dict rest of
             Inl e \<Rightarrow> Inl e
           | Inr rest' \<Rightarrow> Inr (article' # rest')))"

text \<open>
  \<^verbatim>\<open>for article in data\<close> on whatever \<^verbatim>\<open>json.load\<close> returned. A list is iterated; a
  dict or a string yields strings, which have no \<^verbatim>\<open>get\<close>, unless it is empty and the
  loop body never runs; any other value is not iterable.
\<close>

fun merge_data :: "(pykey \<rightharpoonup> processed_item) \<Rightarrow> json \<Rightarrow> exn + json" where
  "merge_data scores_dict (JArr data) =
     (case merge_loop scores_dict data of Inl e \<Rightarrow> Inl e | Inr data' \<Rightarrow> Inr (JArr data'))"
| "merge_data scores_dict (JObj []) = Inr (JObj [])"
| "merge_data scores_dict (JObj (kv # d)) = Inl AttributeError"
| "merge_data scores_dict (JStr []) = Inr (JStr [])"
| "merge_data scores_dict (JStr (c # s)) = Inl AttributeError"
| "merge_data scores_dict _ = Inl TypeError"

subsection \<open>Files and the JSON libraries\<close>

text \<open>
  A path is its list of components below the working directory, which is the empty
  path. The file system holds the regular files with their contents and the set of
  directories. The contents are of a type \<open>'c\<close> the model does not look into: they are read
  and written only by the external JSON libraries, which are parameters.
  \<^item> \<open>ijson_items\<close> is \<^verbatim>\<open>ijson.items(f, 'item')\<close>: the elements it yields and, when
    the parser fails, the exception it raises after them;
  \<^item> \<open>json_load\<close> is \<^verbatim>\<open>json.load(f)\<close>;
  \<^item> \<open>json_dump ensure_ascii\<close> is \<^verbatim>\<open>json.dump(data, f, indent=4, ensure_ascii=...)\<close>.
\<close>

type_synonym path = "string list"

record 'c filesys =
  files :: "path \<rightharpoonup> 'c"
  dirs :: "path set"

record 'c jsonlib =
  ijson_items :: "'c \<Rightarrow> json list \<times> exn option"
  json_load :: "'c \<Rightarrow> exn + json"
  json_dump :: "bool \<Rightarrow> json \<Rightarrow> 'c"

definition is_dir :: "'c filesys \<Rightarrow> path \<Rightarrow> bool" where
  "is_dir fs p = (p = [] \<or> p \<in> dirs fs)"

text \<open>
  \<^verbatim>\<open>p.mkdir(parents=True, exist_ok=True)\<close>: raises when the path or one of its ancestors
  is a regular file, and otherwise leaves the path and its ancestors as directories.
\<close>

definition mkdir_parents :: "path \<Rightarrow> 'c filesys \<Rightarrow> exn + 'c filesys" where
  "mkdir_parents p fs =
     (if list_ex (\<lambda>q. files fs q \<noteq> None) (prefixes p) then Inl OSError
      else Inr (fs\<lparr>dirs := dirs fs \<union> set (prefixes p)\<rparr>))"

text \<open>
  \<^verbatim>\<open>with open(p, 'w') as f: json.dump(...)\<close>: raises when the path is a directory or its
  parent is not one, and otherwise creates or replaces the file.
\<close>

definition write_file :: "path \<Rightarrow> 'c \<Rightarrow> 'c filesys \<Rightarrow> exn + 'c filesys" where
  "write_file p c fs =
     (if is_dir fs p \<or> \<not> is_dir fs (butlast p) then Inl OSError
      else Inr (fs\<lparr>files := (files fs)(p \<mapsto> c)\<rparr>))"

subsection \<open>process\_file\_streaming\<close>

text \<open>
  The first pass over the contents of the input file: the loop over the streamed
  elements and then the parser's own failure, if any.
\<close>

definition streaming_pass ::
  "'c jsonlib \<Rightarrow> (json \<Rightarrow> exn + pyfloat) \<Rightarrow> 'c \<Rightarrow> exn option \<times> stream_state" where
  "streaming_pass lib bino c =
     (case ijson_items lib c of
        (items, err) \<Rightarrow>
          (case stream_loop bino items \<lparr>processed_items = [], scorer_calls = []\<rparr> of
             (Some e, st) \<Rightarrow> (Some e, st)
           | (None, st) \<Rightarrow> (err, st)))"

text \<open>
  The part of the function between the first pass and the write: the early
  \<^verbatim>\<open>return False\<close> when nothing was scored, the reload of the whole document, the
  lookup and the merge. The result is the merged document, or \<open>None\<close> when the function
  has returned False or raised on the way (the outer handler returns False as well).
\<close>

definition merged_document ::
  "'c jsonlib \<Rightarrow> (json \<Rightarrow> exn + pyfloat) \<Rightarrow> 'c \<Rightarrow> json option" where
  "merged_document lib bino c =
     (case streaming_pass lib bino c of
        (Some e, st) \<Rightarrow> None
      | (None, st) \<Rightarrow>
          if processed_items st = [] then None
          else
            (case json_load lib c of
               Inl e \<Rightarrow> None
             | Inr data \<Rightarrow>
                 (case build_scores_dict (processed_items st) Map.empty of
                    Inl e \<Rightarrow> None
                  | Inr scores_dict \<Rightarrow>
                      (case merge_data scores_dict data of
                         Inl e \<Rightarrow> None
                       | Inr data' \<Rightarrow> Some data'))))"

text \<open>
  The whole function, with its outer \<^verbatim>\<open>try\<close>: every exception ends in
  \<^verbatim>\<open>return False\<close>. The result is the returned bool and the file system afterwards.
  \<^verbatim>\<open>os.path.getsize\<close> and \<^verbatim>\<open>open\<close> raise when the input is not a regular file.
\<close>

definition process_file_streaming ::
  "'c jsonlib \<Rightarrow> path \<Rightarrow> path \<Rightarrow> (json \<Rightarrow> exn + pyfloat) \<Rightarrow> 'c filesys \<Rightarrow> bool \<times> 'c filesys" where
  "process_file_streaming lib input_file output_file bino fs =
     (case files fs input_file of
        None \<Rightarrow> (False, fs)
      | Some c \<Rightarrow>
          (case merged_document lib bino c of
             None \<Rightarrow> (False, fs)
           | Some data' \<Rightarrow>
               (case mkdir_parents (butlast output_file) fs of
                  Inl e \<Rightarrow> (False, fs)
                | Inr fs1 \<Rightarrow>
                    (case write_file output_file (json_dump lib False data') fs1 of
                       Inl e \<Rightarrow> (False, fs1)
                     | Inr fs2 \<Rightarrow> (True, fs2)))))"

subsection \<open>The variant of binoculars\_analysis\_patch.py\<close>

text \<open>
  \<^verbatim>\<open>str.rfind\<close> of a character, and pathlib's \<^verbatim>\<open>stem\<close> and \<^verbatim>\<open>suffix\<close> of a file name:
  the suffix starts at the last dot, unless that dot is the first or the last character.
\<close>

fun rfind :: "char \<Rightarrow> string \<Rightarrow> nat option" where
  "rfind c [] = None"
| "rfind c (x # xs) =
     (case rfind c xs of
        Some i \<Rightarrow> Some (Suc i)
      | None \<Rightarrow> if x = c then Some 0 else None)"

definition suffix_pos :: "string \<Rightarrow> nat" where
  "suffix_pos name =
     (case rfind CHR ''.'' name of
        None \<Rightarrow> length name
      | Some i \<Rightarrow> if 0 < i \<and> i < length name - 1 then i else length name)"

definition path_stem :: "path \<Rightarrow> string" where
  "path_stem p = (if p = [] then [] else take (suffix_pos (last p)) (last p))"

definition path_suffix :: "path \<Rightarrow> string" where
  "path_suffix p = (if p = [] then [] else drop (suffix_pos (last p)) (last p))"

text \<open>
  \<^verbatim>\<open>Path(".") / f"{input_file.stem}_patched{input_file.suffix}"\<close>: a file of the working
  directory.
\<close>

definition patched_filename :: "path \<Rightarrow> path" where
  "patched_filename input_file = [path_stem input_file @ ''_patched'' @ path_suffix input_file]"

text \<open>
  The patch script's function differs in the write alone: it ignores \<^verbatim>\<open>output_file\<close>,
  creates no directory, and writes beside the script.
\<close>

definition process_file_streaming_patch ::
  "'c jsonlib \<Rightarrow> path \<Rightarrow> path \<Rightarrow> (json \<Rightarrow> exn + pyfloat) \<Rightarrow> 'c filesys \<Rightarrow> bool \<times> 'c filesys" where
  "process_file_streaming_patch lib input_file output_file bino fs =
     (case files fs input_file of
        None \<Rightarrow> (False, fs)
      | Some c \<Rightarrow>
          (case merged_document lib bino c of
             None \<Rightarrow> (False, fs)
           | Some data' \<Rightarrow>
               (case write_file (patched_filename input_file) (json_dump lib False data') fs of
                  Inl e \<Rightarrow> (False, fs)
                | Inr fs2 \<Rightarrow> (True, fs2))))"

subsection \<open>The loop over the files to annotate\<close>

text \<open>
  \<^verbatim>\<open>analyze_abstracts\<close>: every target is looked for under the input directory and, when
  it is there, processed into the same relative path under the output directory. The
  result is \<^verbatim>\<open>success_count\<close> and the file system. \<^verbatim>\<open>Path.exists\<close> holds for a
  directory too.
\<close>

fun analyze_loop ::
  "('c jsonlib \<Rightarrow> path \<Rightarrow> path \<Rightarrow> (json \<Rightarrow> exn + pyfloat) \<Rightarrow> 'c filesys \<Rightarrow> bool \<times> 'c filesys) \<Rightarrow>
   'c jsonlib \<Rightarrow> (json \<Rightarrow> exn + pyfloat) \<Rightarrow> path \<Rightarrow> path \<Rightarrow> path list \<Rightarrow>
   nat \<times> 'c filesys \<Rightarrow> nat \<times> 'c filesys" where
  "analyze_loop process lib bino input_dir output_dir [] (success_count, fs) = (success_count, fs)"
| "analyze_loop process lib bino input_dir output_dir (file_path # target_files) (success_count, fs) =
     (let input_file = input_dir @ file_path;
          output_file = output_dir @ file_path
      in if files fs input_file = None \<and> \<not> is_dir fs input_file
         then analyze_loop process lib bino input_dir output_dir target_files (success_count, fs)
         else
           (case process lib input_file output_file bino fs of
              (True, fs') \<Rightarrow>
                analyze_loop process lib bino input_dir output_dir target_files (success_count + 1, fs')
            | (False, fs') \<Rightarrow>
                analyze_loop process lib bino input_dir output_dir target_files (success_count, fs')))"

definition target_files :: "path list" where
  "target_files =
     [[''2021'', ''APRIL_comp_2021.json''], [''2021'', ''FEBRUARY_comp_2021.json''],
      [''2021'', ''NOVEMBER_comp_2021.json''], [''2022'', ''APRIL_comp_2022.json''],
      [''2022'', ''AUGUST_comp_2022.json''], [''2022'', ''FEBRUARY_comp_2022.json''],
      [''2022'', ''JANUARY_comp_2022.json''], [''2022'', ''JULY_comp_2022.json''],
      [''2022'', ''JUNE_comp_2022.json''], [''2022'', ''MARCH_comp_2022.json''],
      [''2022'', ''MAY_comp_2022.json''], [''2022'', ''NOVEMBER_comp_2022.json''],
      [''2022'', ''OCTOBER_comp_2022.json''], [''2022'', ''SEPTEMBER_comp_2022.json'']]"

definition analyze_abstracts ::
  "'c jsonlib \<Rightarrow> (json \<Rightarrow> exn + pyfloat) \<Rightarrow> 'c filesys \<Rightarrow> nat \<times> 'c filesys" where
  "analyze_abstracts lib bino fs =
     analyze_loop process_file_streaming lib bino
       [''data'', ''comp'', ''pre''] [''data'', ''comp-proc''] target_files (0, fs)"

definition target_files_patch :: "path list" where
  "target_files_patch = [[''MAY_comp_2023.json''], [''JULY_comp_2023.json'']]"

definition analyze_abstracts_patch ::
  "'c jsonlib \<Rightarrow> (json \<Rightarrow> exn + pyfloat) \<Rightarrow> 'c filesys \<Rightarrow> nat \<times> 'c filesys" where
  "analyze_abstracts_patch lib bino fs =
     analyze_loop process_file_streaming_patch lib bino
       [] [''data'', ''comp-proc'', ''post'', ''2023''] target_files_patch (0, fs)"

text \<open>The two guards of the streaming loop together.\<close>

fun passes_checks :: "json \<Rightarrow> bool" where
  "passes_checks (JObj article) =
     (\<not> has_score article \<and> \<not> no_text (dict_get article ''Abstract'' (JStr '''')))"
| "passes_checks _ = False"

subsection \<open>A small document\<close>

text \<open>
  An instance of the external parts, for evaluating the functions: the contents of a file
  are the document itself, the scorer gives every text the score 0.95, and the document
  has one article that is already scored, one without text and one to score.
\<close>

definition example_lib :: "json jsonlib" where
  "example_lib =
     \<lparr>ijson_items = (\<lambda>c. case c of JArr xs \<Rightarrow> (xs, None) | _ \<Rightarrow> ([], None)),
      json_load = Inr,
      json_dump = (\<lambda>ensure_ascii data. data)\<rparr>"

definition example_bino :: "json \<Rightarrow> exn + pyfloat" where
  "example_bino abstract = Inr (Finite (19 / 20))"

definition example_document :: json where
  "example_document =
     JArr [JObj [(''Scopus_ID'', JStr ''1''), (''Abstract'', JStr ''first''),
                 (''Binoculars_Score'', JFloat (Finite (1 / 2)))],
           JObj [(''Scopus_ID'', JStr ''2''), (''Abstract'', JStr '''')],
           JObj [(''Scopus_ID'', JStr ''3''), (''Abstract'', JStr ''third'')]]"

definition example_fs :: "json filesys" where
  "example_fs = \<lparr>files = [[''in.json''] \<mapsto> example_document], dirs = {}\<rparr>"

text \<open>A document whose articles are all scored already.\<close>

definition scored_document :: json where
  "scored_document =
     JArr [JObj [(''Scopus_ID'', JStr ''1''), (''Abstract'', JStr ''first''),
                 (''Binoculars_Score'', JFloat (Finite (1 / 2)))],
           JObj [(''Scopus_ID'', JStr ''2''), (''Abstract'', JStr ''second''),
                 (''Binoculars_Score'', JFloat (Finite (19 / 20)))]]"

text \<open>
  A document with two articles of one identifier, one without the field and one whose
  identifier is the empty string, and a scorer whose score grows with the length of the
  text.
\<close>

definition dup_bino :: "json \<Rightarrow> exn + pyfloat" where
  "dup_bino abstract =
     (case abstract of JStr s \<Rightarrow> Inr (Finite (real (length s) / 10)) | _ \<Rightarrow> Inl ScorerError)"

definition dup_document :: json where
  "dup_document =
     JArr [JObj [(''Scopus_ID'', JStr ''7''), (''Abstract'', JStr ''short'')],
           JObj [(''Scopus_ID'', JStr ''7''), (''Abstract'', JStr ''a longer text'')],
           JObj [(''Abstract'', JStr ''none'')],
           JObj [(''Scopus_ID'', JStr ''''), (''Abstract'', JStr '''')]]"

text \<open>File systems holding the small document where the two scripts look for input.\<close>

definition example_pre_fs :: "json filesys" where
  "example_pre_fs =
     \<lparr>files = [[''data'', ''comp'', ''pre'', ''2021'', ''APRIL_comp_2021.json'']
                  \<mapsto> example_document],
      dirs = {[''data''], [''data'', ''comp''], [''data'', ''comp'', ''pre''],
              [''data'', ''comp'', ''pre'', ''2021'']}\<rparr>"

definition example_may_fs :: "json filesys" where
  "example_may_fs = \<lparr>files = [[''MAY_comp_2023.json''] \<mapsto> example_document], dirs = {}\<rparr>"

section \<open>The harvester: 0\_compsci.py and 0\_compsci\_patch.py\<close>

subsection \<open>Strings\<close>

text \<open>
  A string is a list of characters with code points below 256. \<^verbatim>\<open>str.strip()\<close> removes at
  both ends the characters that \<^verbatim>\<open>str.isspace\<close> accepts: the blank, 9 to 13, 28 to 31, and
  the code points 133 and 160.
\<close>

definition is_space :: "char \<Rightarrow> bool" where
  "is_space c = (c = CHR '' '' \<or> (9 \<le> (of_char c :: nat) \<and> (of_char c :: nat) \<le> 13) \<or>
                 (28 \<le> (of_char c :: nat) \<and> (of_char c :: nat) \<le> 31) \<or>
                 (of_char c :: nat) = 133 \<or> (of_char c :: nat) = 160)"

definition strip_with :: "(char \<Rightarrow> bool) \<Rightarrow> string \<Rightarrow> string" where
  "strip_with p s = rev (dropWhile p (rev (dropWhile p s)))"

definition py_strip :: "string \<Rightarrow> string" where
  "py_strip s = strip_with is_space s"

text \<open>\<^verbatim>\<open>s.split(sep)\<close> for a separator of one character.\<close>

fun split_on :: "char \<Rightarrow> string \<Rightarrow> string list" where
  "split_on sep [] = [[]]"
| "split_on sep (c # s) =
     (if c = sep then [] # split_on sep s
      else (case split_on sep s of
              [] \<Rightarrow> [[c]]
            | part # parts \<Rightarrow> (c # part) # parts))"

text \<open>\<^verbatim>\<open>s.replace(pat, "")\<close>: every occurrence of the pattern is removed, left to right.\<close>

function remove_all :: "string \<Rightarrow> string \<Rightarrow> string" where
  "remove_all pat [] = []"
| "remove_all pat (c # s) =
     (if pat \<noteq> [] \<and> prefix pat (c # s) then remove_all pat (drop (length pat) (c # s))
      else c # remove_all pat s)"
  by pat_completeness auto
termination
  by (relation "measure (\<lambda>(pat, s). length s)") auto

text \<open>\<^verbatim>\<open>str(n)\<close> of an int, as the f-strings of the file names use it.\<close>

definition digit_char :: "nat \<Rightarrow> char" where
  "digit_char d = ''0123456789'' ! d"

fun str_nat :: "nat \<Rightarrow> string" where
  "str_nat n = (if n < 10 then [digit_char n] else str_nat (n div 10) @ [digit_char (n mod 10)])"

declare str_nat.simps [simp del]

definition str_int :: "int \<Rightarrow> string" where
  "str_int i = (if i < 0 then CHR ''-'' # str_nat (nat (- i)) else str_nat (nat i))"

text \<open>
  \<^verbatim>\<open>int(s)\<close> of a string: whitespace around it is ignored, a sign may lead, and the rest
  is decimal digits, grouped by single underscores if at all. Anything else raises
  ValueError, which is \<open>None\<close> here. The whitespace that \<^verbatim>\<open>int\<close> ignores is narrower than
  that of \<^verbatim>\<open>strip\<close>: the blank, 9 to 13, and the code points 133 and 160, but not 28 to 31.
\<close>

definition is_int_space :: "char \<Rightarrow> bool" where
  "is_int_space c = (c = CHR '' '' \<or> (9 \<le> (of_char c :: nat) \<and> (of_char c :: nat) \<le> 13) \<or>
                     (of_char c :: nat) = 133 \<or> (of_char c :: nat) = 160)"

definition is_digit :: "char \<Rightarrow> bool" where
  "is_digit c = (48 \<le> (of_char c :: nat) \<and> (of_char c :: nat) \<le> 57)"

definition digits_value :: "string \<Rightarrow> nat" where
  "digits_value s = foldl (\<lambda>acc c. 10 * acc + (of_char c - 48)) 0 s"

definition parse_digits :: "string \<Rightarrow> nat option" where
  "parse_digits s =
     (let groups = split_on CHR ''_'' s in
      if list_all (\<lambda>g. g \<noteq> [] \<and> list_all is_digit g) groups
      then Some (digits_value (concat groups)) else None)"

definition int_of_string :: "string \<Rightarrow> int option" where
  "int_of_string s =
     (case strip_with is_int_space s of
        [] \<Rightarrow> None
      | c # rest \<Rightarrow>
          if c = CHR ''-'' then map_option (\<lambda>n. - int n) (parse_digits rest)
          else if c = CHR ''+'' then map_option int (parse_digits rest)
          else map_option int (parse_digits (c # rest)))"

subsection \<open>Python operations on JSON values\<close>

text \<open>Sequencing of steps that may raise.\<close>

definition raise_or :: "exn + 'a \<Rightarrow> ('a \<Rightarrow> exn + 'b) \<Rightarrow> exn + 'b" where
  "raise_or x f = (case x of Inl e \<Rightarrow> Inl e | Inr v \<Rightarrow> f v)"

fun map_exn :: "('a \<Rightarrow> exn + 'b) \<Rightarrow> 'a list \<Rightarrow> exn + 'b list" where
  "map_exn f [] = Inr []"
| "map_exn f (x # xs) =
     raise_or (f x) (\<lambda>y. raise_or (map_exn f xs) (\<lambda>ys. Inr (y # ys)))"

text \<open>\<^verbatim>\<open>x.get(k, default)\<close> on any value: only a dict has the method.\<close>

fun json_get :: "json \<Rightarrow> string \<Rightarrow> json \<Rightarrow> exn + json" where
  "json_get (JObj d) k dflt = Inr (dict_get d k dflt)"
| "json_get _ k dflt = Inl AttributeError"

text \<open>
  \<^verbatim>\<open>not x or k not in x\<close>: the membership test is a key test on a dict, a substring test
  on a string, an element test on a list, and raises TypeError on a number or a bool.
\<close>

fun lacks_key :: "json \<Rightarrow> string \<Rightarrow> exn + bool" where
  "lacks_key (JObj d) k = Inr (d = [] \<or> map_of d k = None)"
| "lacks_key (JStr s) k = Inr (s = [] \<or> \<not> sublist k s)"
| "lacks_key (JArr xs) k = Inr (xs = [] \<or> JStr k \<notin> set xs)"
| "lacks_key x k = (if truthy x then Inl TypeError else Inr True)"

text \<open>\<^verbatim>\<open>x[k]\<close> for a string \<open>k\<close>: a dict has the entry or raises KeyError; a string or a
  list takes no string index.\<close>

fun subscript :: "json \<Rightarrow> string \<Rightarrow> exn + json" where
  "subscript (JObj d) k = (case map_of d k of None \<Rightarrow> Inl KeyError | Some v \<Rightarrow> Inr v)"
| "subscript _ k = Inl TypeError"

text \<open>\<^verbatim>\<open>for x in v\<close>: a list yields its elements, a dict its keys, a string its
  characters; nothing else is iterable.\<close>

fun py_iter :: "json \<Rightarrow> exn + json list" where
  "py_iter (JArr xs) = Inr xs"
| "py_iter (JObj d) = Inr (map JStr (remdups (map fst d)))"
| "py_iter (JStr s) = Inr (map (\<lambda>c. JStr [c]) s)"
| "py_iter _ = Inl TypeError"

text \<open>\<^verbatim>\<open>len(v)\<close>.\<close>

fun py_len :: "json \<Rightarrow> exn + nat" where
  "py_len (JArr xs) = Inr (length xs)"
| "py_len (JObj d) = Inr (length (remdups (map fst d)))"
| "py_len (JStr s) = Inr (length s)"
| "py_len _ = Inl TypeError"

text \<open>\<^verbatim>\<open>v.append(x)\<close>: only a list has the method.\<close>

fun py_append :: "json \<Rightarrow> json \<Rightarrow> exn + json" where
  "py_append (JArr xs) x = Inr (JArr (xs @ [x]))"
| "py_append _ x = Inl AttributeError"

text \<open>\<^verbatim>\<open>int(v)\<close>: a float is truncated towards zero.\<close>

fun py_int :: "json \<Rightarrow> exn + int" where
  "py_int (JInt n) = Inr n"
| "py_int (JBool b) = Inr (if b then 1 else 0)"
| "py_int (JFloat (Finite r)) = Inr (if 0 \<le> r then \<lfloor>r\<rfloor> else \<lceil>r\<rceil>)"
| "py_int (JFloat _) = Inl ValueError"
| "py_int (JStr s) = (case int_of_string s of None \<Rightarrow> Inl ValueError | Some n \<Rightarrow> Inr n)"
| "py_int _ = Inl TypeError"

text \<open>\<^verbatim>\<open>v.replace("SCOPUS_ID:", "")\<close>: only a string has the method.\<close>

fun strip_scopus_id :: "json \<Rightarrow> exn + string" where
  "strip_scopus_id (JStr s) = Inr (remove_all ''SCOPUS_ID:'' s)"
| "strip_scopus_id _ = Inl AttributeError"
subsection \<open>The world of the harvester\<close>

text \<open>
  A request is what \<^verbatim>\<open>requests.get\<close> is called with: the abstract endpoint with the
  identifier in its URL, or the search endpoint with its parameters (query, count, start
  and, where the caller gives one, the view); each carries the API key of its headers. A
  response is a status code and a body, \<open>None\<close> when \<^verbatim>\<open>response.json()\<close> raises.
  \<^verbatim>\<open>requests.get\<close> itself may raise instead of returning a response (no connection, a
  timeout); no caller catches that.
\<close>

datatype request =
    AbstractRequest string string
  | SearchRequest string string nat int "string option"

record response =
  status_code :: nat
  body :: "json option"

text \<open>
  The state the scripts read and change: the two globals, the files and directories (as
  lists, in the order a directory listing gives them), the requests made so far, the
  remote service (a function of all requests up to the present one), the outcomes of the
  polls of standard input still to come (\<open>None\<close> for a poll that times out, a line
  otherwise), and the value of \<^verbatim>\<open>SCOPUS_API_KEYS\<close> that a reload of the environment finds.
\<close>

record 'c world =
  API_KEYS :: "string list"
  current_api_key_index :: nat
  hfiles :: "(path \<times> 'c) list"
  hdirs :: "path list"
  http_log :: "request list"
  server :: "request list \<Rightarrow> exn + response"
  stdin :: "string option list"
  dotenv_keys :: "string option"

text \<open>
  The result of a part of a script that may block for ever: it returns a value, it stops
  the script with an uncaught exception, or it never returns.
\<close>

datatype ('a, 'w) outcome = Ret 'a 'w | Exc exn 'w | Hang

definition requests_get :: "request \<Rightarrow> 'c world \<Rightarrow> (exn + response) \<times> 'c world" where
  "requests_get r w =
     (let log = http_log w @ [r] in (server w log, w\<lparr>http_log := log\<rparr>))"

text \<open>\<^verbatim>\<open>get_headers\<close>: the key under the pointer; the subscript raises IndexError.\<close>

definition get_headers :: "'c world \<Rightarrow> exn + string" where
  "get_headers w =
     (if current_api_key_index w < length (API_KEYS w)
      then Inr (API_KEYS w ! current_api_key_index w) else Inl IndexError)"

text \<open>\<^verbatim>\<open>cycle_api_key\<close>: the modulus raises ZeroDivisionError on an empty pool.\<close>

definition cycle_api_key :: "'c world \<Rightarrow> exn + 'c world" where
  "cycle_api_key w =
     (if API_KEYS w = [] then Inl ZeroDivisionError
      else Inr (w\<lparr>current_api_key_index :=
                     (current_api_key_index w + 1) mod length (API_KEYS w)\<rparr>))"

definition is_pause_line :: "string \<Rightarrow> bool" where
  "is_pause_line line = (py_strip line = ''p'' \<or> py_strip line = ''P'')"

text \<open>\<^verbatim>\<open>check_for_pause\<close>: one poll of standard input.\<close>

definition check_for_pause :: "'c world \<Rightarrow> bool \<times> 'c world" where
  "check_for_pause w =
     (case stdin w of
        [] \<Rightarrow> (False, w)
      | None # rest \<Rightarrow> (False, w\<lparr>stdin := rest\<rparr>)
      | Some line # rest \<Rightarrow> (is_pause_line line, w\<lparr>stdin := rest\<rparr>))"

text \<open>
  The waiting loop of \<^verbatim>\<open>pause_and_reload\<close> polls until a pause line comes; when none
  ever comes it does not end, which is \<open>None\<close>.
\<close>

fun wait_for_resume :: "string option list \<Rightarrow> string option list option" where
  "wait_for_resume [] = None"
| "wait_for_resume (None # rest) = wait_for_resume rest"
| "wait_for_resume (Some line # rest) =
     (if is_pause_line line then Some rest else wait_for_resume rest)"

definition pause_and_reload :: "'c world \<Rightarrow> 'c world option" where
  "pause_and_reload w =
     (case wait_for_resume (stdin w) of
        None \<Rightarrow> None
      | Some rest \<Rightarrow>
          Some (case dotenv_keys w of
                  None \<Rightarrow> w\<lparr>stdin := rest\<rparr>
                | Some new_keys_str \<Rightarrow>
                    if new_keys_str = [] then w\<lparr>stdin := rest\<rparr>
                    else w\<lparr>stdin := rest,
                           API_KEYS := map py_strip (split_on CHR '','' new_keys_str)\<rparr>))"

text \<open>\<^verbatim>\<open>if check_for_pause(): pause_and_reload()\<close>\<close>

definition pause_point :: "'c world \<Rightarrow> 'c world option" where
  "pause_point w =
     (case check_for_pause w of
        (True, w') \<Rightarrow> pause_and_reload w'
      | (False, w') \<Rightarrow> Some w')"

subsection \<open>Files of the harvester\<close>

definition path_exists :: "'c world \<Rightarrow> path \<Rightarrow> bool" where
  "path_exists w p = (map_of (hfiles w) p \<noteq> None \<or> p \<in> set (hdirs w))"

text \<open>\<^verbatim>\<open>os.makedirs(p, exist_ok=True)\<close>\<close>

definition makedirs :: "path \<Rightarrow> 'c world \<Rightarrow> exn + 'c world" where
  "makedirs p w =
     (if list_ex (\<lambda>q. map_of (hfiles w) q \<noteq> None) (prefixes p) then Inl OSError
      else Inr (w\<lparr>hdirs := hdirs w @
                    filter (\<lambda>q. q \<noteq> [] \<and> q \<notin> set (hdirs w)) (prefixes p)\<rparr>))"

text \<open>\<^verbatim>\<open>with open(p, "w") as f: json.dump(data, f, indent=4)\<close>\<close>

definition dump_to :: "'c jsonlib \<Rightarrow> path \<Rightarrow> json \<Rightarrow> 'c world \<Rightarrow> exn + 'c world" where
  "dump_to lib p data w =
     (if p = [] \<or> p \<in> set (hdirs w) \<or> (butlast p \<noteq> [] \<and> butlast p \<notin> set (hdirs w))
      then Inl OSError
      else Inr (w\<lparr>hfiles := AList.update p (json_dump lib True data) (hfiles w)\<rparr>))"

text \<open>\<^verbatim>\<open>with open(p, "r") as f: json.load(f)\<close>\<close>

definition load_from :: "'c jsonlib \<Rightarrow> path \<Rightarrow> 'c world \<Rightarrow> exn + json" where
  "load_from lib p w =
     (case map_of (hfiles w) p of None \<Rightarrow> Inl OSError | Some c \<Rightarrow> json_load lib c)"

text \<open>\<^verbatim>\<open>backup_data\<close>\<close>

definition backup_data :: "'c jsonlib \<Rightarrow> json \<Rightarrow> path \<Rightarrow> 'c world \<Rightarrow> exn + 'c world" where
  "backup_data lib data backup_filename w = dump_to lib backup_filename data w"

text \<open>\<^verbatim>\<open>get_year_folder\<close>, for the text of the year.\<close>

definition year_folder :: "string \<Rightarrow> path" where
  "year_folder year = [''data'', ''comp'', ''post'', year]"

definition get_year_folder :: "string \<Rightarrow> 'c world \<Rightarrow> exn + 'c world" where
  "get_year_folder year w = makedirs (year_folder year) w"

subsection \<open>Resuming from the last backup\<close>

text \<open>
  The names the glob \<^verbatim>\<open>{month}_*_comp_23_25.json\<close> finds in the directory, files and
  directories alike. (The month names have no character that is special in a pattern.)
\<close>

definition matches_backup :: "string \<Rightarrow> string \<Rightarrow> bool" where
  "matches_backup month name =
     (prefix (month @ ''_'') name \<and> suffix ''_comp_23_25.json'' name \<and>
      length month + 1 + length ''_comp_23_25.json'' \<le> length name)"

definition glob_backups :: "path \<Rightarrow> string \<Rightarrow> 'c world \<Rightarrow> string list" where
  "glob_backups year_dir month w =
     map last (filter (\<lambda>p. p \<noteq> [] \<and> butlast p = year_dir \<and> matches_backup month (last p))
                 (map fst (hfiles w) @ hdirs w))"

text \<open>
  \<^verbatim>\<open>int(base.split("_")[1])\<close> inside the \<^verbatim>\<open>try\<close>: whatever it raises, the file is left
  out of the indices.
\<close>

definition backup_index :: "string \<Rightarrow> int option" where
  "backup_index base =
     (let parts = split_on CHR ''_'' base in
      if length parts < 2 then None else int_of_string (parts ! 1))"

definition backup_name :: "string \<Rightarrow> int \<Rightarrow> string" where
  "backup_name month n = month @ ''_'' @ str_int n @ ''_comp_23_25.json''"

definition resume_backup ::
  "'c jsonlib \<Rightarrow> path \<Rightarrow> string \<Rightarrow> 'c world \<Rightarrow> exn + (int \<times> json)" where
  "resume_backup lib year_dir month w =
     (let backup_files = glob_backups year_dir month w;
          indices = List.map_filter backup_index backup_files
      in if indices = [] then Inr (0, JArr [])
         else
           let start_offset = Max (set indices);
               latest_backup = year_dir @ [backup_name month start_offset]
           in raise_or (load_from lib latest_backup w) (\<lambda>articles. Inr (start_offset, articles)))"

subsection \<open>Steps that change the world and may raise\<close>

definition pure_step :: "exn + 'a \<Rightarrow> 'w \<Rightarrow> (exn + 'a) \<times> 'w" where
  "pure_step x w = (x, w)"

definition effect :: "('w \<Rightarrow> exn + 'w) \<Rightarrow> 'w \<Rightarrow> (exn + unit) \<times> 'w" where
  "effect f w = (case f w of Inl e \<Rightarrow> (Inl e, w) | Inr w' \<Rightarrow> (Inr (), w'))"

definition and_then ::
  "('w \<Rightarrow> (exn + 'a) \<times> 'w) \<Rightarrow> ('a \<Rightarrow> 'w \<Rightarrow> (exn + 'b) \<times> 'w) \<Rightarrow> 'w \<Rightarrow> (exn + 'b) \<times> 'w" where
  "and_then m f w = (case m w of (Inl e, w') \<Rightarrow> (Inl e, w') | (Inr v, w') \<Rightarrow> f v w')"

subsection \<open>The enrichment calls\<close>

text \<open>
  The three calls share their loop: for each of \<open>retries\<close> attempts, one request with
  the current key; on status 429, on a body that is not JSON and on a body without the
  expected top-level key, \<^verbatim>\<open>cycle_api_key()\<close>, a sleep and the next attempt; otherwise the
  result is built from the body and returned. When the attempts are used up the default
  is returned. What the construction of the result raises is not caught.
\<close>

fun retry_loop ::
  "(string \<Rightarrow> request) \<Rightarrow> string \<Rightarrow> (json \<Rightarrow> exn + 'a) \<Rightarrow> 'a \<Rightarrow> nat \<Rightarrow> 'c world \<Rightarrow>
   (exn + 'a) \<times> 'c world" where
  "retry_loop mk_request top_key on_success dflt 0 w = (Inr dflt, w)"
| "retry_loop mk_request top_key on_success dflt (Suc attempts) w =
     (case get_headers w of
        Inl e \<Rightarrow> (Inl e, w)
      | Inr key \<Rightarrow>
          (case requests_get (mk_request key) w of
             (Inl e, w1) \<Rightarrow> (Inl e, w1)
           | (Inr response, w1) \<Rightarrow>
               if status_code response = 429 \<or> body response = None then
                 (case cycle_api_key w1 of
                    Inl e \<Rightarrow> (Inl e, w1)
                  | Inr w2 \<Rightarrow> retry_loop mk_request top_key on_success dflt attempts w2)
               else
                 (case lacks_key (the (body response)) top_key of
                    Inl e \<Rightarrow> (Inl e, w1)
                  | Inr True \<Rightarrow>
                      (case cycle_api_key w1 of
                         Inl e \<Rightarrow> (Inl e, w1)
                       | Inr w2 \<Rightarrow> retry_loop mk_request top_key on_success dflt attempts w2)
                  | Inr False \<Rightarrow>
                      (case on_success (the (body response)) of
                         Inl e \<Rightarrow> (Inl e, w1)
                       | Inr v \<Rightarrow> (Inr v, w1)))))"

text \<open>The dict that \<^verbatim>\<open>fetch_metadata\<close> returns for a body that has the top-level key.\<close>

definition first_affiliation :: "json \<Rightarrow> string \<Rightarrow> exn + json" where
  "first_affiliation aff k =
     (case aff of
        JArr [] \<Rightarrow> Inr (JStr ''N/A'')
      | JArr (a # rest) \<Rightarrow> json_get a k (JStr ''N/A'')
      | _ \<Rightarrow> if truthy aff then json_get aff k (JStr ''N/A'') else Inr (JStr ''N/A''))"

definition build_metadata :: "string \<Rightarrow> json \<Rightarrow> exn + json" where
  "build_metadata scopus_id json_data =
     raise_or (subscript json_data ''abstracts-retrieval-response'') (\<lambda>data.
     raise_or (json_get data ''coredata'' (JObj [])) (\<lambda>core_data.
     raise_or (json_get data ''authors'' JNull) (\<lambda>a.
     raise_or (json_get (if truthy a then a else JObj []) ''author'' (JArr [])) (\<lambda>authors.
     raise_or (json_get data ''affiliation'' (JArr [])) (\<lambda>affiliations.
     raise_or (first_affiliation affiliations ''affiliation-name'') (\<lambda>affiliation_name.
     raise_or (first_affiliation affiliations ''affiliation-country'') (\<lambda>affiliation_country.
     raise_or (json_get core_data ''dc:title'' (JStr ''N/A'')) (\<lambda>title.
     raise_or (json_get core_data ''dc:description'' (JStr ''N/A'')) (\<lambda>abstract.
     raise_or (case authors of
                 JArr xs \<Rightarrow>
                   map_exn (\<lambda>author. json_get author ''ce:indexed-name'' (JStr ''N/A'')) xs
               | _ \<Rightarrow> Inr []) (\<lambda>author_names.
     raise_or (json_get core_data ''prism:coverDate'' (JStr ''N/A'')) (\<lambda>publication_date.
     raise_or (json_get core_data ''prism:doi'' (JStr ''N/A'')) (\<lambda>doi.
     raise_or (json_get core_data ''authkeywords'' (JStr ''N/A'')) (\<lambda>keywords.
     raise_or (raise_or (json_get core_data ''citedby-count'' (JInt 0)) py_int) (\<lambda>cited.
     raise_or (json_get core_data ''prism:publicationName'' (JStr ''N/A'')) (\<lambda>source.
       Inr (JObj [(''Scopus_ID'', JStr scopus_id),
                  (''Title'', title),
                  (''Abstract'', abstract),
                  (''Authors'', JArr author_names),
                  (''Affiliation_Name'', affiliation_name),
                  (''Affiliation_Country'', affiliation_country),
                  (''Publication_Date'', publication_date),
                  (''DOI'', doi),
                  (''Keywords'', keywords),
                  (''Cited_By_Count'', JInt cited),
                  (''Source'', source)]))))))))))))))))"

definition fetch_metadata :: "string \<Rightarrow> nat \<Rightarrow> 'c world \<Rightarrow> (exn + json) \<times> 'c world" where
  "fetch_metadata scopus_id retries =
     retry_loop (\<lambda>key. AbstractRequest key scopus_id) ''abstracts-retrieval-response''
       (build_metadata scopus_id) JNull retries"

definition build_abstract :: "json \<Rightarrow> exn + json" where
  "build_abstract json_data =
     raise_or (subscript json_data ''abstracts-retrieval-response'') (\<lambda>data.
     raise_or (json_get data ''coredata'' (JObj [])) (\<lambda>core_data.
       json_get core_data ''dc:description'' (JStr ''N/A'')))"

definition fetch_abstract :: "string \<Rightarrow> nat \<Rightarrow> 'c world \<Rightarrow> (exn + json) \<times> 'c world" where
  "fetch_abstract scopus_id retries =
     retry_loop (\<lambda>key. AbstractRequest key scopus_id) ''abstracts-retrieval-response''
       build_abstract (JStr ''N/A'') retries"

text \<open>One element of the list \<^verbatim>\<open>fetch_citations\<close> builds.\<close>

definition citing_country :: "json \<Rightarrow> exn + json" where
  "citing_country affiliation_info =
     (case affiliation_info of
        JArr (a # rest) \<Rightarrow> json_get a ''affiliation-country'' (JStr ''N/A'')
      | JObj d \<Rightarrow> Inr (dict_get d ''affiliation-country'' (JStr ''N/A''))
      | _ \<Rightarrow> Inr (JStr ''N/A''))"

definition citation_of :: "json \<Rightarrow> exn + json" where
  "citation_of entry =
     raise_or (raise_or (json_get entry ''dc:identifier'' (JStr '''')) strip_scopus_id) (\<lambda>citing_id.
     raise_or (json_get entry ''prism:url'' (JStr ''N/A'')) (\<lambda>citing_url.
     raise_or (json_get entry ''prism:coverDate'' (JStr ''N/A'')) (\<lambda>cited_date.
     raise_or (json_get entry ''citedby-count'' (JStr ''N/A'')) (\<lambda>citing_citation_count.
     raise_or (raise_or (json_get entry ''affiliation'' (JObj [])) citing_country) (\<lambda>citing_aff_country.
       Inr (JObj [(''Citing_Article_Scopus_ID'', JStr citing_id),
                  (''Citing_Article_URL'', citing_url),
                  (''Cited_Date'', cited_date),
                  (''Citing_Citation_Count'', citing_citation_count),
                  (''Citing_Affiliation_Country'', citing_aff_country)]))))))"

text \<open>\<^verbatim>\<open>json_data.get("search-results", {}).get("entry", [])\<close>\<close>

definition search_entries :: "json \<Rightarrow> exn + json" where
  "search_entries json_data =
     raise_or (json_get json_data ''search-results'' (JObj [])) (\<lambda>results.
       json_get results ''entry'' (JArr []))"

definition build_citations :: "json \<Rightarrow> exn + json" where
  "build_citations json_data =
     raise_or (search_entries json_data) (\<lambda>entries.
     raise_or (py_iter entries) (\<lambda>es.
     raise_or (map_exn citation_of es) (\<lambda>citations.
       Inr (JObj [(''citations'', JArr citations)]))))"

definition fetch_citations ::
  "string \<Rightarrow> nat \<Rightarrow> nat \<Rightarrow> 'c world \<Rightarrow> (exn + json) \<times> 'c world" where
  "fetch_citations scopus_id count retries =
     retry_loop (\<lambda>key. SearchRequest key (''REF('' @ scopus_id @ '')'') count 0 (Some ''STANDARD''))
       ''search-results'' build_citations (JObj [(''citations'', JArr [])]) retries"

subsection \<open>The main loop of 0\_compsci.py\<close>

text \<open>\<^verbatim>\<open>d[k] = v\<close> and \<^verbatim>\<open>v > 0\<close>.\<close>

fun set_item :: "json \<Rightarrow> string \<Rightarrow> json \<Rightarrow> exn + json" where
  "set_item (JObj d) k v = Inr (JObj (AList.update k v d))"
| "set_item _ k v = Inl TypeError"

fun py_positive :: "json \<Rightarrow> exn + bool" where
  "py_positive (JInt n) = Inr (0 < n)"
| "py_positive (JBool b) = Inr b"
| "py_positive (JFloat f) = Inr (float_lt (Finite 0) f)"
| "py_positive _ = Inl TypeError"

text \<open>
  The body of \<^verbatim>\<open>for entry in entries\<close>. The state of the loop is the list
  \<^verbatim>\<open>monthly_articles\<close> with the counter \<^verbatim>\<open>total_processed\<close>.
\<close>

definition process_entry ::
  "'c jsonlib \<Rightarrow> path \<Rightarrow> string \<Rightarrow> json \<Rightarrow> json \<times> int \<Rightarrow> 'c world \<Rightarrow>
   (exn + json \<times> int) \<times> 'c world" where
  "process_entry lib year_dir month_name entry st =
     (case st of (monthly_articles, total_processed) \<Rightarrow>
     and_then (pure_step (raise_or (json_get entry ''dc:identifier'' (JStr '''')) strip_scopus_id))
       (\<lambda>scopus_id.
     and_then (fetch_metadata scopus_id 3) (\<lambda>metadata.
       if \<not> truthy metadata then pure_step (Inr (monthly_articles, total_processed))
       else
         and_then (fetch_abstract scopus_id 3) (\<lambda>abstract.
         and_then (pure_step (set_item metadata ''Abstract'' abstract)) (\<lambda>metadata.
         and_then (pure_step (raise_or (subscript metadata ''Cited_By_Count'') py_positive))
           (\<lambda>cited.
         and_then
           (if cited then
              and_then (fetch_citations scopus_id 200 3) (\<lambda>citation_data.
                pure_step (subscript citation_data ''citations''))
            else pure_step (Inr (JArr []))) (\<lambda>citations.
         and_then (pure_step (set_item metadata ''Citations'' citations)) (\<lambda>metadata.
         and_then (pure_step (py_append monthly_articles metadata)) (\<lambda>monthly_articles.
           if (total_processed + 1) mod 500 = 0 then
             and_then
               (effect (backup_data lib monthly_articles
                          (year_dir @ [backup_name month_name (total_processed + 1)])))
               (\<lambda>u. pure_step (Inr (monthly_articles, total_processed + 1)))
           else pure_step (Inr (monthly_articles, total_processed + 1)))))))))))"

fun entries_loop ::
  "(json \<Rightarrow> 's \<Rightarrow> 'w \<Rightarrow> (exn + 's) \<times> 'w) \<Rightarrow> json list \<Rightarrow> 's \<Rightarrow> 'w \<Rightarrow> (exn + 's) \<times> 'w" where
  "entries_loop step [] st = pure_step (Inr st)"
| "entries_loop step (entry # rest) st =
     and_then (step entry st) (\<lambda>st'. entries_loop step rest st')"

text \<open>
  The pagination loop \<^verbatim>\<open>while current_offset < 5000\<close>. A status other than 200 leaves
  the loop (the message printed first reads \<^verbatim>\<open>response.json()\<close>, which raises on a body
  that is not JSON); so does an empty page.
\<close>

function page_loop ::
  "'c jsonlib \<Rightarrow> path \<Rightarrow> string \<Rightarrow> string \<Rightarrow> int \<Rightarrow> json \<times> int \<Rightarrow> 'c world \<Rightarrow>
   (json \<times> int, 'c world) outcome" where
  "page_loop lib year_dir month_name query current_offset st w =
     (if current_offset < 5000 then
        (case pause_point w of
           None \<Rightarrow> Hang
         | Some w0 \<Rightarrow>
             (case get_headers w0 of
                Inl e \<Rightarrow> Exc e w0
              | Inr key \<Rightarrow>
                  (case requests_get (SearchRequest key query 200 current_offset None) w0 of
                     (Inl e, w1) \<Rightarrow> Exc e w1
                   | (Inr response, w1) \<Rightarrow>
                       (case body response of
                          None \<Rightarrow> Exc JSONDecodeError w1
                        | Some data \<Rightarrow>
                            if status_code response \<noteq> 200 then Ret st w1
                            else
                              (case search_entries data of
                                 Inl e \<Rightarrow> Exc e w1
                               | Inr entries \<Rightarrow>
                                   if \<not> truthy entries then Ret st w1
                                   else
                                     (case py_iter entries of
                                        Inl e \<Rightarrow> Exc e w1
                                      | Inr es \<Rightarrow>
                                          (case entries_loop
                                                  (process_entry lib year_dir month_name) es st w1 of
                                             (Inl e, w2) \<Rightarrow> Exc e w2
                                           | (Inr st', w2) \<Rightarrow>
                                               page_loop lib year_dir month_name query
                                                 (current_offset + 200) st' w2)))))))
      else Ret st w)"
  by pat_completeness auto
termination
  by (relation "measure (\<lambda>(lib, year_dir, month_name, query, current_offset, st, w).
                   nat (5000 - current_offset))") auto

declare page_loop.simps [simp del]

definition month_list :: "string list" where
  "month_list = [''JANUARY'', ''FEBRUARY'', ''MARCH'', ''APRIL'', ''MAY'', ''JUNE'',
                 ''JULY'', ''AUGUST'', ''SEPTEMBER'', ''OCTOBER'', ''NOVEMBER'', ''DECEMBER'']"

text \<open>
  One round of the outer loop, for the month \<open>month\<close> (1 to 12) of \<open>year\<close>, up to the
  step to the next month: the folder of the year, the test for the final output file,
  and otherwise the pause point, the resume, the pagination and the final write.
\<close>

definition harvest_month :: "'c jsonlib \<Rightarrow> int \<Rightarrow> nat \<Rightarrow> 'c world \<Rightarrow> (unit, 'c world) outcome" where
  "harvest_month lib year month w =
     (if month < 1 \<or> 12 < month then Exc IndexError w
      else
        let month_name = month_list ! (month - 1);
            query = ''SUBJAREA(COMP) AND PUBDATETXT('' @ month_name @ ''+'' @ str_int year @ '')'';
            year_dir = year_folder (str_int year);
            output_file = year_dir @ [month_name @ ''_comp_23_25.json'']
        in
        (case get_year_folder (str_int year) w of
           Inl e \<Rightarrow> Exc e w
         | Inr w1 \<Rightarrow>
             if path_exists w1 output_file then Ret () w1
             else
               (case pause_point w1 of
                  None \<Rightarrow> Hang
                | Some w2 \<Rightarrow>
                    (case resume_backup lib year_dir month_name w2 of
                       Inl e \<Rightarrow> Exc e w2
                     | Inr (start_offset, monthly_articles) \<Rightarrow>
                         (case page_loop lib year_dir month_name query start_offset
                                 (monthly_articles, start_offset) w2 of
                            Hang \<Rightarrow> Hang
                          | Exc e w3 \<Rightarrow> Exc e w3
                          | Ret (monthly_articles', total_processed) w3 \<Rightarrow>
                              (case dump_to lib output_file monthly_articles' w3 of
                                 Inl e \<Rightarrow> Exc e w3
                               | Inr w4 \<Rightarrow>
                                   (case py_len monthly_articles' of
                                      Inl e \<Rightarrow> Exc e w4
                                    | Inr n \<Rightarrow> Ret () w4)))))))"

text \<open>
  The outer loop \<^verbatim>\<open>while current_date <= end_date\<close>: the date is always the first of a
  month, and stepping from the 28th by four days and back to the first gives the first of
  the next month.
\<close>

function main_loop :: "'c jsonlib \<Rightarrow> int \<Rightarrow> nat \<Rightarrow> 'c world \<Rightarrow> (unit, 'c world) outcome" where
  "main_loop lib year month w =
     (if year < 2025 \<or> (year = 2025 \<and> month \<le> 1) then
        (case harvest_month lib year month w of
           Hang \<Rightarrow> Hang
         | Exc e w' \<Rightarrow> Exc e w'
         | Ret u w' \<Rightarrow>
             if month = 12 then main_loop lib (year + 1) 1 w'
             else main_loop lib year (month + 1) w')
      else Ret () w)"
  by pat_completeness auto

lemma harvest_month_Ret_month:
  "harvest_month lib year month w = Ret u w' \<Longrightarrow> 1 \<le> month \<and> month \<le> 12"
  by (auto simp: harvest_month_def split: if_splits)

termination main_loop
  by (relation "measure (\<lambda>(lib, year, month, w). nat (24302 - (year * 12 + int month)))")
     (auto dest: harvest_month_Ret_month)

declare main_loop.simps [simp del]

definition harvester_main :: "'c jsonlib \<Rightarrow> 'c world \<Rightarrow> (unit, 'c world) outcome" where
  "harvester_main lib w = main_loop lib 2023 1 w"
subsection \<open>The main loop of 0\_compsci\_patch.py\<close>

text \<open>
  \<^verbatim>\<open>if articles: backup_data(articles, <month>_<len(articles)>_comp_23_25.json)\<close>, which
  the patch script does at three places.
\<close>

definition save_articles ::
  "'c jsonlib \<Rightarrow> path \<Rightarrow> string \<Rightarrow> json \<Rightarrow> 'c world \<Rightarrow> exn + 'c world" where
  "save_articles lib year_dir month articles w =
     (if truthy articles then
        (case py_len articles of
           Inl e \<Rightarrow> Inl e
         | Inr n \<Rightarrow> backup_data lib articles (year_dir @ [backup_name month (int n)]) w)
      else Inr w)"

text \<open>The body of \<^verbatim>\<open>for entry in entries\<close> in the patch script.\<close>

definition process_entry_patch ::
  "'c jsonlib \<Rightarrow> path \<Rightarrow> string \<Rightarrow> json \<Rightarrow> json \<Rightarrow> 'c world \<Rightarrow> (exn + json) \<times> 'c world" where
  "process_entry_patch lib year_dir month entry articles =
     and_then (pure_step (raise_or (json_get entry ''dc:identifier'' (JStr '''')) strip_scopus_id))
       (\<lambda>scopus_id.
     if scopus_id = [] then pure_step (Inr articles)
     else
       and_then (fetch_metadata scopus_id 3) (\<lambda>metadata.
         if \<not> truthy metadata then pure_step (Inr articles)
         else
           and_then (pure_step (py_append articles metadata)) (\<lambda>articles'.
           and_then (pure_step (py_len articles')) (\<lambda>n.
             if n mod 500 = 0 then
               and_then
                 (effect (backup_data lib articles' (year_dir @ [backup_name month (int n)])))
                 (\<lambda>u. pure_step (Inr articles'))
             else pure_step (Inr articles')))))"

text \<open>
  The pagination loop \<^verbatim>\<open>while True\<close> of the patch script. Nothing bounds the number of
  its rounds, so the function takes the number of rounds it may run and returns \<open>None\<close>
  when that number does not suffice.
\<close>

fun page_loop_patch ::
  "nat \<Rightarrow> 'c jsonlib \<Rightarrow> path \<Rightarrow> string \<Rightarrow> string \<Rightarrow> int \<Rightarrow> json \<Rightarrow> 'c world \<Rightarrow>
   (json, 'c world) outcome option" where
  "page_loop_patch 0 lib year_dir month query start articles w = None"
| "page_loop_patch (Suc fuel) lib year_dir month query start articles w =
     (case pause_point w of
        None \<Rightarrow> Some Hang
      | Some w0 \<Rightarrow>
          (case get_headers w0 of
             Inl e \<Rightarrow> Some (Exc e w0)
           | Inr key \<Rightarrow>
               (case requests_get (SearchRequest key query 200 start (Some ''STANDARD'')) w0 of
                  (Inl e, w1) \<Rightarrow> Some (Exc e w1)
                | (Inr response, w1) \<Rightarrow>
                    if status_code response = 429 \<or> body response = None then
                      (case cycle_api_key w1 of
                         Inl e \<Rightarrow> Some (Exc e w1)
                       | Inr w2 \<Rightarrow> page_loop_patch fuel lib year_dir month query start articles w2)
                    else
                      (case lacks_key (the (body response)) ''search-results'' of
                         Inl e \<Rightarrow> Some (Exc e w1)
                       | Inr True \<Rightarrow>
                           (case save_articles lib year_dir month articles w1 of
                              Inl e \<Rightarrow> Some (Exc e w1)
                            | Inr w2 \<Rightarrow>
                                (case cycle_api_key w2 of
                                   Inl e \<Rightarrow> Some (Exc e w2)
                                 | Inr w3 \<Rightarrow> Some (Ret articles w3)))
                       | Inr False \<Rightarrow>
                           (case search_entries (the (body response)) of
                              Inl e \<Rightarrow> Some (Exc e w1)
                            | Inr entries \<Rightarrow>
                                if \<not> truthy entries then
                                  (case save_articles lib year_dir month articles w1 of
                                     Inl e \<Rightarrow> Some (Exc e w1)
                                   | Inr w2 \<Rightarrow> Some (Ret articles w2))
                                else
                                  (case py_iter entries of
                                     Inl e \<Rightarrow> Some (Exc e w1)
                                   | Inr es \<Rightarrow>
                                       (case entries_loop
                                               (process_entry_patch lib year_dir month) es
                                               articles w1 of
                                          (Inl e, w2) \<Rightarrow> Some (Exc e w2)
                                        | (Inr articles', w2) \<Rightarrow>
                                            page_loop_patch fuel lib year_dir month query
                                              (start + 200) articles' w2)))))))"

text \<open>One round of \<^verbatim>\<open>for month in months\<close>, with the rounds its pagination may run.\<close>

definition harvest_month_patch ::
  "nat \<Rightarrow> 'c jsonlib \<Rightarrow> string \<Rightarrow> string \<Rightarrow> 'c world \<Rightarrow> (unit, 'c world) outcome option" where
  "harvest_month_patch fuel lib year month w =
     (let year_dir = year_folder year;
          month_name = (if month = ''MAY'' then ''May'' else ''July'');
          query = ''SUBJAREA(COMP) AND PUBDATETXT('' @ month_name @ ''+'' @ year @ '')''
      in
      (case resume_backup lib year_dir month w of
         Inl e \<Rightarrow> Some (Exc e w)
       | Inr (start_offset, articles) \<Rightarrow>
           (case page_loop_patch fuel lib year_dir month query start_offset articles w of
              None \<Rightarrow> None
            | Some Hang \<Rightarrow> Some Hang
            | Some (Exc e w1) \<Rightarrow> Some (Exc e w1)
            | Some (Ret articles' w1) \<Rightarrow>
                (case save_articles lib year_dir month articles' w1 of
                   Inl e \<Rightarrow> Some (Exc e w1)
                 | Inr w2 \<Rightarrow>
                     (case py_len articles' of
                        Inl e \<Rightarrow> Some (Exc e w2)
                      | Inr n \<Rightarrow> Some (Ret () w2))))))"

fun months_loop_patch ::
  "nat \<Rightarrow> 'c jsonlib \<Rightarrow> string \<Rightarrow> string list \<Rightarrow> 'c world \<Rightarrow> (unit, 'c world) outcome option" where
  "months_loop_patch fuel lib year [] w = Some (Ret () w)"
| "months_loop_patch fuel lib year (month # months) w =
     (case harvest_month_patch fuel lib year month w of
        None \<Rightarrow> None
      | Some Hang \<Rightarrow> Some Hang
      | Some (Exc e w') \<Rightarrow> Some (Exc e w')
      | Some (Ret u w') \<Rightarrow> months_loop_patch fuel lib year months w')"

text \<open>The patch script: \<^verbatim>\<open>target_months = {"2023": ["MAY", "JULY"]}\<close>.\<close>

definition harvester_patch_main ::
  "nat \<Rightarrow> 'c jsonlib \<Rightarrow> 'c world \<Rightarrow> (unit, 'c world) outcome option" where
  "harvester_patch_main fuel lib w =
     (case get_year_folder ''2023'' w of
        Inl e \<Rightarrow> Some (Exc e w)
      | Inr w1 \<Rightarrow> months_loop_patch fuel lib ''2023'' [''MAY'', ''JULY''] w1)"

text \<open>
  The three conditions under which an attempt of an enrichment call is given up and the
  next one made: the request returned a response, and its status is 429, or its body is
  not JSON, or its body lacks the top-level key.
\<close>

definition attempt_fails :: "string \<Rightarrow> exn + response \<Rightarrow> bool" where
  "attempt_fails top_key answer =
     (case answer of
        Inl e \<Rightarrow> False
      | Inr response \<Rightarrow>
          status_code response = 429 \<or> body response = None \<or>
          lacks_key (the (body response)) top_key = Inr True)"

text \<open>
  The keys that the attempts of one call read when each of them fails: the key under the
  pointer, after which \<^verbatim>\<open>cycle_api_key()\<close> has moved the pointer on by one, round the pool.
\<close>

fun attempt_keys :: "string list \<Rightarrow> nat \<Rightarrow> nat \<Rightarrow> string list" where
  "attempt_keys keys i 0 = []"
| "attempt_keys keys i (Suc n) = keys ! i # attempt_keys keys ((i + 1) mod length keys) n"

text \<open>
  Every attempt of one call of \<open>n\<close> attempts fails: the pointer is within the pool, and the
  service fails each of the \<open>n\<close> requests of the call, each made after the requests before
  it. Nothing is asked of what the service does with any other request.
\<close>

definition all_attempts_fail ::
  "(string \<Rightarrow> request) \<Rightarrow> string \<Rightarrow> nat \<Rightarrow> 'c world \<Rightarrow> bool" where
  "all_attempts_fail mk_request top_key n w =
     (current_api_key_index w < length (API_KEYS w) \<and>
      list_all
        (\<lambda>k. attempt_fails top_key
                (server w (http_log w @
                   map mk_request
                     (take (Suc k) (attempt_keys (API_KEYS w) (current_api_key_index w) n)))))
        [0..<n])"

subsection \<open>A small world\<close>

text \<open>
  A state of the harvester for evaluating it: three keys, a year directory with two
  checkpoints of May (500 and 1000 records), one of June and the final output of April,
  and a service that answers every request with status 429.
\<close>

definition example_record :: json where
  "example_record = JObj [(''Scopus_ID'', JStr ''85000000001''), (''Title'', JStr ''A title'')]"

definition example_world :: "json world" where
  "example_world =
     \<lparr>API_KEYS = [''key-a'', ''key-b'', ''key-c''],
      current_api_key_index = 0,
      hfiles =
        [([''data'', ''comp'', ''post'', ''2023'', ''APRIL_comp_23_25.json''], JArr []),
         ([''data'', ''comp'', ''post'', ''2023'', ''MAY_500_comp_23_25.json''],
          JArr (replicate 500 example_record)),
         ([''data'', ''comp'', ''post'', ''2023'', ''JUNE_500_comp_23_25.json''],
          JArr (replicate 500 example_record)),
         ([''data'', ''comp'', ''post'', ''2023'', ''MAY_1000_comp_23_25.json''],
          JArr (replicate 1000 example_record))],
      hdirs = [[''data''], [''data'', ''comp''], [''data'', ''comp'', ''post''],
               [''data'', ''comp'', ''post'', ''2023'']],
      http_log = [],
      server = (\<lambda>log. Inr \<lparr>status_code = 429, body = Some (JObj [])\<rparr>),
      stdin = [],
      dotenv_keys = None\<rparr>"

text \<open>
  A world whose service answers the first request with the metadata of an article that is
  not cited, and every later request with status 429 and a body that is not JSON; the same
  with an article that is cited twice; and a search entry.
\<close>

definition metadata_body :: json where
  "metadata_body =
     JObj [(''abstracts-retrieval-response'',
            JObj [(''coredata'',
                   JObj [(''dc:title'', JStr ''A title''), (''citedby-count'', JStr ''0'')])])]"

definition enrich_world :: "json world" where
  "enrich_world =
     \<lparr>API_KEYS = [''key-a'', ''key-b''],
      current_api_key_index = 0,
      hfiles = [],
      hdirs = [[''data''], [''data'', ''comp''], [''data'', ''comp'', ''post''],
               [''data'', ''comp'', ''post'', ''2023'']],
      http_log = [],
      server = (\<lambda>log. if length log = 1 then Inr \<lparr>status_code = 200, body = Some metadata_body\<rparr>
                       else Inr \<lparr>status_code = 429, body = None\<rparr>),
      stdin = [],
      dotenv_keys = None\<rparr>"

definition cited_body :: json where
  "cited_body =
     JObj [(''abstracts-retrieval-response'',
            JObj [(''coredata'',
                   JObj [(''dc:title'', JStr ''A title''), (''citedby-count'', JStr ''2'')])])]"

definition cited_world :: "json world" where
  "cited_world =
     \<lparr>API_KEYS = [''key-a'', ''key-b''],
      current_api_key_index = 0,
      hfiles = [],
      hdirs = [[''data''], [''data'', ''comp''], [''data'', ''comp'', ''post''],
               [''data'', ''comp'', ''post'', ''2023'']],
      http_log = [],
      server = (\<lambda>log. if length log = 1 then Inr \<lparr>status_code = 200, body = Some cited_body\<rparr>
                       else Inr \<lparr>status_code = 429, body = None\<rparr>),
      stdin = [],
      dotenv_keys = None\<rparr>"

definition example_entry :: json where
  "example_entry = JObj [(''dc:identifier'', JStr ''SCOPUS_ID:1'')]"

text \<open>
  A world whose service answers the first request with status 429 and every later one
  with an empty page of search results.
\<close>

definition empty_page :: json where
  "empty_page = JObj [(''search-results'', JObj [(''entry'', JArr [])])]"

definition rate_world :: "json world" where
  "rate_world =
     \<lparr>API_KEYS = [''key-a'', ''key-b'', ''key-c''],
      current_api_key_index = 0,
      hfiles = [],
      hdirs = [],
      http_log = [],
      server = (\<lambda>log. if length log \<le> 1 then Inr \<lparr>status_code = 429, body = Some (JObj [])\<rparr>
                       else Inr \<lparr>status_code = 200, body = Some empty_page\<rparr>),
      stdin = [],
      dotenv_keys = None\<rparr>"

text \<open>The final output file of a bucket, as the outer loop names it.\<close>

definition final_output :: "int \<Rightarrow> nat \<Rightarrow> path" where
  "final_output year month =
     year_folder (str_int year) @ [month_list ! (month - 1) @ ''_comp_23_25.json'']"

text \<open>
  A file system is consistent when every ancestor of a file or directory is a directory
  and no path is both a file and a directory (the working directory, the empty path,
  is a directory).
\<close>

definition consistent :: "'c world \<Rightarrow> bool" where
  "consistent w =
     ((\<forall>p \<in> set (map fst (hfiles w)) \<union> set (hdirs w).
         \<forall>q \<in> set (prefixes p). q \<noteq> [] \<and> q \<noteq> p \<longrightarrow> q \<in> set (hdirs w)) \<and>
      (\<forall>p \<in> set (hdirs w). map_of (hfiles w) p = None) \<and>
      map_of (hfiles w) [] = None)"

text \<open>
  A world where the final outputs of May and July 2023 exist and the service answers
  every request with an empty page.
\<close>

definition patch_world :: "json world" where
  "patch_world =
     \<lparr>API_KEYS = [''key-a'', ''key-b'', ''key-c''],
      current_api_key_index = 0,
      hfiles =
        [([''data'', ''comp'', ''post'', ''2023'', ''MAY_comp_23_25.json''], JArr []),
         ([''data'', ''comp'', ''post'', ''2023'', ''JULY_comp_23_25.json''], JArr [])],
      hdirs = [[''data''], [''data'', ''comp''], [''data'', ''comp'', ''post''],
               [''data'', ''comp'', ''post'', ''2023'']],
      http_log = [],
      server = (\<lambda>log. Inr \<lparr>status_code = 200, body = Some empty_page\<rparr>),
      stdin = [],
      dotenv_keys = None\<rparr>"

text \<open>
  A world where the final output files of all the buckets exist.
\<close>

definition complete_world :: "json world" where
  "complete_world =
     \<lparr>API_KEYS = [''key-a''],
      current_api_key_index = 0,
      hfiles =
        [([''data'', ''comp'', ''post'', ''2023'', ''JANUARY_comp_23_25.json''], JArr []),
         ([''data'', ''comp'', ''post'', ''2023'', ''FEBRUARY_comp_23_25.json''], JArr []),
         ([''data'', ''comp'', ''post'', ''2023'', ''MARCH_comp_23_25.json''], JArr []),
         ([''data'', ''comp'', ''post'', ''2023'', ''APRIL_comp_23_25.json''], JArr []),
         ([''data'', ''comp'', ''post'', ''2023'', ''MAY_comp_23_25.json''], JArr []),
         ([''data'', ''comp'', ''post'', ''2023'', ''JUNE_comp_23_25.json''], JArr []),
         ([''data'', ''comp'', ''post'', ''2023'', ''JULY_comp_23_25.json''], JArr []),
         ([''data'', ''comp'', ''post'', ''2023'', ''AUGUST_comp_23_25.json''], JArr []),
         ([''data'', ''comp'', ''post'', ''2023'', ''SEPTEMBER_comp_23_25.json''], JArr []),
         ([''data'', ''comp'', ''post'', ''2023'', ''OCTOBER_comp_23_25.json''], JArr []),
         ([''data'', ''comp'', ''post'', ''2023'', ''NOVEMBER_comp_23_25.json''], JArr []),
         ([''data'', ''comp'', ''post'', ''2023'', ''DECEMBER_comp_23_25.json''], JArr []),
         ([''data'', ''comp'', ''post'', ''2024'', ''JANUARY_comp_23_25.json''], JArr []),
         ([''data'', ''comp'', ''post'', ''2024'', ''FEBRUARY_comp_23_25.json''], JArr []),
         ([''data'', ''comp'', ''post'', ''2024'', ''MARCH_comp_23_25.json''], JArr []),
         ([''data'', ''comp'', ''post'', ''2024'', ''APRIL_comp_23_25.json''], JArr []),
         ([''data'', ''comp'', ''post'', ''2024'', ''MAY_comp_23_25.json''], JArr []),
         ([''data'', ''comp'', ''post'', ''2024'', ''JUNE_comp_23_25.json''], JArr []),
         ([''data'', ''comp'', ''post'', ''2024'', ''JULY_comp_23_25.json''], JArr []),
         ([''data'', ''comp'', ''post'', ''2024'', ''AUGUST_comp_23_25.json''], JArr []),
         ([''data'', ''comp'', ''post'', ''2024'', ''SEPTEMBER_comp_23_25.json''], JArr []),
         ([''data'', ''comp'', ''post'', ''2024'', ''OCTOBER_comp_23_25.json''], JArr []),
         ([''data'', ''comp'', ''post'', ''2024'', ''NOVEMBER_comp_23_25.json''], JArr []),
         ([''data'', ''comp'', ''post'', ''2024'', ''DECEMBER_comp_23_25.json''], JArr []),
         ([''data'', ''comp'', ''post'', ''2025'', ''JANUARY_comp_23_25.json''], JArr [])],
      hdirs = [[''data''], [''data'', ''comp''], [''data'', ''comp'', ''post''],
               [''data'', ''comp'', ''post'', ''2023''],
               [''data'', ''comp'', ''post'', ''2024''],
               [''data'', ''comp'', ''post'', ''2025'']],
      http_log = [],
      server = (\<lambda>log. Inr \<lparr>status_code = 200, body = Some empty_page\<rparr>),
      stdin = [],
      dotenv_keys = None\<rparr>"

section \<open>Properties of the annotator\<close>






lemma process_article_calls:
  "process_article bino a st = (e, st') \<Longrightarrow>
     scorer_calls st' = scorer_calls st @ (if passes_checks a then [a] else [])"
  by (cases a) (auto simp: Let_def split: if_splits sum.splits)

lemma process_article_exn:
  "process_article bino a st = (Some x, st') \<Longrightarrow> st' = st"
  by (cases a) (auto simp: Let_def split: if_splits sum.splits)

lemma stream_loop_calls:
  "stream_loop bino items st = (e, st') \<Longrightarrow>
     \<exists>n \<le> length items. scorer_calls st' = scorer_calls st @ filter passes_checks (take n items)
        \<and> (e = None \<longrightarrow> n = length items)"
proof (induction items arbitrary: st)
  case Nil
  then show ?case by auto
next
  case (Cons a items)
  obtain e1 st1 where step: "process_article bino a st = (e1, st1)"
    by (cases "process_article bino a st") auto
  note c1 = process_article_calls [OF step]
  show ?case
  proof (cases e1)
    case (Some x)
    with Cons.prems step have "st' = st1" "e = Some x" by simp_all
    moreover from step Some have "st1 = st" by (simp add: process_article_exn)
    ultimately show ?thesis by (intro exI [of _ 0]) simp
  next
    case None
    with Cons.prems step have "stream_loop bino items st1 = (e, st')" by simp
    from Cons.IH [OF this] obtain n where n: "n \<le> length items"
      "scorer_calls st' = scorer_calls st1 @ filter passes_checks (take n items)"
      "e = None \<longrightarrow> n = length items" by blast
    with c1 show ?thesis by (intro exI [of _ "Suc n"]) simp
  qed
qed

lemma stream_loop_all_scored:
  "\<forall>a \<in> set items. \<exists>article. a = JObj article \<and> has_score article \<Longrightarrow>
     stream_loop bino items st = (None, st)"
  by (induction items) auto

lemma map_of_set_scores:
  "map_of (set_scores scores article) =
     (map_of article)(''Binoculars_Score'' \<mapsto> JFloat (Binoculars_Score scores),
                      ''Accuracy_Prediction'' \<mapsto> JInt (Accuracy_Prediction scores),
                      ''FPR_Prediction'' \<mapsto> JInt (FPR_Prediction scores))"
  by (simp add: set_scores_def update_conv')

lemma merge_article_Inr:
  "merge_article d a = Inr a' \<Longrightarrow>
     \<exists>article k. a = JObj article \<and> py_hash (dict_get article ''Scopus_ID'' JNull) = Inr k \<and>
       (case dict_lookup d k of
          None \<Rightarrow> a' = a
        | Some scores \<Rightarrow> map_of article ''Scopus_ID'' \<noteq> None \<and> a' = JObj (set_scores scores article))"
  by (cases a) (auto split: sum.splits option.splits)

lemma merge_loop_Inr:
  "merge_loop d data = Inr data' \<Longrightarrow>
     length data' = length data \<and> (\<forall>i < length data. merge_article d (data ! i) = Inr (data' ! i))"
proof (induction data arbitrary: data')
  case Nil
  then show ?case by simp
next
  case (Cons a data)
  from Cons.prems obtain a' rest' where
    a: "merge_article d a = Inr a'" and r: "merge_loop d data = Inr rest'" and
    d: "data' = a' # rest'"
    by (auto split: sum.splits)
  from Cons.IH [OF r] a d show ?case
    by (auto simp: nth_Cons split: nat.splits)
qed

lemma build_scores_dict_last:
  "build_scores_dict items d0 = Inr d \<Longrightarrow>
     d k = (case filter (\<lambda>it. py_hash (Scopus_ID it) = Inr k) items of
              [] \<Rightarrow> d0 k | x # xs \<Rightarrow> Some (last (x # xs)))"
proof (induction items arbitrary: d0)
  case Nil
  then show ?case by simp
next
  case (Cons it items)
  from Cons.prems obtain k' where k': "py_hash (Scopus_ID it) = Inr k'"
    and rest: "build_scores_dict items (d0(k' \<mapsto> it)) = Inr d"
    by (auto split: sum.splits)
  from Cons.IH [OF rest] k' show ?case
    by (auto split: list.splits)
qed

lemma process_article_made:
  assumes "process_article bino a st = (e, st')"
    and "\<forall>it \<in> set (processed_items st). \<exists>article score.
           JObj article \<in> set (scorer_calls st) \<and>
           bino (dict_get article ''Abstract'' (JStr '''')) = Inr score \<and>
           it = make_item article score"
  shows "\<forall>it \<in> set (processed_items st'). \<exists>article score.
           JObj article \<in> set (scorer_calls st') \<and>
           bino (dict_get article ''Abstract'' (JStr '''')) = Inr score \<and>
           it = make_item article score"
proof (cases a)
  case (JObj article)
  show ?thesis
  proof (cases "has_score article \<or> no_text (dict_get article ''Abstract'' (JStr ''''))")
    case True
    with assms(1) JObj have "st' = st" by (auto simp: Let_def split: if_splits)
    with assms(2) show ?thesis by simp
  next
    case False
    show ?thesis
    proof (cases "bino (dict_get article ''Abstract'' (JStr ''''))")
      case (Inl x)
      with assms(1) JObj False
      have "st' = st\<lparr>scorer_calls := scorer_calls st @ [JObj article]\<rparr>"
        by (auto simp: Let_def split: if_splits)
      with assms(2) show ?thesis by fastforce
    next
      case (Inr score)
      with assms(1) JObj False
      have st': "st' = st\<lparr>scorer_calls := scorer_calls st @ [JObj article],
                         processed_items := processed_items st @ [make_item article score]\<rparr>"
        by (auto simp: Let_def split: if_splits)
      show ?thesis
      proof
        fix it assume "it \<in> set (processed_items st')"
        with st' have "it \<in> set (processed_items st) \<or> it = make_item article score" by auto
        then show "\<exists>article score.
           JObj article \<in> set (scorer_calls st') \<and>
           bino (dict_get article ''Abstract'' (JStr '''')) = Inr score \<and>
           it = make_item article score"
        proof
          assume "it \<in> set (processed_items st)"
          with assms(2) obtain ar sc where
            "JObj ar \<in> set (scorer_calls st)"
            "bino (dict_get ar ''Abstract'' (JStr '''')) = Inr sc" "it = make_item ar sc"
            by blast
          with st' show ?thesis by (intro exI [of _ ar] exI [of _ sc]) simp
        next
          assume "it = make_item article score"
          with st' Inr show ?thesis by (intro exI [of _ article] exI [of _ score]) simp
        qed
      qed
    qed
  qed
qed (use assms in auto)

lemma stream_loop_made:
  "stream_loop bino items st = (e, st') \<Longrightarrow>
   \<forall>it \<in> set (processed_items st). \<exists>article score.
           JObj article \<in> set (scorer_calls st) \<and>
           bino (dict_get article ''Abstract'' (JStr '''')) = Inr score \<and>
           it = make_item article score \<Longrightarrow>
   \<forall>it \<in> set (processed_items st'). \<exists>article score.
           JObj article \<in> set (scorer_calls st') \<and>
           bino (dict_get article ''Abstract'' (JStr '''')) = Inr score \<and>
           it = make_item article score"
proof (induction items arbitrary: st)
  case Nil
  then show ?case by simp
next
  case (Cons a items)
  obtain e1 st1 where step: "process_article bino a st = (e1, st1)"
    by (cases "process_article bino a st") auto
  note inv1 = process_article_made [OF step Cons.prems(2)]
  show ?case
  proof (cases e1)
    case (Some x)
    with Cons.prems(1) step have "st' = st1" by simp
    with inv1 show ?thesis by simp
  next
    case None
    with Cons.prems(1) step have "stream_loop bino items st1 = (e, st')" by simp
    from Cons.IH [OF this inv1] show ?thesis .
  qed
qed

lemma passes_checksD:
  "passes_checks a \<Longrightarrow>
     \<exists>article. a = JObj article \<and> \<not> has_score article \<and>
        \<not> no_text (dict_get article ''Abstract'' (JStr ''''))"
  by (cases a) auto

lemma streaming_pass_loop:
  assumes "streaming_pass lib bino c = (e, st)"
  shows "\<exists>e1. stream_loop bino (fst (ijson_items lib c))
                 \<lparr>processed_items = [], scorer_calls = []\<rparr> = (e1, st) \<and>
              (e = None \<longrightarrow> e1 = None)"
proof -
  obtain items err where it: "ijson_items lib c = (items, err)"
    by (cases "ijson_items lib c") auto
  obtain e1 st1 where lp:
    "stream_loop bino items \<lparr>processed_items = [], scorer_calls = []\<rparr> = (e1, st1)"
    by (cases "stream_loop bino items \<lparr>processed_items = [], scorer_calls = []\<rparr>") auto
  from assms it lp have "st = st1" and "e = None \<longrightarrow> e1 = None"
    by (auto simp: streaming_pass_def split: option.splits)
  with it lp show ?thesis by simp
qed

text \<open>
  C2. Annotator skip rule. In the first pass over the streamed array, an article that
  carries a non-null score is never handed to the scorer, and neither is one whose text is
  missing, empty or "N/A" (or false in Python's sense at all). Every article that is handed
  to the scorer is an element of the streamed array that passes both checks, and every
  collected item was made from such an article and the score the scorer returned for its
  text.
\<close>

theorem skip_rule:
  assumes "streaming_pass lib bino c = (e, st)"
  shows
    "(\<forall>article. has_score article \<longrightarrow> JObj article \<notin> set (scorer_calls st)) \<and>
     (\<forall>article. map_of article ''Abstract'' = None \<or>
                 map_of article ''Abstract'' = Some (JStr '''') \<or>
                 map_of article ''Abstract'' = Some (JStr ''N/A'')
                 \<longrightarrow> JObj article \<notin> set (scorer_calls st)) \<and>
     (\<forall>article. no_text (dict_get article ''Abstract'' (JStr ''''))
                 \<longrightarrow> JObj article \<notin> set (scorer_calls st)) \<and>
     (\<forall>a \<in> set (scorer_calls st). a \<in> set (fst (ijson_items lib c)) \<and>
        (\<exists>article. a = JObj article \<and> \<not> has_score article \<and>
           \<not> no_text (dict_get article ''Abstract'' (JStr '''')))) \<and>
     (\<forall>it \<in> set (processed_items st). \<exists>article score.
        JObj article \<in> set (scorer_calls st) \<and>
        bino (dict_get article ''Abstract'' (JStr '''')) = Inr score \<and>
        it = make_item article score)"
proof -
  from streaming_pass_loop [OF assms] obtain e1 where
    lp: "stream_loop bino (fst (ijson_items lib c))
           \<lparr>processed_items = [], scorer_calls = []\<rparr> = (e1, st)"
    by blast
  from stream_loop_calls [OF lp] obtain n where
    calls: "scorer_calls st = filter passes_checks (take n (fst (ijson_items lib c)))"
    by auto
  have in_calls: "a \<in> set (fst (ijson_items lib c)) \<and> passes_checks a"
    if "a \<in> set (scorer_calls st)" for a
    using that calls by (auto dest: in_set_takeD)
  have a: "\<forall>article. has_score article \<longrightarrow> JObj article \<notin> set (scorer_calls st)"
    using in_calls by fastforce
  have c: "\<forall>article. no_text (dict_get article ''Abstract'' (JStr ''''))
                 \<longrightarrow> JObj article \<notin> set (scorer_calls st)"
    using in_calls by fastforce
  have b: "\<forall>article. map_of article ''Abstract'' = None \<or>
                 map_of article ''Abstract'' = Some (JStr '''') \<or>
                 map_of article ''Abstract'' = Some (JStr ''N/A'')
                 \<longrightarrow> JObj article \<notin> set (scorer_calls st)"
  proof (intro allI impI)
    fix article
    assume "map_of article ''Abstract'' = None \<or>
                 map_of article ''Abstract'' = Some (JStr '''') \<or>
                 map_of article ''Abstract'' = Some (JStr ''N/A'')"
    then have "no_text (dict_get article ''Abstract'' (JStr ''''))"
      by (auto simp: no_text_def dict_get_def)
    with c show "JObj article \<notin> set (scorer_calls st)" by blast
  qed
  have d: "\<forall>a \<in> set (scorer_calls st). a \<in> set (fst (ijson_items lib c)) \<and>
        (\<exists>article. a = JObj article \<and> \<not> has_score article \<and>
           \<not> no_text (dict_get article ''Abstract'' (JStr '''')))"
    using in_calls passes_checksD by blast
  have e': "\<forall>it \<in> set (processed_items st). \<exists>article score.
        JObj article \<in> set (scorer_calls st) \<and>
        bino (dict_get article ''Abstract'' (JStr '''')) = Inr score \<and>
        it = make_item article score"
    by (rule stream_loop_made [OF lp]) simp
  from a b c d e' show ?thesis by (intro conjI)
qed

lemma example_streaming_pass:
  "streaming_pass example_lib example_bino example_document =
     (None,
      \<lparr>processed_items =
         [\<lparr>Scopus_ID = JStr ''3'', Binoculars_Score = Finite (19 / 20),
           Accuracy_Prediction = 0, FPR_Prediction = 0\<rparr>],
       scorer_calls = [JObj [(''Scopus_ID'', JStr ''3''), (''Abstract'', JStr ''third'')]]\<rparr>)"
  by (simp add: streaming_pass_def example_lib_def example_bino_def example_document_def
      has_score_def no_text_def dict_get_def make_item_def accuracy_prediction_def
      fpr_prediction_def BINOCULARS_ACCURACY_THRESHOLD_def BINOCULARS_FPR_THRESHOLD_def)

theorem skip_rule_witness:
  "streaming_pass example_lib example_bino example_document =
     (None,
      \<lparr>processed_items =
         [\<lparr>Scopus_ID = JStr ''3'', Binoculars_Score = Finite (19 / 20),
           Accuracy_Prediction = 0, FPR_Prediction = 0\<rparr>],
       scorer_calls = [JObj [(''Scopus_ID'', JStr ''3''), (''Abstract'', JStr ''third'')]]\<rparr>)
   \<and> has_score [(''Scopus_ID'', JStr ''1''), (''Abstract'', JStr ''first''),
                 (''Binoculars_Score'', JFloat (Finite (1 / 2)))]
   \<and> JObj [(''Scopus_ID'', JStr ''1''), (''Abstract'', JStr ''first''),
                 (''Binoculars_Score'', JFloat (Finite (1 / 2)))]
        \<notin> set [JObj [(''Scopus_ID'', JStr ''3''), (''Abstract'', JStr ''third'')]]
   \<and> map_of [(''Scopus_ID'', JStr ''2''), (''Abstract'', JStr '''')] ''Abstract'' = Some (JStr '''')
   \<and> JObj [(''Scopus_ID'', JStr ''2''), (''Abstract'', JStr '''')]
        \<notin> set [JObj [(''Scopus_ID'', JStr ''3''), (''Abstract'', JStr ''third'')]]
   \<and> \<not> has_score [(''Scopus_ID'', JStr ''3''), (''Abstract'', JStr ''third'')]
   \<and> \<not> no_text (dict_get [(''Scopus_ID'', JStr ''3''), (''Abstract'', JStr ''third'')]
                    ''Abstract'' (JStr ''''))"
  using skip_rule [OF example_streaming_pass]
  by (simp add: example_streaming_pass has_score_def no_text_def dict_get_def)

lemma merged_document_Some:
  "merged_document lib bino c = Some data' \<Longrightarrow>
     \<exists>st data scores_dict. streaming_pass lib bino c = (None, st) \<and> processed_items st \<noteq> [] \<and>
        json_load lib c = Inr data \<and>
        build_scores_dict (processed_items st) Map.empty = Inr scores_dict \<and>
        merge_data scores_dict data = Inr data'"
  by (cases "streaming_pass lib bino c")
     (auto simp: merged_document_def split: option.splits if_splits sum.splits)

lemma merged_document_None:
  "processed_items (snd (streaming_pass lib bino c)) = [] \<Longrightarrow> merged_document lib bino c = None"
  by (cases "streaming_pass lib bino c")
     (auto simp: merged_document_def split: option.splits)

lemma streaming_pass_all_scored:
  assumes "\<forall>a \<in> set (fst (ijson_items lib c)). \<exists>article. a = JObj article \<and> has_score article"
  shows "snd (streaming_pass lib bino c) = \<lparr>processed_items = [], scorer_calls = []\<rparr>"
proof -
  obtain items err where it: "ijson_items lib c = (items, err)"
    by (cases "ijson_items lib c") auto
  with assms have "stream_loop bino items \<lparr>processed_items = [], scorer_calls = []\<rparr>
      = (None, \<lparr>processed_items = [], scorer_calls = []\<rparr>)"
    by (intro stream_loop_all_scored) simp
  with it show ?thesis by (simp add: streaming_pass_def)
qed

text \<open>
  C4. No-op write guard. When the first pass collects no item, the function returns False
  and the file system is what it was: no directory is created and no file is written. That
  is the case in particular when every streamed record already carries a non-null score;
  then the scorer is not called either. The same holds for the patch variant.
\<close>

theorem no_new_scores_no_write:
  assumes "files fs input_file = Some c"
  shows
    "(processed_items (snd (streaming_pass lib bino c)) = [] \<longrightarrow>
        process_file_streaming lib input_file output_file bino fs = (False, fs) \<and>
        process_file_streaming_patch lib input_file output_file bino fs = (False, fs)) \<and>
     ((\<forall>a \<in> set (fst (ijson_items lib c)). \<exists>article. a = JObj article \<and> has_score article) \<longrightarrow>
        processed_items (snd (streaming_pass lib bino c)) = [] \<and>
        scorer_calls (snd (streaming_pass lib bino c)) = [] \<and>
        process_file_streaming lib input_file output_file bino fs = (False, fs) \<and>
        process_file_streaming_patch lib input_file output_file bino fs = (False, fs))"
proof -
  have none: "process_file_streaming lib input_file output_file bino fs = (False, fs) \<and>
        process_file_streaming_patch lib input_file output_file bino fs = (False, fs)"
    if "processed_items (snd (streaming_pass lib bino c)) = []"
    using assms merged_document_None [OF that]
    by (simp add: process_file_streaming_def process_file_streaming_patch_def)
  have all: "processed_items (snd (streaming_pass lib bino c)) = [] \<and>
        scorer_calls (snd (streaming_pass lib bino c)) = []"
    if "\<forall>a \<in> set (fst (ijson_items lib c)). \<exists>article. a = JObj article \<and> has_score article"
    using streaming_pass_all_scored [OF that] by simp
  from none all show ?thesis by blast
qed

theorem no_new_scores_no_write_witness:
  "files \<lparr>files = [[''in.json''] \<mapsto> scored_document], dirs = {}\<rparr> [''in.json'']
      = Some scored_document
   \<and> fst (ijson_items example_lib scored_document) =
       [JObj [(''Scopus_ID'', JStr ''1''), (''Abstract'', JStr ''first''),
                 (''Binoculars_Score'', JFloat (Finite (1 / 2)))],
        JObj [(''Scopus_ID'', JStr ''2''), (''Abstract'', JStr ''second''),
                 (''Binoculars_Score'', JFloat (Finite (19 / 20)))]]
   \<and> has_score [(''Scopus_ID'', JStr ''1''), (''Abstract'', JStr ''first''),
                 (''Binoculars_Score'', JFloat (Finite (1 / 2)))]
   \<and> has_score [(''Scopus_ID'', JStr ''2''), (''Abstract'', JStr ''second''),
                 (''Binoculars_Score'', JFloat (Finite (19 / 20)))]
   \<and> processed_items (snd (streaming_pass example_lib example_bino scored_document)) = []
   \<and> scorer_calls (snd (streaming_pass example_lib example_bino scored_document)) = []
   \<and> process_file_streaming example_lib [''in.json''] [''out'', ''in.json''] example_bino
        \<lparr>files = [[''in.json''] \<mapsto> scored_document], dirs = {}\<rparr>
      = (False, \<lparr>files = [[''in.json''] \<mapsto> scored_document], dirs = {}\<rparr>)
   \<and> process_file_streaming_patch example_lib [''in.json''] [''out'', ''in.json''] example_bino
        \<lparr>files = [[''in.json''] \<mapsto> scored_document], dirs = {}\<rparr>
      = (False, \<lparr>files = [[''in.json''] \<mapsto> scored_document], dirs = {}\<rparr>)"
  using no_new_scores_no_write
    [where fs = "\<lparr>files = [[''in.json''] \<mapsto> scored_document], dirs = {}\<rparr>"
       and input_file = "[''in.json'']" and c = scored_document and lib = example_lib
       and bino = example_bino and output_file = "[''out'', ''in.json'']"]
  by (simp add: example_lib_def scored_document_def has_score_def)

lemma filter_update_other:
  "\<not> P k \<Longrightarrow> filter (\<lambda>p. P (fst p)) (AList.update k v al) = filter (\<lambda>p. P (fst p)) al"
  by (induction al) auto

lemma filter_set_scores_gen:
  "\<not> P ''Binoculars_Score'' \<Longrightarrow> \<not> P ''Accuracy_Prediction'' \<Longrightarrow> \<not> P ''FPR_Prediction'' \<Longrightarrow>
     filter (\<lambda>p. P (fst p)) (set_scores scores article) = filter (\<lambda>p. P (fst p)) article"
  by (simp add: set_scores_def filter_update_other)

lemma filter_set_scores:
  "filter (\<lambda>p. fst p \<notin> {''Binoculars_Score'', ''Accuracy_Prediction'', ''FPR_Prediction''})
       (set_scores scores article) =
   filter (\<lambda>p. fst p \<notin> {''Binoculars_Score'', ''Accuracy_Prediction'', ''FPR_Prediction''})
       article"
  using filter_set_scores_gen
    [of "\<lambda>k. k \<notin> {''Binoculars_Score'', ''Accuracy_Prediction'', ''FPR_Prediction''}"]
  by simp

lemma merged_document_correct:
  assumes md: "merged_document lib bino c = Some data'"
    and load: "json_load lib c = Inr (JArr data)"
  shows "\<exists>scores_dict merged.
     build_scores_dict (processed_items (snd (streaming_pass lib bino c))) Map.empty
       = Inr scores_dict \<and>
     data' = JArr merged \<and> length merged = length data \<and>
     (\<forall>i < length data. \<exists>article k.
        data ! i = JObj article \<and> py_hash (dict_get article ''Scopus_ID'' JNull) = Inr k \<and>
        (case dict_lookup scores_dict k of
           None \<Rightarrow> merged ! i = data ! i
         | Some scores \<Rightarrow> merged ! i = JObj (set_scores scores article)))"
proof -
  from merged_document_Some [OF md] load obtain st scores_dict where
    sp: "streaming_pass lib bino c = (None, st)"
    and bd: "build_scores_dict (processed_items st) Map.empty = Inr scores_dict"
    and mg: "merge_data scores_dict (JArr data) = Inr data'"
    by auto
  from mg obtain merged where ml: "merge_loop scores_dict data = Inr merged"
    and d': "data' = JArr merged"
    by (auto split: sum.splits)
  from merge_loop_Inr [OF ml] have len: "length merged = length data"
    and each: "\<forall>i < length data. merge_article scores_dict (data ! i) = Inr (merged ! i)"
    by auto
  have "\<exists>article k.
        data ! i = JObj article \<and> py_hash (dict_get article ''Scopus_ID'' JNull) = Inr k \<and>
        (case dict_lookup scores_dict k of
           None \<Rightarrow> merged ! i = data ! i
         | Some scores \<Rightarrow> merged ! i = JObj (set_scores scores article))"
    if "i < length data" for i
  proof -
    from each that have "merge_article scores_dict (data ! i) = Inr (merged ! i)" by simp
    from merge_article_Inr [OF this] show ?thesis
      by (auto split: option.splits)
  qed
  with sp bd d' len show ?thesis by auto
qed

lemma process_file_streaming_True:
  "process_file_streaming lib input_file output_file bino fs = (True, fs') \<Longrightarrow>
     \<exists>c data'. files fs input_file = Some c \<and> merged_document lib bino c = Some data' \<and>
        files fs' output_file = Some (json_dump lib False data')"
  by (auto simp: process_file_streaming_def mkdir_parents_def write_file_def
           split: option.splits sum.splits if_splits)

lemma process_file_streaming_patch_True:
  "process_file_streaming_patch lib input_file output_file bino fs = (True, fs') \<Longrightarrow>
     \<exists>c data'. files fs input_file = Some c \<and> merged_document lib bino c = Some data' \<and>
        files fs' (patched_filename input_file) = Some (json_dump lib False data')"
  by (auto simp: process_file_streaming_patch_def write_file_def
           split: option.splits sum.splits if_splits)

text \<open>
  C1. Annotator merge correctness. When the function has written its output (in either
  variant), the written document is the dump of a list as long as the reloaded one, and
  for every position: the record is an object with a hashable identifier; when the
  identifier is not in the lookup the output record is the input record; when it is, the
  output record has the score and the two predictions of the lookup's entry under their
  three keys, and every other field is as in the input (same values, same order).
\<close>

theorem merge_correctness:
  assumes "files fs input_file = Some c"
    and "json_load lib c = Inr (JArr data)"
    and "process_file_streaming lib input_file output_file bino fs = (True, fs') \<and>
           written = files fs' output_file \<or>
         process_file_streaming_patch lib input_file output_file bino fs = (True, fs') \<and>
           written = files fs' (patched_filename input_file)"
  shows "\<exists>scores_dict merged.
     build_scores_dict (processed_items (snd (streaming_pass lib bino c))) Map.empty
       = Inr scores_dict \<and>
     written = Some (json_dump lib False (JArr merged)) \<and> length merged = length data \<and>
     (\<forall>i < length data. \<exists>article k.
        data ! i = JObj article \<and> py_hash (dict_get article ''Scopus_ID'' JNull) = Inr k \<and>
        (case dict_lookup scores_dict k of
           None \<Rightarrow> merged ! i = data ! i
         | Some scores \<Rightarrow>
             (\<exists>article'. merged ! i = JObj article' \<and>
                map_of article' =
                  (map_of article)(''Binoculars_Score'' \<mapsto> JFloat (Binoculars_Score scores),
                      ''Accuracy_Prediction'' \<mapsto> JInt (Accuracy_Prediction scores),
                      ''FPR_Prediction'' \<mapsto> JInt (FPR_Prediction scores)) \<and>
                filter (\<lambda>p. fst p \<notin> {''Binoculars_Score'', ''Accuracy_Prediction'',
                                        ''FPR_Prediction''}) article' =
                filter (\<lambda>p. fst p \<notin> {''Binoculars_Score'', ''Accuracy_Prediction'',
                                        ''FPR_Prediction''}) article)))"
proof -
  from assms(3) assms(1) obtain data' where
    md: "merged_document lib bino c = Some data'"
    and wr: "written = Some (json_dump lib False data')"
    by (auto dest!: process_file_streaming_True process_file_streaming_patch_True)
  from merged_document_correct [OF md assms(2)] obtain scores_dict merged where
    bd: "build_scores_dict (processed_items (snd (streaming_pass lib bino c))) Map.empty
       = Inr scores_dict"
    and d': "data' = JArr merged" and len: "length merged = length data"
    and each: "\<forall>i < length data. \<exists>article k.
        data ! i = JObj article \<and> py_hash (dict_get article ''Scopus_ID'' JNull) = Inr k \<and>
        (case dict_lookup scores_dict k of
           None \<Rightarrow> merged ! i = data ! i
         | Some scores \<Rightarrow> merged ! i = JObj (set_scores scores article))"
    by blast
  have "\<exists>article k.
        data ! i = JObj article \<and> py_hash (dict_get article ''Scopus_ID'' JNull) = Inr k \<and>
        (case dict_lookup scores_dict k of
           None \<Rightarrow> merged ! i = data ! i
         | Some scores \<Rightarrow>
             (\<exists>article'. merged ! i = JObj article' \<and>
                map_of article' =
                  (map_of article)(''Binoculars_Score'' \<mapsto> JFloat (Binoculars_Score scores),
                      ''Accuracy_Prediction'' \<mapsto> JInt (Accuracy_Prediction scores),
                      ''FPR_Prediction'' \<mapsto> JInt (FPR_Prediction scores)) \<and>
                filter (\<lambda>p. fst p \<notin> {''Binoculars_Score'', ''Accuracy_Prediction'',
                                        ''FPR_Prediction''}) article' =
                filter (\<lambda>p. fst p \<notin> {''Binoculars_Score'', ''Accuracy_Prediction'',
                                        ''FPR_Prediction''}) article))"
    if "i < length data" for i
  proof -
    from each that obtain article k where
      a: "data ! i = JObj article" and k: "py_hash (dict_get article ''Scopus_ID'' JNull) = Inr k"
      and m: "case dict_lookup scores_dict k of
           None \<Rightarrow> merged ! i = data ! i
         | Some scores \<Rightarrow> merged ! i = JObj (set_scores scores article)"
      by blast
    show ?thesis
    proof (cases "dict_lookup scores_dict k")
      case None
      with a k m show ?thesis by simp
    next
      case (Some scores)
      with m have "merged ! i = JObj (set_scores scores article)" by simp
      with a k Some map_of_set_scores [of scores article] filter_set_scores [of scores article]
      show ?thesis by simp
    qed
  qed
  with bd wr d' len show ?thesis by blast
qed

lemma example_merged_document:
  "merged_document example_lib example_bino example_document
     = Some (JArr [JObj [(''Scopus_ID'', JStr ''1''), (''Abstract'', JStr ''first''),
                         (''Binoculars_Score'', JFloat (Finite (1 / 2)))],
                   JObj [(''Scopus_ID'', JStr ''2''), (''Abstract'', JStr '''')],
                   JObj [(''Scopus_ID'', JStr ''3''), (''Abstract'', JStr ''third''),
                         (''Binoculars_Score'', JFloat (Finite (19 / 20))),
                         (''Accuracy_Prediction'', JInt 0), (''FPR_Prediction'', JInt 0)]])"
  unfolding merged_document_def example_streaming_pass
  by (simp add: example_lib_def example_document_def dict_lookup_def dict_get_def
      set_scores_def)

lemma example_json_dump: "json_dump example_lib ensure_ascii data = data"
  by (simp add: example_lib_def)

lemma example_run:
  "process_file_streaming example_lib [''in.json''] [''out'', ''in.json''] example_bino example_fs
     = (True,
        snd (process_file_streaming example_lib [''in.json''] [''out'', ''in.json'']
               example_bino example_fs))
   \<and> files (snd (process_file_streaming example_lib [''in.json''] [''out'', ''in.json'']
               example_bino example_fs)) [''out'', ''in.json'']
     = Some (JArr [JObj [(''Scopus_ID'', JStr ''1''), (''Abstract'', JStr ''first''),
                         (''Binoculars_Score'', JFloat (Finite (1 / 2)))],
                   JObj [(''Scopus_ID'', JStr ''2''), (''Abstract'', JStr '''')],
                   JObj [(''Scopus_ID'', JStr ''3''), (''Abstract'', JStr ''third''),
                         (''Binoculars_Score'', JFloat (Finite (19 / 20))),
                         (''Accuracy_Prediction'', JInt 0), (''FPR_Prediction'', JInt 0)]])"
  by (simp add: process_file_streaming_def example_fs_def example_merged_document
      example_json_dump mkdir_parents_def write_file_def is_dir_def)

theorem merge_correctness_witness:
  "files example_fs [''in.json''] = Some example_document
   \<and> json_load example_lib example_document
       = Inr (JArr [JObj [(''Scopus_ID'', JStr ''1''), (''Abstract'', JStr ''first''),
                          (''Binoculars_Score'', JFloat (Finite (1 / 2)))],
                    JObj [(''Scopus_ID'', JStr ''2''), (''Abstract'', JStr '''')],
                    JObj [(''Scopus_ID'', JStr ''3''), (''Abstract'', JStr ''third'')]])
   \<and> fst (process_file_streaming example_lib [''in.json''] [''out'', ''in.json'']
             example_bino example_fs) = True
   \<and> (\<exists>scores_dict merged.
        build_scores_dict
          (processed_items (snd (streaming_pass example_lib example_bino example_document)))
          Map.empty = Inr scores_dict
        \<and> files (snd (process_file_streaming example_lib [''in.json''] [''out'', ''in.json'']
               example_bino example_fs)) [''out'', ''in.json'']
            = Some (json_dump example_lib False (JArr merged))
        \<and> length merged = 3
        \<and> dict_lookup scores_dict (KStr ''1'') = None
        \<and> dict_lookup scores_dict (KStr ''2'') = None
        \<and> dict_lookup scores_dict (KStr ''3'')
            = Some \<lparr>Scopus_ID = JStr ''3'', Binoculars_Score = Finite (19 / 20),
                     Accuracy_Prediction = 0, FPR_Prediction = 0\<rparr>
        \<and> merged ! 0 = JObj [(''Scopus_ID'', JStr ''1''), (''Abstract'', JStr ''first''),
                          (''Binoculars_Score'', JFloat (Finite (1 / 2)))]
        \<and> merged ! 1 = JObj [(''Scopus_ID'', JStr ''2''), (''Abstract'', JStr '''')]
        \<and> merged ! 2 = JObj [(''Scopus_ID'', JStr ''3''), (''Abstract'', JStr ''third''),
                         (''Binoculars_Score'', JFloat (Finite (19 / 20))),
                         (''Accuracy_Prediction'', JInt 0), (''FPR_Prediction'', JInt 0)])"
proof -
  have f: "files example_fs [''in.json''] = Some example_document"
    by (simp add: example_fs_def)
  have l: "json_load example_lib example_document
       = Inr (JArr [JObj [(''Scopus_ID'', JStr ''1''), (''Abstract'', JStr ''first''),
                          (''Binoculars_Score'', JFloat (Finite (1 / 2)))],
                    JObj [(''Scopus_ID'', JStr ''2''), (''Abstract'', JStr '''')],
                    JObj [(''Scopus_ID'', JStr ''3''), (''Abstract'', JStr ''third'')]])"
    by (simp add: example_lib_def example_document_def)
  note run = example_run [THEN conjunct1]
  note out = example_run [THEN conjunct2]
  from merge_correctness [OF f l disjI1 [OF conjI [OF run refl]]]
  obtain scores_dict merged where
    bd: "build_scores_dict
          (processed_items (snd (streaming_pass example_lib example_bino example_document)))
          Map.empty = Inr scores_dict"
    and wr: "files (snd (process_file_streaming example_lib [''in.json''] [''out'', ''in.json'']
               example_bino example_fs)) [''out'', ''in.json'']
            = Some (json_dump example_lib False (JArr merged))"
    and len: "length merged = 3"
    by auto
  from wr out have m: "merged = [JObj [(''Scopus_ID'', JStr ''1''), (''Abstract'', JStr ''first''),
                         (''Binoculars_Score'', JFloat (Finite (1 / 2)))],
                   JObj [(''Scopus_ID'', JStr ''2''), (''Abstract'', JStr '''')],
                   JObj [(''Scopus_ID'', JStr ''3''), (''Abstract'', JStr ''third''),
                         (''Binoculars_Score'', JFloat (Finite (19 / 20))),
                         (''Accuracy_Prediction'', JInt 0), (''FPR_Prediction'', JInt 0)]]"
    by (simp add: example_lib_def)
  from bd have sd: "scores_dict = [KStr ''3'' \<mapsto> \<lparr>Scopus_ID = JStr ''3'',
       Binoculars_Score = Finite (19 / 20), Accuracy_Prediction = 0, FPR_Prediction = 0\<rparr>]"
    by (simp add: example_streaming_pass)
  from run have ok: "fst (process_file_streaming example_lib [''in.json''] [''out'', ''in.json'']
             example_bino example_fs) = True"
    by (metis fst_conv)
  show ?thesis
    apply (intro conjI f l ok)
    apply (rule exI [of _ scores_dict])
    apply (rule exI [of _ merged])
    using bd wr len apply (simp add: m sd dict_lookup_def)
    done
qed

lemma merged_document_each:
  assumes md: "merged_document lib bino c = Some (JArr merged)"
    and load: "json_load lib c = Inr (JArr data)"
  shows "\<exists>scores_dict.
     build_scores_dict (processed_items (snd (streaming_pass lib bino c))) Map.empty
       = Inr scores_dict \<and>
     length merged = length data \<and>
     (\<forall>i < length data. merge_article scores_dict (data ! i) = Inr (merged ! i))"
proof -
  from merged_document_Some [OF md] load obtain st scores_dict where
    sp: "streaming_pass lib bino c = (None, st)"
    and bd: "build_scores_dict (processed_items st) Map.empty = Inr scores_dict"
    and mg: "merge_data scores_dict (JArr data) = Inr (JArr merged)"
    by auto
  from mg have ml: "merge_loop scores_dict data = Inr merged"
    by (auto split: sum.splits)
  from merge_loop_Inr [OF ml] sp bd show ?thesis by auto
qed

lemma py_hash_empty_id:
  "(py_hash (dict_get article ''Scopus_ID'' JNull) = Inr (KStr '''')) =
     (map_of article ''Scopus_ID'' = Some (JStr ''''))"
proof (cases "map_of article ''Scopus_ID''")
  case None
  then show ?thesis by (simp add: dict_get_def)
next
  case (Some v)
  then show ?thesis by (cases v) (auto simp: dict_get_def)
qed

lemma build_scores_dict_nonempty:
  assumes "build_scores_dict items Map.empty = Inr scores_dict"
    and "filter (\<lambda>it. py_hash (Scopus_ID it) = Inr k) items \<noteq> []"
  shows "scores_dict k = Some (last (filter (\<lambda>it. py_hash (Scopus_ID it) = Inr k) items))"
  using build_scores_dict_last [OF assms(1), of k] assms(2)
  by (auto split: list.splits)

text \<open>
  C10. Merge identifier semantics. The lookup built from the collected items holds, for a
  key, the last item of that key. In a run that reaches the write, every record of the
  reloaded document whose identifier has a key for which items were collected is given the
  annotations of the last of them. An article without the identifier field is collected
  under the empty string; the key of the empty string is the key of exactly the records
  whose identifier field is the empty string, and a record without the field is left as
  it was in every document the function writes.
\<close>

theorem merge_identifier_semantics:
  "(build_scores_dict items Map.empty = Inr scores_dict \<and>
      filter (\<lambda>it. py_hash (Scopus_ID it) = Inr k) items \<noteq> []
      \<longrightarrow> scores_dict k = Some (last (filter (\<lambda>it. py_hash (Scopus_ID it) = Inr k) items)))
   \<and> (merged_document lib bino c = Some (JArr merged) \<and> json_load lib c = Inr (JArr data) \<and>
      i < length data \<and> data ! i = JObj article \<and>
      py_hash (dict_get article ''Scopus_ID'' JNull) = Inr k \<and> k \<noteq> KNum NaN \<and>
      filter (\<lambda>it. py_hash (Scopus_ID it) = Inr k)
        (processed_items (snd (streaming_pass lib bino c))) \<noteq> []
      \<longrightarrow> merged ! i =
            JObj (set_scores
                    (last (filter (\<lambda>it. py_hash (Scopus_ID it) = Inr k)
                       (processed_items (snd (streaming_pass lib bino c))))) article))
   \<and> (map_of article ''Scopus_ID'' = None
      \<longrightarrow> Scopus_ID (make_item article score) = JStr '''' \<and>
          py_hash (Scopus_ID (make_item article score)) = Inr (KStr ''''))
   \<and> ((py_hash (dict_get article ''Scopus_ID'' JNull) = Inr (KStr ''''))
        = (map_of article ''Scopus_ID'' = Some (JStr '''')))
   \<and> (merged_document lib bino c = Some (JArr merged) \<and> json_load lib c = Inr (JArr data) \<and>
      i < length data \<and> data ! i = JObj article \<and> map_of article ''Scopus_ID'' = None
      \<longrightarrow> merged ! i = data ! i)"
proof (intro conjI impI)
  assume "build_scores_dict items Map.empty = Inr scores_dict \<and>
      filter (\<lambda>it. py_hash (Scopus_ID it) = Inr k) items \<noteq> []"
  then show "scores_dict k = Some (last (filter (\<lambda>it. py_hash (Scopus_ID it) = Inr k) items))"
    using build_scores_dict_nonempty by blast
next
  assume h: "merged_document lib bino c = Some (JArr merged) \<and> json_load lib c = Inr (JArr data) \<and>
      i < length data \<and> data ! i = JObj article \<and>
      py_hash (dict_get article ''Scopus_ID'' JNull) = Inr k \<and> k \<noteq> KNum NaN \<and>
      filter (\<lambda>it. py_hash (Scopus_ID it) = Inr k)
        (processed_items (snd (streaming_pass lib bino c))) \<noteq> []"
  let ?same = "filter (\<lambda>it. py_hash (Scopus_ID it) = Inr k)
        (processed_items (snd (streaming_pass lib bino c)))"
  from h merged_document_each [of lib bino c merged data] obtain sd where
    bd: "build_scores_dict (processed_items (snd (streaming_pass lib bino c))) Map.empty = Inr sd"
    and each: "\<forall>i < length data. merge_article sd (data ! i) = Inr (merged ! i)"
    by blast
  from build_scores_dict_nonempty [OF bd] h have "sd k = Some (last ?same)" by blast
  with h have lk: "dict_lookup sd k = Some (last ?same)" by (simp add: dict_lookup_def)
  from each h have "merge_article sd (JObj article) = Inr (merged ! i)" by auto
  with h lk show "merged ! i = JObj (set_scores (last ?same) article)"
    by (auto split: option.splits)
next
  assume "map_of article ''Scopus_ID'' = None"
  then show "Scopus_ID (make_item article score) = JStr ''''"
    and "py_hash (Scopus_ID (make_item article score)) = Inr (KStr '''')"
    by (simp_all add: make_item_def dict_get_def)
next
  show "(py_hash (dict_get article ''Scopus_ID'' JNull) = Inr (KStr ''''))
        = (map_of article ''Scopus_ID'' = Some (JStr ''''))"
    by (rule py_hash_empty_id)
next
  assume h: "merged_document lib bino c = Some (JArr merged) \<and> json_load lib c = Inr (JArr data) \<and>
      i < length data \<and> data ! i = JObj article \<and> map_of article ''Scopus_ID'' = None"
  from h merged_document_each [of lib bino c merged data] obtain sd where
    each: "\<forall>i < length data. merge_article sd (data ! i) = Inr (merged ! i)"
    by blast
  from each h have "merge_article sd (JObj article) = Inr (merged ! i)" by auto
  with h show "merged ! i = data ! i"
    by (auto simp: dict_get_def split: option.splits)
qed

lemma dup_streaming_pass:
  "streaming_pass example_lib dup_bino dup_document =
     (None,
      \<lparr>processed_items =
         [\<lparr>Scopus_ID = JStr ''7'', Binoculars_Score = Finite (1 / 2),
           Accuracy_Prediction = 1, FPR_Prediction = 1\<rparr>,
          \<lparr>Scopus_ID = JStr ''7'', Binoculars_Score = Finite (13 / 10),
           Accuracy_Prediction = 0, FPR_Prediction = 0\<rparr>,
          \<lparr>Scopus_ID = JStr '''', Binoculars_Score = Finite (2 / 5),
           Accuracy_Prediction = 1, FPR_Prediction = 1\<rparr>],
       scorer_calls =
         [JObj [(''Scopus_ID'', JStr ''7''), (''Abstract'', JStr ''short'')],
          JObj [(''Scopus_ID'', JStr ''7''), (''Abstract'', JStr ''a longer text'')],
          JObj [(''Abstract'', JStr ''none'')]]\<rparr>)"
  by (simp add: streaming_pass_def example_lib_def dup_bino_def dup_document_def
      has_score_def no_text_def dict_get_def make_item_def accuracy_prediction_def
      fpr_prediction_def BINOCULARS_ACCURACY_THRESHOLD_def BINOCULARS_FPR_THRESHOLD_def)

lemma dup_merged_document:
  "merged_document example_lib dup_bino dup_document
     = Some (JArr [JObj [(''Scopus_ID'', JStr ''7''), (''Abstract'', JStr ''short''),
                         (''Binoculars_Score'', JFloat (Finite (13 / 10))),
                         (''Accuracy_Prediction'', JInt 0), (''FPR_Prediction'', JInt 0)],
                   JObj [(''Scopus_ID'', JStr ''7''), (''Abstract'', JStr ''a longer text''),
                         (''Binoculars_Score'', JFloat (Finite (13 / 10))),
                         (''Accuracy_Prediction'', JInt 0), (''FPR_Prediction'', JInt 0)],
                   JObj [(''Abstract'', JStr ''none'')],
                   JObj [(''Scopus_ID'', JStr ''''), (''Abstract'', JStr ''''),
                         (''Binoculars_Score'', JFloat (Finite (2 / 5))),
                         (''Accuracy_Prediction'', JInt 1), (''FPR_Prediction'', JInt 1)]])"
  unfolding merged_document_def dup_streaming_pass
  by (simp add: example_lib_def dup_document_def dict_lookup_def dict_get_def
      set_scores_def)

lemma example_json_load: "json_load example_lib c = Inr c"
  by (simp add: example_lib_def)

theorem merge_identifier_semantics_witness:
  "merged_document example_lib dup_bino dup_document
     = Some (JArr [JObj [(''Scopus_ID'', JStr ''7''), (''Abstract'', JStr ''short''),
                         (''Binoculars_Score'', JFloat (Finite (13 / 10))),
                         (''Accuracy_Prediction'', JInt 0), (''FPR_Prediction'', JInt 0)],
                   JObj [(''Scopus_ID'', JStr ''7''), (''Abstract'', JStr ''a longer text''),
                         (''Binoculars_Score'', JFloat (Finite (13 / 10))),
                         (''Accuracy_Prediction'', JInt 0), (''FPR_Prediction'', JInt 0)],
                   JObj [(''Abstract'', JStr ''none'')],
                   JObj [(''Scopus_ID'', JStr ''''), (''Abstract'', JStr ''''),
                         (''Binoculars_Score'', JFloat (Finite (2 / 5))),
                         (''Accuracy_Prediction'', JInt 1), (''FPR_Prediction'', JInt 1)]])
   \<and> json_load example_lib dup_document = Inr dup_document
   \<and> filter (\<lambda>it. py_hash (Scopus_ID it) = Inr (KStr ''7''))
        (processed_items (snd (streaming_pass example_lib dup_bino dup_document)))
      = [\<lparr>Scopus_ID = JStr ''7'', Binoculars_Score = Finite (1 / 2),
           Accuracy_Prediction = 1, FPR_Prediction = 1\<rparr>,
         \<lparr>Scopus_ID = JStr ''7'', Binoculars_Score = Finite (13 / 10),
           Accuracy_Prediction = 0, FPR_Prediction = 0\<rparr>]
   \<and> filter (\<lambda>it. py_hash (Scopus_ID it) = Inr (KStr ''''))
        (processed_items (snd (streaming_pass example_lib dup_bino dup_document)))
      = [\<lparr>Scopus_ID = JStr '''', Binoculars_Score = Finite (2 / 5),
           Accuracy_Prediction = 1, FPR_Prediction = 1\<rparr>]
   \<and> py_hash (dict_get [(''Scopus_ID'', JStr ''7''), (''Abstract'', JStr ''short'')]
                 ''Scopus_ID'' JNull) = Inr (KStr ''7'')
   \<and> map_of [(''Abstract'', JStr ''none'')] ''Scopus_ID'' = None
   \<and> Scopus_ID (make_item [(''Abstract'', JStr ''none'')] (Finite (2 / 5))) = JStr ''''
   \<and> py_hash (dict_get [(''Abstract'', JStr ''none'')] ''Scopus_ID'' JNull) = Inr KNone
   \<and> map_of [(''Scopus_ID'', JStr ''''), (''Abstract'', JStr '''')] ''Scopus_ID''
       = Some (JStr '''')
   \<and> py_hash (dict_get [(''Scopus_ID'', JStr ''''), (''Abstract'', JStr '''')]
                 ''Scopus_ID'' JNull) = Inr (KStr '''')"
  using
    merge_identifier_semantics
      [where lib = example_lib and bino = dup_bino and c = dup_document
         and items = "processed_items (snd (streaming_pass example_lib dup_bino dup_document))"
         and scores_dict = "[KStr ''7'' \<mapsto> \<lparr>Scopus_ID = JStr ''7'',
               Binoculars_Score = Finite (13 / 10), Accuracy_Prediction = 0,
               FPR_Prediction = 0\<rparr>,
             KStr '''' \<mapsto> \<lparr>Scopus_ID = JStr '''', Binoculars_Score = Finite (2 / 5),
               Accuracy_Prediction = 1, FPR_Prediction = 1\<rparr>]"
         and k = "KStr ''7''" and i = 0
         and article = "[(''Scopus_ID'', JStr ''7''), (''Abstract'', JStr ''short'')]"
         and data = "[JObj [(''Scopus_ID'', JStr ''7''), (''Abstract'', JStr ''short'')],
           JObj [(''Scopus_ID'', JStr ''7''), (''Abstract'', JStr ''a longer text'')],
           JObj [(''Abstract'', JStr ''none'')],
           JObj [(''Scopus_ID'', JStr ''''), (''Abstract'', JStr '''')]]"
         and merged = "[JObj [(''Scopus_ID'', JStr ''7''), (''Abstract'', JStr ''short''),
                         (''Binoculars_Score'', JFloat (Finite (13 / 10))),
                         (''Accuracy_Prediction'', JInt 0), (''FPR_Prediction'', JInt 0)],
                   JObj [(''Scopus_ID'', JStr ''7''), (''Abstract'', JStr ''a longer text''),
                         (''Binoculars_Score'', JFloat (Finite (13 / 10))),
                         (''Accuracy_Prediction'', JInt 0), (''FPR_Prediction'', JInt 0)],
                   JObj [(''Abstract'', JStr ''none'')],
                   JObj [(''Scopus_ID'', JStr ''''), (''Abstract'', JStr ''''),
                         (''Binoculars_Score'', JFloat (Finite (2 / 5))),
                         (''Accuracy_Prediction'', JInt 1), (''FPR_Prediction'', JInt 1)]]"
         and score = "Finite (2 / 5)"]
    merge_identifier_semantics
      [where lib = example_lib and bino = dup_bino and c = dup_document
         and items = "[]" and scores_dict = Map.empty
         and k = "KStr ''''" and i = 2
         and article = "[(''Abstract'', JStr ''none'')]"
         and data = "[JObj [(''Scopus_ID'', JStr ''7''), (''Abstract'', JStr ''short'')],
           JObj [(''Scopus_ID'', JStr ''7''), (''Abstract'', JStr ''a longer text'')],
           JObj [(''Abstract'', JStr ''none'')],
           JObj [(''Scopus_ID'', JStr ''''), (''Abstract'', JStr '''')]]"
         and merged = "[JObj [(''Scopus_ID'', JStr ''7''), (''Abstract'', JStr ''short''),
                         (''Binoculars_Score'', JFloat (Finite (13 / 10))),
                         (''Accuracy_Prediction'', JInt 0), (''FPR_Prediction'', JInt 0)],
                   JObj [(''Scopus_ID'', JStr ''7''), (''Abstract'', JStr ''a longer text''),
                         (''Binoculars_Score'', JFloat (Finite (13 / 10))),
                         (''Accuracy_Prediction'', JInt 0), (''FPR_Prediction'', JInt 0)],
                   JObj [(''Abstract'', JStr ''none'')],
                   JObj [(''Scopus_ID'', JStr ''''), (''Abstract'', JStr ''''),
                         (''Binoculars_Score'', JFloat (Finite (2 / 5))),
                         (''Accuracy_Prediction'', JInt 1), (''FPR_Prediction'', JInt 1)]]"
         and score = "Finite (2 / 5)"]
  by (simp add: dup_merged_document dup_streaming_pass example_json_load dict_get_def
      make_item_def)

lemma write_file_frame:
  "write_file p c fs = Inr fs' \<Longrightarrow>
     files fs' = (files fs)(p \<mapsto> c) \<and> dirs fs' = dirs fs \<and> is_dir fs (butlast p)"
  by (auto simp: write_file_def split: if_splits)

lemma mkdir_parents_frame:
  "mkdir_parents p fs = Inr fs' \<Longrightarrow>
     files fs' = files fs \<and> dirs fs' = dirs fs \<union> set (prefixes p) \<and> is_dir fs' p"
  by (auto simp: mkdir_parents_def is_dir_def split: if_splits)

lemma process_file_streaming_frame:
  assumes "process_file_streaming lib input_file output_file bino fs = (ok, fs')"
  shows "(\<forall>p. p \<noteq> output_file \<longrightarrow> files fs' p = files fs p) \<and>
         (ok \<longrightarrow> is_dir fs' (butlast output_file))"
proof (cases "files fs input_file")
  case None
  with assms show ?thesis by (simp add: process_file_streaming_def)
next
  case (Some c)
  show ?thesis
  proof (cases "merged_document lib bino c")
    case None
    with assms Some show ?thesis by (simp add: process_file_streaming_def)
  next
    case md: (Some data')
    show ?thesis
    proof (cases "mkdir_parents (butlast output_file) fs")
      case (Inl e)
      with assms Some md show ?thesis by (simp add: process_file_streaming_def)
    next
      case (Inr fs1)
      note mk = mkdir_parents_frame [OF Inr]
      show ?thesis
      proof (cases "write_file output_file (json_dump lib False data') fs1")
        case (Inl e)
        with assms Some md Inr mk show ?thesis by (auto simp: process_file_streaming_def)
      next
        case wr: (Inr fs2)
        note w = write_file_frame [OF wr]
        from assms Some md Inr wr have "ok" "fs' = fs2"
          by (auto simp: process_file_streaming_def)
        with mk w show ?thesis by (auto simp: is_dir_def)
      qed
    qed
  qed
qed

lemma process_file_streaming_patch_frame:
  assumes "process_file_streaming_patch lib input_file output_file bino fs = (ok, fs')"
  shows "(\<forall>p. p \<noteq> patched_filename input_file \<longrightarrow> files fs' p = files fs p) \<and>
         dirs fs' = dirs fs"
proof (cases "files fs input_file")
  case None
  with assms show ?thesis by (simp add: process_file_streaming_patch_def)
next
  case (Some c)
  show ?thesis
  proof (cases "merged_document lib bino c")
    case None
    with assms Some show ?thesis by (simp add: process_file_streaming_patch_def)
  next
    case md: (Some data')
    show ?thesis
    proof (cases "write_file (patched_filename input_file) (json_dump lib False data') fs")
      case (Inl e)
      with assms Some md show ?thesis by (auto simp: process_file_streaming_patch_def)
    next
      case wr: (Inr fs2)
      note w = write_file_frame [OF wr]
      from assms Some md wr have "fs' = fs2"
        by (auto simp: process_file_streaming_patch_def)
      with w show ?thesis by auto
    qed
  qed
qed

lemma patched_filename_neq: "patched_filename input_file \<noteq> input_file"
proof
  assume eq: "patched_filename input_file = input_file"
  have "length (patched_filename input_file) = 1" by (simp add: patched_filename_def)
  with eq have "length input_file = 1" by simp
  then obtain n where n: "input_file = [n]" by (cases input_file) auto
  have l: "length (path_stem [n]) + length (path_suffix [n]) = length n"
    by (simp add: path_stem_def path_suffix_def)
  from eq n have e: "path_stem [n] @ ''_patched'' @ path_suffix [n] = n"
    by (simp add: patched_filename_def)
  from arg_cong [OF e, of length]
  have "length (path_stem [n]) + 8 + length (path_suffix [n]) = length n" by simp
  with l show False by simp
qed

lemma analyze_loop_main_frame:
  "analyze_loop process_file_streaming lib bino input_dir output_dir targets (n, fs) = (n', fs') \<Longrightarrow>
     \<not> prefix output_dir p \<Longrightarrow> files fs' p = files fs p"
proof (induction targets arbitrary: n fs)
  case Nil
  then show ?case by simp
next
  case (Cons file_path targets)
  show ?case
  proof (cases "files fs (input_dir @ file_path) = None \<and> \<not> is_dir fs (input_dir @ file_path)")
    case True
    with Cons.prems(1) have
      "analyze_loop process_file_streaming lib bino input_dir output_dir targets (n, fs) = (n', fs')"
      by simp
    from Cons.IH [OF this Cons.prems(2)] show ?thesis .
  next
    case False
    obtain ok fs1 where run:
      "process_file_streaming lib (input_dir @ file_path) (output_dir @ file_path) bino fs = (ok, fs1)"
      by (cases "process_file_streaming lib (input_dir @ file_path) (output_dir @ file_path) bino fs")
    from Cons.prems(2) have "p \<noteq> output_dir @ file_path" by auto
    with process_file_streaming_frame [OF run] have same: "files fs1 p = files fs p" by simp
    from Cons.prems(1) False run have
      "analyze_loop process_file_streaming lib bino input_dir output_dir targets
         (if ok then n + 1 else n, fs1) = (n', fs')"
      by (cases ok) (auto simp: Let_def)
    from Cons.IH [OF this Cons.prems(2)] same show ?thesis by simp
  qed
qed

lemma analyze_loop_patch_frame:
  "analyze_loop process_file_streaming_patch lib bino input_dir output_dir targets (n, fs) = (n', fs') \<Longrightarrow>
     p \<notin> (\<lambda>file_path. patched_filename (input_dir @ file_path)) ` set targets \<Longrightarrow>
     files fs' p = files fs p \<and> dirs fs' = dirs fs"
proof (induction targets arbitrary: n fs)
  case Nil
  then show ?case by simp
next
  case (Cons file_path targets)
  from Cons.prems(2) have notin:
    "p \<notin> (\<lambda>file_path. patched_filename (input_dir @ file_path)) ` set targets"
    and neq: "p \<noteq> patched_filename (input_dir @ file_path)"
    by auto
  show ?case
  proof (cases "files fs (input_dir @ file_path) = None \<and> \<not> is_dir fs (input_dir @ file_path)")
    case True
    with Cons.prems(1) have
      "analyze_loop process_file_streaming_patch lib bino input_dir output_dir targets (n, fs) = (n', fs')"
      by simp
    from Cons.IH [OF this notin] show ?thesis .
  next
    case False
    obtain ok fs1 where run:
      "process_file_streaming_patch lib (input_dir @ file_path) (output_dir @ file_path) bino fs = (ok, fs1)"
      by (cases "process_file_streaming_patch lib (input_dir @ file_path) (output_dir @ file_path) bino fs")
    from neq process_file_streaming_patch_frame [OF run]
    have same: "files fs1 p = files fs p" "dirs fs1 = dirs fs" by simp_all
    from Cons.prems(1) False run have
      "analyze_loop process_file_streaming_patch lib bino input_dir output_dir targets
         (if ok then n + 1 else n, fs1) = (n', fs')"
      by (cases ok) (auto simp: Let_def)
    from Cons.IH [OF this notin] same show ?thesis by simp
  qed
qed

lemma patched_targets:
  "(\<lambda>file_path. patched_filename ([] @ file_path)) ` set target_files_patch =
     {[''MAY_comp_2023_patched.json''], [''JULY_comp_2023_patched.json'']}"
  by (simp add: target_files_patch_def patched_filename_def path_stem_def path_suffix_def
      suffix_pos_def)

text \<open>
  C9 (as amended). Source preservation and destination write. In binoculars\_analysis.py
  the function changes no file but the one at the given destination path; when it
  returns True that file holds the dump (\<open>ensure_ascii\<close> false) of the merged document
  and its directory exists; the input file is as before whenever the destination is
  another path. In binoculars\_analysis\_patch.py the function ignores the given
  destination: it changes no file but \<open><stem>_patched<suffix>\<close> in the working directory,
  which is never the input path, creates no directory, and when it returns True that
  file holds the dump of the merged document. A whole run of \<open>analyze_abstracts\<close> changes
  no file outside \<open>data/comp-proc\<close>, so none of its inputs under \<open>data/comp/pre\<close>; a
  whole run of the patch script changes no file but the two patched ones.
\<close>

theorem source_preserved:
  "(process_file_streaming lib input_file output_file bino fs = (ok, fs') \<longrightarrow>
      (\<forall>p. p \<noteq> output_file \<longrightarrow> files fs' p = files fs p) \<and>
      (output_file \<noteq> input_file \<longrightarrow> files fs' input_file = files fs input_file) \<and>
      (ok \<longrightarrow> is_dir fs' (butlast output_file) \<and>
         (\<exists>c data'. files fs input_file = Some c \<and> merged_document lib bino c = Some data' \<and>
            files fs' output_file = Some (json_dump lib False data'))))
   \<and> (process_file_streaming_patch lib input_file output_file bino fs = (ok, fs') \<longrightarrow>
      (\<forall>p. p \<noteq> patched_filename input_file \<longrightarrow> files fs' p = files fs p) \<and>
      files fs' input_file = files fs input_file \<and>
      dirs fs' = dirs fs \<and>
      (ok \<longrightarrow>
         (\<exists>c data'. files fs input_file = Some c \<and> merged_document lib bino c = Some data' \<and>
            files fs' (patched_filename input_file) = Some (json_dump lib False data'))))
   \<and> (analyze_abstracts lib bino fs = (n, fs') \<longrightarrow>
      (\<forall>p. \<not> prefix [''data'', ''comp-proc''] p \<longrightarrow> files fs' p = files fs p) \<and>
      (\<forall>file_path. files fs' ([''data'', ''comp'', ''pre''] @ file_path)
                   = files fs ([''data'', ''comp'', ''pre''] @ file_path)))
   \<and> (analyze_abstracts_patch lib bino fs = (n, fs') \<longrightarrow>
      (\<forall>p. p \<noteq> [''MAY_comp_2023_patched.json''] \<and> p \<noteq> [''JULY_comp_2023_patched.json'']
           \<longrightarrow> files fs' p = files fs p) \<and>
      files fs' [''MAY_comp_2023.json''] = files fs [''MAY_comp_2023.json''] \<and>
      files fs' [''JULY_comp_2023.json''] = files fs [''JULY_comp_2023.json''] \<and>
      dirs fs' = dirs fs)"
proof (intro conjI impI)
  assume run: "process_file_streaming lib input_file output_file bino fs = (ok, fs')"
  from process_file_streaming_frame [OF run]
  show "\<forall>p. p \<noteq> output_file \<longrightarrow> files fs' p = files fs p" by simp
  then show "files fs' input_file = files fs input_file" if "output_file \<noteq> input_file"
    using that by simp
  show "is_dir fs' (butlast output_file)" if ok
    using process_file_streaming_frame [OF run] that by simp
  show "\<exists>c data'. files fs input_file = Some c \<and> merged_document lib bino c = Some data' \<and>
            files fs' output_file = Some (json_dump lib False data')" if ok
    using process_file_streaming_True [of lib input_file output_file bino fs fs'] run that
    by simp
next
  assume run: "process_file_streaming_patch lib input_file output_file bino fs = (ok, fs')"
  from process_file_streaming_patch_frame [OF run]
  show "\<forall>p. p \<noteq> patched_filename input_file \<longrightarrow> files fs' p = files fs p"
    and "dirs fs' = dirs fs" by simp_all
  from process_file_streaming_patch_frame [OF run] patched_filename_neq [of input_file]
  show "files fs' input_file = files fs input_file" by metis
  show "\<exists>c data'. files fs input_file = Some c \<and> merged_document lib bino c = Some data' \<and>
            files fs' (patched_filename input_file) = Some (json_dump lib False data')" if ok
    using process_file_streaming_patch_True [of lib input_file output_file bino fs fs'] run that
    by simp
next
  assume run: "analyze_abstracts lib bino fs = (n, fs')"
  then have frame: "files fs' p = files fs p" if "\<not> prefix [''data'', ''comp-proc''] p" for p
    using analyze_loop_main_frame that unfolding analyze_abstracts_def by blast
  then show "\<forall>p. \<not> prefix [''data'', ''comp-proc''] p \<longrightarrow> files fs' p = files fs p"
    by blast
  show "\<forall>file_path. files fs' ([''data'', ''comp'', ''pre''] @ file_path)
                   = files fs ([''data'', ''comp'', ''pre''] @ file_path)"
    by (intro allI frame) simp
next
  assume run: "analyze_abstracts_patch lib bino fs = (n, fs')"
  have frame: "files fs' p = files fs p \<and> dirs fs' = dirs fs"
    if "p \<noteq> [''MAY_comp_2023_patched.json'']" "p \<noteq> [''JULY_comp_2023_patched.json'']" for p
  proof -
    from that have "p \<notin> (\<lambda>file_path. patched_filename ([] @ file_path)) ` set target_files_patch"
      unfolding patched_targets by simp
    with run show ?thesis
      using analyze_loop_patch_frame unfolding analyze_abstracts_patch_def by blast
  qed
  then show "\<forall>p. p \<noteq> [''MAY_comp_2023_patched.json''] \<and> p \<noteq> [''JULY_comp_2023_patched.json'']
           \<longrightarrow> files fs' p = files fs p"
    by blast
  from frame [of "[''MAY_comp_2023.json'']"]
  show "files fs' [''MAY_comp_2023.json''] = files fs [''MAY_comp_2023.json'']"
    and "dirs fs' = dirs fs" by simp_all
  from frame [of "[''JULY_comp_2023.json'']"]
  show "files fs' [''JULY_comp_2023.json''] = files fs [''JULY_comp_2023.json'']" by simp
qed

lemma example_patch_run:
  "fst (process_file_streaming_patch example_lib [''in.json''] [''out'', ''in.json'']
          example_bino example_fs) = True
   \<and> files (snd (process_file_streaming_patch example_lib [''in.json''] [''out'', ''in.json'']
               example_bino example_fs)) [''in_patched.json'']
     = Some (JArr [JObj [(''Scopus_ID'', JStr ''1''), (''Abstract'', JStr ''first''),
                         (''Binoculars_Score'', JFloat (Finite (1 / 2)))],
                   JObj [(''Scopus_ID'', JStr ''2''), (''Abstract'', JStr '''')],
                   JObj [(''Scopus_ID'', JStr ''3''), (''Abstract'', JStr ''third''),
                         (''Binoculars_Score'', JFloat (Finite (19 / 20))),
                         (''Accuracy_Prediction'', JInt 0), (''FPR_Prediction'', JInt 0)]])
   \<and> files (snd (process_file_streaming_patch example_lib [''in.json''] [''out'', ''in.json'']
               example_bino example_fs)) [''out'', ''in.json''] = None
   \<and> dirs (snd (process_file_streaming_patch example_lib [''in.json''] [''out'', ''in.json'']
               example_bino example_fs)) = {}"
  by (simp add: process_file_streaming_patch_def example_fs_def example_merged_document
      example_json_dump write_file_def is_dir_def patched_filename_def path_stem_def
      path_suffix_def suffix_pos_def)

theorem source_preserved_witness:
  "process_file_streaming example_lib [''in.json''] [''out'', ''in.json''] example_bino example_fs
     = (True,
        snd (process_file_streaming example_lib [''in.json''] [''out'', ''in.json'']
               example_bino example_fs))
   \<and> [''out'', ''in.json''] \<noteq> [''in.json'']
   \<and> files (snd (process_file_streaming example_lib [''in.json''] [''out'', ''in.json'']
               example_bino example_fs)) [''in.json''] = Some example_document
   \<and> is_dir (snd (process_file_streaming example_lib [''in.json''] [''out'', ''in.json'']
               example_bino example_fs)) [''out'']
   \<and> fst (process_file_streaming_patch example_lib [''in.json''] [''out'', ''in.json'']
          example_bino example_fs) = True
   \<and> files (snd (process_file_streaming_patch example_lib [''in.json''] [''out'', ''in.json'']
               example_bino example_fs)) [''in.json''] = Some example_document
   \<and> dirs (snd (process_file_streaming_patch example_lib [''in.json''] [''out'', ''in.json'']
               example_bino example_fs)) = {}
   \<and> files (snd (analyze_abstracts example_lib example_bino example_pre_fs))
        [''data'', ''comp'', ''pre'', ''2021'', ''APRIL_comp_2021.json'']
      = Some example_document
   \<and> files (snd (analyze_abstracts_patch example_lib example_bino example_may_fs))
        [''MAY_comp_2023.json''] = Some example_document"
  using
    source_preserved
      [where lib = example_lib and bino = example_bino and fs = example_fs
         and input_file = "[''in.json'']" and output_file = "[''out'', ''in.json'']"
         and ok = True
         and fs' = "snd (process_file_streaming example_lib [''in.json''] [''out'', ''in.json'']
               example_bino example_fs)"
         and n = 0]
    source_preserved
      [where lib = example_lib and bino = example_bino and fs = example_fs
         and input_file = "[''in.json'']" and output_file = "[''out'', ''in.json'']"
         and ok = True
         and fs' = "snd (process_file_streaming_patch example_lib [''in.json''] [''out'', ''in.json'']
               example_bino example_fs)"
         and n = 0]
    source_preserved
      [where lib = example_lib and bino = example_bino and fs = example_pre_fs
         and input_file = "[]" and output_file = "[]" and ok = True
         and fs' = "snd (analyze_abstracts example_lib example_bino example_pre_fs)"
         and n = "fst (analyze_abstracts example_lib example_bino example_pre_fs)"]
    source_preserved
      [where lib = example_lib and bino = example_bino and fs = example_may_fs
         and input_file = "[]" and output_file = "[]" and ok = True
         and fs' = "snd (analyze_abstracts_patch example_lib example_bino example_may_fs)"
         and n = "fst (analyze_abstracts_patch example_lib example_bino example_may_fs)"]
    example_run example_patch_run
  by (simp add: example_fs_def example_pre_fs_def example_may_fs_def prod_eq_iff)

text \<open>
  The patch variant, given the destination \<open>out/in.json\<close>, returns True and has written
  \<open>in_patched.json\<close> in the working directory: there is no file at the given destination
  and no directory was created.
\<close>

theorem source_preserved_counterexample:
  "fst (process_file_streaming_patch example_lib [''in.json''] [''out'', ''in.json'']
          example_bino example_fs) = True
   \<and> files (snd (process_file_streaming_patch example_lib [''in.json''] [''out'', ''in.json'']
               example_bino example_fs)) [''out'', ''in.json''] = None
   \<and> \<not> is_dir (snd (process_file_streaming_patch example_lib [''in.json''] [''out'', ''in.json'']
               example_bino example_fs)) [''out'']
   \<and> files (snd (process_file_streaming_patch example_lib [''in.json''] [''out'', ''in.json'']
               example_bino example_fs)) [''in_patched.json'']
     = Some (json_dump example_lib False
         (JArr [JObj [(''Scopus_ID'', JStr ''1''), (''Abstract'', JStr ''first''),
                         (''Binoculars_Score'', JFloat (Finite (1 / 2)))],
                   JObj [(''Scopus_ID'', JStr ''2''), (''Abstract'', JStr '''')],
                   JObj [(''Scopus_ID'', JStr ''3''), (''Abstract'', JStr ''third''),
                         (''Binoculars_Score'', JFloat (Finite (19 / 20))),
                         (''Accuracy_Prediction'', JInt 0), (''FPR_Prediction'', JInt 0)]]))"
  using example_patch_run by (simp add: is_dir_def example_json_dump)

lemma example_analyze:
  "fst (analyze_abstracts example_lib example_bino example_pre_fs) = 1"
  by (simp add: analyze_abstracts_def target_files_def example_pre_fs_def is_dir_def
       process_file_streaming_def example_merged_document
      example_json_dump mkdir_parents_def write_file_def)

section \<open>Properties of the harvester\<close>

lemma digit_char_props:
  "d < 10 \<Longrightarrow> is_digit (digit_char d) \<and> (of_char (digit_char d) :: nat) = 48 + d \<and>
     digit_char d \<noteq> CHR ''_'' \<and> \<not> is_int_space (digit_char d) \<and>
     digit_char d \<noteq> CHR ''-'' \<and> digit_char d \<noteq> CHR ''+''"
proof -
  assume "d < 10"
  then have "d \<in> {0, 1, 2, 3, 4, 5, 6, 7, 8, 9}" by auto
  then show ?thesis
    by (auto simp: digit_char_def is_digit_def is_int_space_def)
qed

lemma str_nat_digits: "c \<in> set (str_nat n) \<Longrightarrow> \<exists>d < 10. c = digit_char d"
proof (induction n rule: str_nat.induct)
  case (1 n)
  show ?case
  proof (cases "n < 10")
    case True
    with "1.prems" show ?thesis by (subst (asm) str_nat.simps) auto
  next
    case False
    with "1.prems" have "c \<in> set (str_nat (n div 10)) \<or> c = digit_char (n mod 10)"
      by (subst (asm) str_nat.simps) auto
    with "1.IH" False show ?thesis by (metis mod_less_divisor zero_less_numeral)
  qed
qed

lemma str_nat_char:
  assumes "c \<in> set (str_nat n)"
  shows "is_digit c \<and> c \<noteq> CHR ''_'' \<and> \<not> is_int_space c \<and> c \<noteq> CHR ''-'' \<and> c \<noteq> CHR ''+''"
proof -
  from str_nat_digits [OF assms] obtain d where "d < 10" "c = digit_char d" by blast
  with digit_char_props [of d] show ?thesis by simp
qed

lemma str_nat_nonempty: "str_nat n \<noteq> []"
  by (subst str_nat.simps) simp

lemma digits_value_snoc:
  "digits_value (s @ [c]) = 10 * digits_value s + (of_char c - 48)"
  by (simp add: digits_value_def)

lemma digits_value_str_nat: "digits_value (str_nat n) = n"
proof (induction n rule: str_nat.induct)
  case (1 n)
  show ?case
  proof (cases "n < 10")
    case True
    then show ?thesis
      by (subst str_nat.simps) (simp add: digits_value_def digit_char_props)
  next
    case False
    then have "digits_value (str_nat n) =
        10 * digits_value (str_nat (n div 10)) + (of_char (digit_char (n mod 10)) - 48)"
      by (subst str_nat.simps) (simp add: digits_value_snoc)
    with "1.IH" False show ?thesis by (simp add: digit_char_props)
  qed
qed

lemma split_on_none: "sep \<notin> set s \<Longrightarrow> split_on sep s = [s]"
  by (induction s) auto

lemma split_on_first:
  "sep \<notin> set a \<Longrightarrow> split_on sep (a @ sep # rest) = a # split_on sep rest"
  by (induction a) auto

lemma parse_digits_str_nat: "parse_digits (str_nat n) = Some n"
proof -
  have no_us: "CHR ''_'' \<notin> set (str_nat n)"
    using str_nat_char by blast
  have digs: "list_all is_digit (str_nat n)"
    unfolding list_all_iff using str_nat_char by blast
  show ?thesis
    by (simp add: parse_digits_def split_on_none [OF no_us] digs str_nat_nonempty
        digits_value_str_nat)
qed

lemma strip_with_id:
  assumes "s \<noteq> []" "\<not> p (hd s)" "\<not> p (last s)"
  shows "strip_with p s = s"
proof -
  from assms have 1: "dropWhile p s = s" by (cases s) auto
  from assms have "rev s \<noteq> []" "\<not> p (hd (rev s))" by (simp_all add: hd_rev)
  then have 2: "dropWhile p (rev s) = rev s" by (cases "rev s") auto
  show ?thesis by (simp add: strip_with_def 1 2)
qed

lemma str_nat_ends:
  "\<not> is_int_space (hd (str_nat n)) \<and> \<not> is_int_space (last (str_nat n)) \<and>
   hd (str_nat n) \<noteq> CHR ''-'' \<and> hd (str_nat n) \<noteq> CHR ''+''"
proof -
  have "hd (str_nat n) \<in> set (str_nat n)" "last (str_nat n) \<in> set (str_nat n)"
    using str_nat_nonempty by simp_all
  then show ?thesis using str_nat_char by blast
qed

lemma int_of_string_str_int: "int_of_string (str_int i) = Some i"
proof (cases "i < 0")
  case True
  have "strip_with is_int_space (CHR ''-'' # str_nat (nat (- i))) = CHR ''-'' # str_nat (nat (- i))"
    using str_nat_ends [of "nat (- i)"] str_nat_nonempty [of "nat (- i)"]
    by (intro strip_with_id) (simp_all add: is_int_space_def)
  with True show ?thesis
    by (simp add: int_of_string_def str_int_def parse_digits_str_nat)
next
  case False
  obtain c rest where cr: "str_nat (nat i) = c # rest"
    using str_nat_nonempty [of "nat i"] by (cases "str_nat (nat i)") auto
  have "strip_with is_int_space (str_nat (nat i)) = str_nat (nat i)"
    using str_nat_ends [of "nat i"] str_nat_nonempty [of "nat i"]
    by (intro strip_with_id) simp_all
  moreover from cr str_nat_ends [of "nat i"] have "c \<noteq> CHR ''-''" "c \<noteq> CHR ''+''" by auto
  ultimately show ?thesis using False cr parse_digits_str_nat [of "nat i"]
    by (simp add: int_of_string_def str_int_def)
qed

lemma str_int_no_underscore: "CHR ''_'' \<notin> set (str_int i)"
  using str_nat_char [of "CHR ''_''"] by (auto simp: str_int_def)

lemma backup_index_backup_name:
  assumes "CHR ''_'' \<notin> set month"
  shows "backup_index (backup_name month n) = Some n"
proof -
  have "split_on CHR ''_'' (backup_name month n)
      = month # split_on CHR ''_'' (str_int n @ ''_comp_23_25.json'')"
    unfolding backup_name_def using split_on_first [OF assms] by simp
  also have "split_on CHR ''_'' (str_int n @ ''_comp_23_25.json'')
      = str_int n # split_on CHR ''_'' ''comp_23_25.json''"
    using split_on_first [OF str_int_no_underscore, of n "''comp_23_25.json''"] by simp
  finally show ?thesis
    by (simp add: backup_index_def Let_def int_of_string_str_int)
qed

lemma example_glob:
  "glob_backups (year_folder ''2023'') ''MAY'' example_world =
     [''MAY_500_comp_23_25.json'', ''MAY_1000_comp_23_25.json'']"
  by (simp add: glob_backups_def year_folder_def example_world_def matches_backup_def
      suffix_to_prefix)

lemma example_no_glob:
  "glob_backups (year_folder ''2023'') ''JULY'' example_world = []"
  by (simp add: glob_backups_def year_folder_def example_world_def matches_backup_def
      suffix_to_prefix)

lemma example_backup_names:
  "backup_name ''MAY'' 500 = ''MAY_500_comp_23_25.json'' \<and>
   backup_name ''MAY'' 1000 = ''MAY_1000_comp_23_25.json''"
  by (simp add: backup_name_def str_int_def str_nat.simps digit_char_def)

lemma map_filter_all_Some:
  "\<forall>x \<in> set xs. f x = Some (g x) \<Longrightarrow> List.map_filter f xs = map g xs"
  by (induction xs) (auto simp: List.map_filter_simps)

lemma set_map_filter:
  "set (List.map_filter f xs) = {y. \<exists>x \<in> set xs. f x = Some y}"
  by (induction xs) (auto simp: List.map_filter_simps split: option.splits)

text \<open>
  C5. Resume correctness. The count segment of a checkpoint name parses back to the
  count. When the names the glob finds for the bucket are the checkpoint names of a
  non-empty collection of counts, and the checkpoint of the greatest count loads,
  \<open>resume_backup\<close> returns that greatest count as the offset together with the loaded
  contents of that checkpoint. When the glob finds nothing it returns offset zero and the
  empty list.
\<close>

theorem resume_correctness:
  "(CHR ''_'' \<notin> set month \<longrightarrow> backup_index (backup_name month n) = Some n)
   \<and> (CHR ''_'' \<notin> set month \<and> counts \<noteq> [] \<and>
        set (glob_backups year_dir month w) = set (map (backup_name month) counts) \<and>
        load_from lib (year_dir @ [backup_name month (Max (set counts))]) w = Inr articles
        \<longrightarrow> resume_backup lib year_dir month w = Inr (Max (set counts), articles))
   \<and> (glob_backups year_dir month w = []
        \<longrightarrow> resume_backup lib year_dir month w = Inr (0, JArr []))"
proof (intro conjI impI)
  assume "CHR ''_'' \<notin> set month"
  then show "backup_index (backup_name month n) = Some n"
    by (rule backup_index_backup_name)
next
  assume h: "CHR ''_'' \<notin> set month \<and> counts \<noteq> [] \<and>
        set (glob_backups year_dir month w) = set (map (backup_name month) counts) \<and>
        load_from lib (year_dir @ [backup_name month (Max (set counts))]) w = Inr articles"
  let ?indices = "List.map_filter backup_index (glob_backups year_dir month w)"
  have "set ?indices = {i. \<exists>name \<in> set (glob_backups year_dir month w). backup_index name = Some i}"
    by (rule set_map_filter)
  also have "\<dots> = set counts"
    using h backup_index_backup_name [of month] by auto
  finally have idx: "set ?indices = set counts" .
  with h have ne: "?indices \<noteq> []" by auto
  from h idx ne show "resume_backup lib year_dir month w = Inr (Max (set counts), articles)"
    by (simp add: resume_backup_def Let_def raise_or_def)
next
  assume "glob_backups year_dir month w = []"
  then show "resume_backup lib year_dir month w = Inr (0, JArr [])"
    by (simp add: resume_backup_def List.map_filter_simps)
qed

theorem resume_correctness_witness:
  "CHR ''_'' \<notin> set ''MAY''
   \<and> set (glob_backups (year_folder ''2023'') ''MAY'' example_world)
       = set (map (backup_name ''MAY'') [500, 1000])
   \<and> Max (set [500, 1000 :: int]) = 1000
   \<and> load_from example_lib (year_folder ''2023'' @ [backup_name ''MAY'' 1000]) example_world
       = Inr (JArr (replicate 1000 example_record))
   \<and> backup_index ''MAY_500_comp_23_25.json'' = Some 500
   \<and> backup_index ''MAY_1000_comp_23_25.json'' = Some 1000
   \<and> resume_backup example_lib (year_folder ''2023'') ''MAY'' example_world
       = Inr (1000, JArr (replicate 1000 example_record))
   \<and> py_len (JArr (replicate 1000 example_record)) = Inr 1000
   \<and> glob_backups (year_folder ''2023'') ''JULY'' example_world = []
   \<and> resume_backup example_lib (year_folder ''2023'') ''JULY'' example_world = Inr (0, JArr [])"
proof -
  have us: "CHR ''_'' \<notin> set ''MAY''" by simp
  have g: "set (glob_backups (year_folder ''2023'') ''MAY'' example_world)
       = set (map (backup_name ''MAY'') [500, 1000])"
    by (simp add: example_glob example_backup_names)
  have m: "Max (set [500, 1000 :: int]) = 1000" by simp
  have l: "load_from example_lib (year_folder ''2023'' @ [backup_name ''MAY'' 1000]) example_world
       = Inr (JArr (replicate 1000 example_record))"
    by (simp add: load_from_def example_backup_names year_folder_def example_world_def
        example_json_load)
  have ng: "glob_backups (year_folder ''2023'') ''JULY'' example_world = []"
    by (rule example_no_glob)
  note t1 = resume_correctness
      [where month = "''MAY''" and counts = "[500, 1000]" and n = 500
         and year_dir = "year_folder ''2023''" and w = example_world and lib = example_lib
         and articles = "JArr (replicate 1000 example_record)"]
  from t1 us have i1: "backup_index (backup_name ''MAY'' 500) = Some 500" by blast
  from t1 us g l m have r: "resume_backup example_lib (year_folder ''2023'') ''MAY'' example_world
       = Inr (1000, JArr (replicate 1000 example_record))"
    by simp
  note t2 = resume_correctness
      [where month = "''MAY''" and counts = "[500, 1000]" and n = 1000
         and year_dir = "year_folder ''2023''" and w = example_world and lib = example_lib
         and articles = "JArr (replicate 1000 example_record)"]
  from t2 us have i2: "backup_index (backup_name ''MAY'' 1000) = Some 1000" by blast
  note t3 = resume_correctness
      [where month = "''JULY''" and counts = "[]" and n = 0
         and year_dir = "year_folder ''2023''" and w = example_world and lib = example_lib
         and articles = "JArr []"]
  from t3 ng have r0:
    "resume_backup example_lib (year_folder ''2023'') ''JULY'' example_world = Inr (0, JArr [])"
    by blast
  from i1 i2 have i: "backup_index ''MAY_500_comp_23_25.json'' = Some 500"
    "backup_index ''MAY_1000_comp_23_25.json'' = Some 1000"
    by (simp_all add: example_backup_names)
  show ?thesis
    by (intro conjI us g m l i r ng r0) simp
qed

lemma requests_get_frame:
  "requests_get r w = (resp, w') \<Longrightarrow>
     resp = server w (http_log w @ [r]) \<and> w' = w\<lparr>http_log := http_log w @ [r]\<rparr>"
  by (auto simp: requests_get_def Let_def)

lemma cycle_api_key_frame:
  "cycle_api_key w = Inr w' \<Longrightarrow>
     w' = w\<lparr>current_api_key_index := (current_api_key_index w + 1) mod length (API_KEYS w)\<rparr>
     \<and> API_KEYS w \<noteq> []"
  by (auto simp: cycle_api_key_def split: if_splits)

lemma retry_loop_frame:
  "retry_loop mk tk os d n w = (r, w') \<Longrightarrow>
     length (http_log w') \<le> length (http_log w) + n \<and>
     length (http_log w) \<le> length (http_log w') \<and>
     hfiles w' = hfiles w \<and> hdirs w' = hdirs w \<and> API_KEYS w' = API_KEYS w \<and>
     server w' = server w \<and> stdin w' = stdin w \<and> dotenv_keys w' = dotenv_keys w"
proof (induction n arbitrary: w)
  case 0
  then show ?case by simp
next
  case (Suc n)
  show ?case
  proof (cases "get_headers w")
    case (Inl e)
    with Suc.prems show ?thesis by simp
  next
    case (Inr key)
    obtain resp w1 where rq: "requests_get (mk key) w = (resp, w1)"
      by (cases "requests_get (mk key) w")
    note f1 = requests_get_frame [OF rq]
    have again: ?thesis if c: "cycle_api_key w1 = Inr w2"
      and rec: "retry_loop mk tk os d n w2 = (r, w')" for w2
      using Suc.IH [OF rec] cycle_api_key_frame [OF c] f1 by auto
    have stop: ?thesis if "w' = w1"
      using that f1 by auto
    from Suc.prems Inr rq have
      "w' = w1 \<or> (\<exists>w2. cycle_api_key w1 = Inr w2 \<and> retry_loop mk tk os d n w2 = (r, w'))"
      by (auto split: if_splits sum.splits bool.splits)
    then show ?thesis using again stop by blast
  qed
qed

lemma process_entry_skip:
  assumes "raise_or (json_get entry ''dc:identifier'' (JStr '''')) strip_scopus_id = Inr scopus_id"
    and "fetch_metadata scopus_id 3 w = (Inr JNull, w1)"
  shows "process_entry lib year_dir month entry st w = (Inr st, w1)"
  using assms by (cases st) (simp add: process_entry_def and_then_def pure_step_def)

lemma process_entry_patch_skip:
  assumes "raise_or (json_get entry ''dc:identifier'' (JStr '''')) strip_scopus_id = Inr scopus_id"
    and "fetch_metadata scopus_id 3 w = (Inr JNull, w1)"
    and "scopus_id \<noteq> []"
  shows "process_entry_patch lib year_dir month entry articles w = (Inr articles, w1)"
  using assms by (simp add: process_entry_patch_def and_then_def pure_step_def)

lemma entries_loop_step:
  "step entry st w = (Inr st', w1) \<Longrightarrow>
     entries_loop step (entry # rest) st w = entries_loop step rest st' w1"
  by (simp add: and_then_def)

lemma example_metadata:
  "fetch_metadata ''1'' 3 enrich_world =
     (Inr (JObj [(''Scopus_ID'', JStr ''1''), (''Title'', JStr ''A title''),
                 (''Abstract'', JStr ''N/A''), (''Authors'', JArr []),
                 (''Affiliation_Name'', JStr ''N/A''), (''Affiliation_Country'', JStr ''N/A''),
                 (''Publication_Date'', JStr ''N/A''), (''DOI'', JStr ''N/A''),
                 (''Keywords'', JStr ''N/A''), (''Cited_By_Count'', JInt 0),
                 (''Source'', JStr ''N/A'')]),
      enrich_world\<lparr>http_log := [AbstractRequest ''key-a'' ''1'']\<rparr>)"
  by (simp add: fetch_metadata_def enrich_world_def get_headers_def requests_get_def
      metadata_body_def build_metadata_def raise_or_def dict_get_def first_affiliation_def
      int_of_string_def strip_with_def is_int_space_def parse_digits_def is_digit_def
      digits_value_def numeral_3_eq_3)

lemma example_abstract:
  "fst (fetch_abstract ''1'' 3 (enrich_world\<lparr>http_log := [AbstractRequest ''key-a'' ''1'']\<rparr>))
     = Inr (JStr ''N/A'')
   \<and> http_log (snd (fetch_abstract ''1'' 3
                       (enrich_world\<lparr>http_log := [AbstractRequest ''key-a'' ''1'']\<rparr>)))
     = [AbstractRequest ''key-a'' ''1'', AbstractRequest ''key-a'' ''1'',
        AbstractRequest ''key-b'' ''1'', AbstractRequest ''key-a'' ''1'']
   \<and> current_api_key_index (snd (fetch_abstract ''1'' 3
                       (enrich_world\<lparr>http_log := [AbstractRequest ''key-a'' ''1'']\<rparr>))) = 1"
  by (simp add: fetch_abstract_def enrich_world_def get_headers_def requests_get_def
      cycle_api_key_def numeral_3_eq_3)

lemma example_entry_id:
  "raise_or (json_get example_entry ''dc:identifier'' (JStr '''')) strip_scopus_id = Inr ''1''"
  by (simp add: example_entry_def raise_or_def dict_get_def)

lemma length_attempt_keys: "length (attempt_keys keys i n) = n"
  by (induction n arbitrary: i) simp_all

lemma all_attempts_fail_Suc:
  assumes "all_attempts_fail mk tk (Suc n) w"
  shows "attempt_fails tk
           (server w (http_log w @ [mk (API_KEYS w ! current_api_key_index w)]))"
    and "all_attempts_fail mk tk n
           (w\<lparr>http_log := http_log w @ [mk (API_KEYS w ! current_api_key_index w)],
              current_api_key_index :=
                (current_api_key_index w + 1) mod length (API_KEYS w)\<rparr>)"
proof -
  let ?keys = "API_KEYS w" and ?i = "current_api_key_index w"
  from assms have i: "?i < length ?keys"
    unfolding all_attempts_fail_def by blast
  have all: "attempt_fails tk
        (server w (http_log w @ map mk (take (Suc k) (attempt_keys ?keys ?i (Suc n)))))"
    if "k < Suc n" for k
  proof -
    from that have "k \<in> set [0..<Suc n]" by auto
    with assms show ?thesis unfolding all_attempts_fail_def list_all_iff by blast
  qed
  from all [of 0] have "attempt_fails tk
      (server w (http_log w @ map mk (take (Suc 0) (attempt_keys ?keys ?i (Suc n)))))"
    by simp
  then show "attempt_fails tk (server w (http_log w @ [mk (?keys ! ?i)]))" by simp
  have "attempt_fails tk
      (server w ((http_log w @ [mk (?keys ! ?i)]) @
         map mk (take (Suc k) (attempt_keys ?keys ((?i + 1) mod length ?keys) n))))"
    if "k < n" for k
  proof -
    from that have "Suc k < Suc n" by simp
    from all [OF this] have "attempt_fails tk
        (server w (http_log w @ map mk (take (Suc (Suc k)) (attempt_keys ?keys ?i (Suc n)))))" .
    then show ?thesis by simp
  qed
  moreover from i have "0 < length ?keys" by auto
  then have "(?i + 1) mod length ?keys < length ?keys" by (rule mod_less_divisor)
  ultimately show "all_attempts_fail mk tk n
           (w\<lparr>http_log := http_log w @ [mk (?keys ! ?i)],
              current_api_key_index := (?i + 1) mod length ?keys\<rparr>)"
    by (simp add: all_attempts_fail_def list_all_iff)
qed

lemma retry_loop_exhaust:
  assumes "all_attempts_fail mk tk n w"
  shows "retry_loop mk tk os d n w =
           (Inr d,
            w\<lparr>http_log := http_log w @
                  map mk (attempt_keys (API_KEYS w) (current_api_key_index w) n),
              current_api_key_index :=
                (current_api_key_index w + n) mod length (API_KEYS w)\<rparr>)"
  using assms
proof (induction n arbitrary: w)
  case 0
  then show ?case by (simp add: all_attempts_fail_def)
next
  case (Suc n)
  let ?key = "API_KEYS w ! current_api_key_index w"
  let ?w1 = "w\<lparr>http_log := http_log w @ [mk ?key]\<rparr>"
  let ?w2 = "w\<lparr>http_log := http_log w @ [mk ?key],
               current_api_key_index :=
                 (current_api_key_index w + 1) mod length (API_KEYS w)\<rparr>"
  from Suc.prems have i: "current_api_key_index w < length (API_KEYS w)"
    by (simp add: all_attempts_fail_def)
  then have gh: "get_headers w = Inr ?key" by (simp add: get_headers_def)
  note fails = all_attempts_fail_Suc(1) [OF Suc.prems]
  note rest = all_attempts_fail_Suc(2) [OF Suc.prems]
  from fails obtain response where
    resp: "server w (http_log w @ [mk ?key]) = Inr response"
    and bad: "status_code response = 429 \<or> body response = None \<or>
              lacks_key (the (body response)) tk = Inr True"
    by (auto simp: attempt_fails_def split: sum.splits)
  have rq: "requests_get (mk ?key) w = (Inr response, ?w1)"
    by (simp add: requests_get_def Let_def resp)
  from i have cy: "cycle_api_key ?w1 = Inr ?w2"
    by (auto simp: cycle_api_key_def)
  have step: "retry_loop mk tk os d (Suc n) w = retry_loop mk tk os d n ?w2"
    using gh rq cy bad by auto
  have "(((current_api_key_index w + 1) mod length (API_KEYS w)) + n) mod length (API_KEYS w)
      = (current_api_key_index w + Suc n) mod length (API_KEYS w)"
    by (simp add: mod_add_left_eq)
  with step Suc.IH [OF rest] show ?case by simp
qed

lemma process_entry_keep:
  assumes ident: "raise_or (json_get entry ''dc:identifier'' (JStr '''')) strip_scopus_id = Inr scopus_id"
    and md: "fetch_metadata scopus_id 3 w = (Inr (JObj md), w1)" "md \<noteq> []"
    and ab: "fetch_abstract scopus_id 3 w1 = (Inr abstract, w2)"
    and cited: "map_of md ''Cited_By_Count'' = Some (JInt c)"
    and cit: "if 0 < c then fetch_citations scopus_id 200 3 w2 = (Inr (JObj [(''citations'', citations)]), w3)
              else citations = JArr [] \<and> w3 = w2"
  shows "process_entry lib year_dir month entry (JArr xs, total_processed) w =
           (if (total_processed + 1) mod 500 = 0 then
              (case backup_data lib
                      (JArr (xs @ [JObj (AList.update ''Citations'' citations
                                           (AList.update ''Abstract'' abstract md))]))
                      (year_dir @ [backup_name month (total_processed + 1)]) w3 of
                 Inl e \<Rightarrow> (Inl e, w3)
               | Inr w4 \<Rightarrow>
                   (Inr (JArr (xs @ [JObj (AList.update ''Citations'' citations
                                             (AList.update ''Abstract'' abstract md))]),
                         total_processed + 1), w4))
            else
              (Inr (JArr (xs @ [JObj (AList.update ''Citations'' citations
                                        (AList.update ''Abstract'' abstract md))]),
                    total_processed + 1), w3))"
proof -
  have c': "map_of (AList.update ''Abstract'' abstract md) ''Cited_By_Count'' = Some (JInt c)"
    using cited by (simp add: update_conv')
  show ?thesis
  proof (cases "0 < c")
    case True
    with cit have "fetch_citations scopus_id 200 3 w2 = (Inr (JObj [(''citations'', citations)]), w3)"
      by simp
    with ident md ab c' True show ?thesis
      by (simp add: process_entry_def and_then_def pure_step_def raise_or_def effect_def
          split: sum.splits)
  next
    case False
    with cit have "citations = JArr []" "w3 = w2" by simp_all
    with ident md ab c' False show ?thesis
      by (simp add: process_entry_def and_then_def pure_step_def raise_or_def effect_def
          split: sum.splits)
  qed
qed

lemma all_attempts_failI:
  assumes i: "current_api_key_index w < length (API_KEYS w)"
    and f: "\<And>ext. ext \<noteq> [] \<Longrightarrow> attempt_fails tk (server w (http_log w @ ext))"
  shows "all_attempts_fail mk tk n w"
  unfolding all_attempts_fail_def list_all_iff
proof (intro conjI ballI)
  show "current_api_key_index w < length (API_KEYS w)" by (rule i)
next
  fix k
  assume "k \<in> set [0..<n]"
  then have "0 < n" by auto
  then have "take (Suc k) (attempt_keys (API_KEYS w) (current_api_key_index w) n) \<noteq> []"
    by (cases n) simp_all
  then have "map mk (take (Suc k) (attempt_keys (API_KEYS w) (current_api_key_index w) n)) \<noteq> []"
    by simp
  then show "attempt_fails tk (server w (http_log w @
      map mk (take (Suc k) (attempt_keys (API_KEYS w) (current_api_key_index w) n))))"
    by (rule f)
qed

lemma example_world_sel:
  "API_KEYS example_world = [''key-a'', ''key-b'', ''key-c'']"
  "current_api_key_index example_world = 0"
  "http_log example_world = []"
  "server example_world = (\<lambda>log. Inr \<lparr>status_code = 429, body = Some (JObj [])\<rparr>)"
  by (simp_all add: example_world_def)

lemma example_world_fails: "all_attempts_fail mk tk n example_world"
  by (rule all_attempts_failI) (simp_all add: example_world_sel attempt_fails_def)

lemma enrich_world_fails: "all_attempts_fail mk tk n (enrich_world\<lparr>http_log := r # rs\<rparr>)"
proof (rule all_attempts_failI)
  show "current_api_key_index (enrich_world\<lparr>http_log := r # rs\<rparr>)
      < length (API_KEYS (enrich_world\<lparr>http_log := r # rs\<rparr>))"
    by (simp add: enrich_world_def)
next
  fix ext :: "request list"
  assume "ext \<noteq> []"
  then show "attempt_fails tk (server (enrich_world\<lparr>http_log := r # rs\<rparr>)
      (http_log (enrich_world\<lparr>http_log := r # rs\<rparr>) @ ext))"
    by (cases ext) (simp_all add: enrich_world_def attempt_fails_def)
qed

lemma cited_world_fails:
  "all_attempts_fail mk tk n (cited_world\<lparr>http_log := r # rs, current_api_key_index := i\<rparr>)"
  if "i < 2"
proof (rule all_attempts_failI)
  from that show "current_api_key_index (cited_world\<lparr>http_log := r # rs, current_api_key_index := i\<rparr>)
      < length (API_KEYS (cited_world\<lparr>http_log := r # rs, current_api_key_index := i\<rparr>))"
    by (simp add: cited_world_def)
next
  fix ext :: "request list"
  assume "ext \<noteq> []"
  then show "attempt_fails tk
      (server (cited_world\<lparr>http_log := r # rs, current_api_key_index := i\<rparr>)
      (http_log (cited_world\<lparr>http_log := r # rs, current_api_key_index := i\<rparr>) @ ext))"
    by (cases ext) (simp_all add: cited_world_def attempt_fails_def)
qed

lemma cited_metadata:
  "fetch_metadata ''1'' 3 cited_world =
     (Inr (JObj [(''Scopus_ID'', JStr ''1''), (''Title'', JStr ''A title''),
                 (''Abstract'', JStr ''N/A''), (''Authors'', JArr []),
                 (''Affiliation_Name'', JStr ''N/A''), (''Affiliation_Country'', JStr ''N/A''),
                 (''Publication_Date'', JStr ''N/A''), (''DOI'', JStr ''N/A''),
                 (''Keywords'', JStr ''N/A''), (''Cited_By_Count'', JInt 2),
                 (''Source'', JStr ''N/A'')]),
      cited_world\<lparr>http_log := [AbstractRequest ''key-a'' ''1'']\<rparr>)"
  by (simp add: fetch_metadata_def cited_world_def get_headers_def requests_get_def
      cited_body_def build_metadata_def raise_or_def dict_get_def first_affiliation_def
      int_of_string_def strip_with_def is_int_space_def parse_digits_def is_digit_def
      digits_value_def numeral_3_eq_3)

lemma attempt_keys_3:
  "attempt_keys keys i 3 =
     [keys ! i, keys ! ((i + 1) mod length keys),
      keys ! (((i + 1) mod length keys + 1) mod length keys)]"
  by (simp add: numeral_3_eq_3)

lemma example_backup_500: "backup_name ''MAY'' 500 = ''MAY_500_comp_23_25.json''"
  by (simp add: backup_name_def str_int_def str_nat.simps digit_char_def)

lemma mod_two_evals: "(3::nat) mod Suc (Suc 0) = 1" "(4::nat) mod Suc (Suc 0) = 0"
  by presburger+

lemma enrich_world_sel:
  "API_KEYS enrich_world = [''key-a'', ''key-b'']"
  "current_api_key_index enrich_world = 0"
  "http_log enrich_world = []"
  "hfiles enrich_world = []"
  "hdirs enrich_world = [[''data''], [''data'', ''comp''], [''data'', ''comp'', ''post''],
                         [''data'', ''comp'', ''post'', ''2023'']]"
  by (simp_all add: enrich_world_def)

lemma cited_world_sel:
  "API_KEYS cited_world = [''key-a'', ''key-b'']"
  "current_api_key_index cited_world = 0"
  "http_log cited_world = []"
  by (simp_all add: cited_world_def)

lemma example_kept:
  "process_entry example_lib (year_folder ''2023'') ''MAY'' example_entry (JArr [], 0) enrich_world
     = (Inr (JArr [JObj [(''Scopus_ID'', JStr ''1''), (''Title'', JStr ''A title''),
                         (''Abstract'', JStr ''N/A''), (''Authors'', JArr []),
                         (''Affiliation_Name'', JStr ''N/A''),
                         (''Affiliation_Country'', JStr ''N/A''),
                         (''Publication_Date'', JStr ''N/A''), (''DOI'', JStr ''N/A''),
                         (''Keywords'', JStr ''N/A''), (''Cited_By_Count'', JInt 0),
                         (''Source'', JStr ''N/A''), (''Citations'', JArr [])]], 1),
        snd (fetch_abstract ''1'' 3
               (enrich_world\<lparr>http_log := [AbstractRequest ''key-a'' ''1'']\<rparr>)))"
proof -
  have ab: "fetch_abstract ''1'' 3 (enrich_world\<lparr>http_log := [AbstractRequest ''key-a'' ''1'']\<rparr>)
      = (Inr (JStr ''N/A''),
         snd (fetch_abstract ''1'' 3
               (enrich_world\<lparr>http_log := [AbstractRequest ''key-a'' ''1'']\<rparr>)))"
    using example_abstract by (simp add: prod_eq_iff)
  from process_entry_keep
    [OF example_entry_id example_metadata _ ab, where c = 0 and citations = "JArr []"
       and ?w3.0 = "snd (fetch_abstract ''1'' 3
               (enrich_world\<lparr>http_log := [AbstractRequest ''key-a'' ''1'']\<rparr>))"
       and total_processed = 0 and xs = "[]" and lib = example_lib
       and year_dir = "year_folder ''2023''" and month = "''MAY''"]
  show ?thesis by simp
qed

text \<open>
  C8 (as amended). Retry exhaustion. Each enrichment call makes at most \<open>retries\<close>
  requests. When every attempt of a call fails (status 429, a body that is not JSON, or a
  body without the expected top-level key), the call makes exactly \<open>retries\<close> requests,
  one with each key the pointer passes, and returns its default without raising: None for
  the metadata, "N/A" for the abstract, an empty citation list for the citations. When
  the metadata call returns None the caller leaves the record out and the loop over the
  entries goes on with the next entry, in both scripts. When the abstract call or the
  citations call returns, its default included, the record is not left out: it is
  appended with that abstract and that citation list, and a checkpoint is written when the
  count of records reaches a multiple of 500.
\<close>

theorem retry_exhaustion:
  "(length (http_log (snd (fetch_metadata scopus_id retries w))) \<le> length (http_log w) + retries \<and>
    length (http_log (snd (fetch_abstract scopus_id retries w))) \<le> length (http_log w) + retries \<and>
    length (http_log (snd (fetch_citations scopus_id count retries w)))
      \<le> length (http_log w) + retries)
   \<and> (all_attempts_fail (\<lambda>key. AbstractRequest key scopus_id)
         ''abstracts-retrieval-response'' retries w
       \<longrightarrow> fetch_metadata scopus_id retries w
             = (Inr JNull,
                w\<lparr>http_log := http_log w @
                      map (\<lambda>key. AbstractRequest key scopus_id)
                        (attempt_keys (API_KEYS w) (current_api_key_index w) retries),
                  current_api_key_index :=
                    (current_api_key_index w + retries) mod length (API_KEYS w)\<rparr>) \<and>
           fetch_abstract scopus_id retries w
             = (Inr (JStr ''N/A''),
                w\<lparr>http_log := http_log w @
                      map (\<lambda>key. AbstractRequest key scopus_id)
                        (attempt_keys (API_KEYS w) (current_api_key_index w) retries),
                  current_api_key_index :=
                    (current_api_key_index w + retries) mod length (API_KEYS w)\<rparr>) \<and>
           length (http_log (snd (fetch_metadata scopus_id retries w)))
             = length (http_log w) + retries \<and>
           length (http_log (snd (fetch_abstract scopus_id retries w)))
             = length (http_log w) + retries)
   \<and> (all_attempts_fail
         (\<lambda>key. SearchRequest key (''REF('' @ scopus_id @ '')'') count 0 (Some ''STANDARD''))
         ''search-results'' retries w
       \<longrightarrow> fetch_citations scopus_id count retries w
             = (Inr (JObj [(''citations'', JArr [])]),
                w\<lparr>http_log := http_log w @
                      map (\<lambda>key. SearchRequest key (''REF('' @ scopus_id @ '')'') count 0
                                   (Some ''STANDARD''))
                        (attempt_keys (API_KEYS w) (current_api_key_index w) retries),
                  current_api_key_index :=
                    (current_api_key_index w + retries) mod length (API_KEYS w)\<rparr>) \<and>
           length (http_log (snd (fetch_citations scopus_id count retries w)))
             = length (http_log w) + retries)
   \<and> (raise_or (json_get entry ''dc:identifier'' (JStr '''')) strip_scopus_id = Inr scopus_id \<and>
       fetch_metadata scopus_id 3 w = (Inr JNull, w1)
       \<longrightarrow> process_entry lib year_dir month entry st w = (Inr st, w1) \<and>
           entries_loop (process_entry lib year_dir month) (entry # rest) st w
             = entries_loop (process_entry lib year_dir month) rest st w1)
   \<and> (raise_or (json_get entry ''dc:identifier'' (JStr '''')) strip_scopus_id = Inr scopus_id \<and>
       scopus_id \<noteq> [] \<and> fetch_metadata scopus_id 3 w = (Inr JNull, w1)
       \<longrightarrow> process_entry_patch lib year_dir month entry articles w = (Inr articles, w1) \<and>
           entries_loop (process_entry_patch lib year_dir month) (entry # rest) articles w
             = entries_loop (process_entry_patch lib year_dir month) rest articles w1)
   \<and> (raise_or (json_get entry ''dc:identifier'' (JStr '''')) strip_scopus_id = Inr scopus_id \<and>
       fetch_metadata scopus_id 3 w = (Inr (JObj md), w1) \<and> md \<noteq> [] \<and>
       fetch_abstract scopus_id 3 w1 = (Inr abstract, w2) \<and>
       map_of md ''Cited_By_Count'' = Some (JInt c) \<and>
       (if 0 < c
        then fetch_citations scopus_id 200 3 w2 = (Inr (JObj [(''citations'', citations)]), w3)
        else citations = JArr [] \<and> w3 = w2)
       \<longrightarrow> process_entry lib year_dir month entry (JArr xs, total_processed) w =
             (if (total_processed + 1) mod 500 = 0 then
                (case backup_data lib
                        (JArr (xs @ [JObj (AList.update ''Citations'' citations
                                             (AList.update ''Abstract'' abstract md))]))
                        (year_dir @ [backup_name month (total_processed + 1)]) w3 of
                   Inl e \<Rightarrow> (Inl e, w3)
                 | Inr w4 \<Rightarrow>
                     (Inr (JArr (xs @ [JObj (AList.update ''Citations'' citations
                                               (AList.update ''Abstract'' abstract md))]),
                           total_processed + 1), w4))
              else
                (Inr (JArr (xs @ [JObj (AList.update ''Citations'' citations
                                          (AList.update ''Abstract'' abstract md))]),
                      total_processed + 1), w3)))"
proof -
  have bound: "length (http_log (snd (retry_loop mk tk os d retries w)))
      \<le> length (http_log w) + retries" for mk tk and os :: "json \<Rightarrow> exn + json" and d
    using retry_loop_frame [of mk tk os d retries w
        "fst (retry_loop mk tk os d retries w)" "snd (retry_loop mk tk os d retries w)"]
    by simp
  have skip: "process_entry lib year_dir month entry st w = (Inr st, w1) \<and>
           entries_loop (process_entry lib year_dir month) (entry # rest) st w
             = entries_loop (process_entry lib year_dir month) rest st w1"
    if "raise_or (json_get entry ''dc:identifier'' (JStr '''')) strip_scopus_id = Inr scopus_id"
       "fetch_metadata scopus_id 3 w = (Inr JNull, w1)"
    using process_entry_skip [OF that] entries_loop_step by metis
  have skip_patch:
    "process_entry_patch lib year_dir month entry articles w = (Inr articles, w1) \<and>
           entries_loop (process_entry_patch lib year_dir month) (entry # rest) articles w
             = entries_loop (process_entry_patch lib year_dir month) rest articles w1"
    if "raise_or (json_get entry ''dc:identifier'' (JStr '''')) strip_scopus_id = Inr scopus_id"
       "scopus_id \<noteq> []" "fetch_metadata scopus_id 3 w = (Inr JNull, w1)"
    using process_entry_patch_skip [OF that(1) that(3) that(2)] entries_loop_step by metis
  show ?thesis
    apply (intro conjI impI)
    subgoal by (simp add: fetch_metadata_def bound)
    subgoal by (simp add: fetch_abstract_def bound)
    subgoal by (simp add: fetch_citations_def bound)
    subgoal unfolding fetch_metadata_def by (rule retry_loop_exhaust)
    subgoal unfolding fetch_abstract_def by (rule retry_loop_exhaust)
    subgoal by (simp add: fetch_metadata_def retry_loop_exhaust length_attempt_keys)
    subgoal by (simp add: fetch_abstract_def retry_loop_exhaust length_attempt_keys)
    subgoal unfolding fetch_citations_def by (rule retry_loop_exhaust)
    subgoal by (simp add: fetch_citations_def retry_loop_exhaust length_attempt_keys)
    subgoal using skip by blast
    subgoal using skip by blast
    subgoal using skip_patch by blast
    subgoal using skip_patch by blast
    subgoal by (elim conjE) (rule process_entry_keep; assumption)
    done
qed

theorem retry_exhaustion_witness:
  "all_attempts_fail (\<lambda>key. AbstractRequest key ''1'') ''abstracts-retrieval-response'' 3
     example_world
   \<and> all_attempts_fail (\<lambda>key. SearchRequest key ''REF(1)'' 200 0 (Some ''STANDARD''))
       ''search-results'' 3 example_world
   \<and> fetch_metadata ''1'' 3 example_world
       = (Inr JNull,
          example_world\<lparr>http_log := [AbstractRequest ''key-a'' ''1'',
                                     AbstractRequest ''key-b'' ''1'',
                                     AbstractRequest ''key-c'' ''1''],
                        current_api_key_index := 0\<rparr>)
   \<and> fetch_abstract ''1'' 3 example_world
       = (Inr (JStr ''N/A''),
          example_world\<lparr>http_log := [AbstractRequest ''key-a'' ''1'',
                                     AbstractRequest ''key-b'' ''1'',
                                     AbstractRequest ''key-c'' ''1''],
                        current_api_key_index := 0\<rparr>)
   \<and> fetch_citations ''1'' 200 3 example_world
       = (Inr (JObj [(''citations'', JArr [])]),
          example_world\<lparr>http_log := [SearchRequest ''key-a'' ''REF(1)'' 200 0 (Some ''STANDARD''),
                                     SearchRequest ''key-b'' ''REF(1)'' 200 0 (Some ''STANDARD''),
                                     SearchRequest ''key-c'' ''REF(1)'' 200 0 (Some ''STANDARD'')],
                        current_api_key_index := 0\<rparr>)
   \<and> process_entry example_lib (year_folder ''2023'') ''MAY'' example_entry (JArr [], 0)
         example_world
       = (Inr (JArr [], 0),
          example_world\<lparr>http_log := [AbstractRequest ''key-a'' ''1'',
                                     AbstractRequest ''key-b'' ''1'',
                                     AbstractRequest ''key-c'' ''1''],
                        current_api_key_index := 0\<rparr>)
   \<and> process_entry_patch example_lib (year_folder ''2023'') ''MAY'' example_entry (JArr [])
         example_world
       = (Inr (JArr []),
          example_world\<lparr>http_log := [AbstractRequest ''key-a'' ''1'',
                                     AbstractRequest ''key-b'' ''1'',
                                     AbstractRequest ''key-c'' ''1''],
                        current_api_key_index := 0\<rparr>)
   \<and> all_attempts_fail (\<lambda>key. AbstractRequest key ''1'') ''abstracts-retrieval-response'' 3
       (enrich_world\<lparr>http_log := [AbstractRequest ''key-a'' ''1'']\<rparr>)
   \<and> process_entry example_lib (year_folder ''2023'') ''MAY'' example_entry (JArr [], 0)
         enrich_world
       = (Inr (JArr [JObj [(''Scopus_ID'', JStr ''1''), (''Title'', JStr ''A title''),
                           (''Abstract'', JStr ''N/A''), (''Authors'', JArr []),
                           (''Affiliation_Name'', JStr ''N/A''),
                           (''Affiliation_Country'', JStr ''N/A''),
                           (''Publication_Date'', JStr ''N/A''), (''DOI'', JStr ''N/A''),
                           (''Keywords'', JStr ''N/A''), (''Cited_By_Count'', JInt 0),
                           (''Source'', JStr ''N/A''), (''Citations'', JArr [])]], 1),
          enrich_world\<lparr>http_log := [AbstractRequest ''key-a'' ''1'',
                                    AbstractRequest ''key-a'' ''1'',
                                    AbstractRequest ''key-b'' ''1'',
                                    AbstractRequest ''key-a'' ''1''],
                       current_api_key_index := 1\<rparr>)
   \<and> process_entry example_lib (year_folder ''2023'') ''MAY'' example_entry (JArr [], 499)
         enrich_world
       = (Inr (JArr [JObj [(''Scopus_ID'', JStr ''1''), (''Title'', JStr ''A title''),
                           (''Abstract'', JStr ''N/A''), (''Authors'', JArr []),
                           (''Affiliation_Name'', JStr ''N/A''),
                           (''Affiliation_Country'', JStr ''N/A''),
                           (''Publication_Date'', JStr ''N/A''), (''DOI'', JStr ''N/A''),
                           (''Keywords'', JStr ''N/A''), (''Cited_By_Count'', JInt 0),
                           (''Source'', JStr ''N/A''), (''Citations'', JArr [])]], 500),
          enrich_world\<lparr>http_log := [AbstractRequest ''key-a'' ''1'',
                                    AbstractRequest ''key-a'' ''1'',
                                    AbstractRequest ''key-b'' ''1'',
                                    AbstractRequest ''key-a'' ''1''],
                       current_api_key_index := 1,
                       hfiles :=
                         [([''data'', ''comp'', ''post'', ''2023'', ''MAY_500_comp_23_25.json''],
                           JArr [JObj [(''Scopus_ID'', JStr ''1''), (''Title'', JStr ''A title''),
                                       (''Abstract'', JStr ''N/A''), (''Authors'', JArr []),
                                       (''Affiliation_Name'', JStr ''N/A''),
                                       (''Affiliation_Country'', JStr ''N/A''),
                                       (''Publication_Date'', JStr ''N/A''),
                                       (''DOI'', JStr ''N/A''), (''Keywords'', JStr ''N/A''),
                                       (''Cited_By_Count'', JInt 0), (''Source'', JStr ''N/A''),
                                       (''Citations'', JArr [])]])]\<rparr>)
   \<and> all_attempts_fail (\<lambda>key. SearchRequest key ''REF(1)'' 200 0 (Some ''STANDARD''))
       ''search-results'' 3
       (cited_world\<lparr>http_log := [AbstractRequest ''key-a'' ''1'',
                                  AbstractRequest ''key-a'' ''1'',
                                  AbstractRequest ''key-b'' ''1'',
                                  AbstractRequest ''key-a'' ''1''],
                     current_api_key_index := 1\<rparr>)
   \<and> process_entry example_lib (year_folder ''2023'') ''MAY'' example_entry (JArr [], 0)
         cited_world
       = (Inr (JArr [JObj [(''Scopus_ID'', JStr ''1''), (''Title'', JStr ''A title''),
                           (''Abstract'', JStr ''N/A''), (''Authors'', JArr []),
                           (''Affiliation_Name'', JStr ''N/A''),
                           (''Affiliation_Country'', JStr ''N/A''),
                           (''Publication_Date'', JStr ''N/A''), (''DOI'', JStr ''N/A''),
                           (''Keywords'', JStr ''N/A''), (''Cited_By_Count'', JInt 2),
                           (''Source'', JStr ''N/A''), (''Citations'', JArr [])]], 1),
          cited_world\<lparr>http_log := [AbstractRequest ''key-a'' ''1'',
                                   AbstractRequest ''key-a'' ''1'',
                                   AbstractRequest ''key-b'' ''1'',
                                   AbstractRequest ''key-a'' ''1'',
                                   SearchRequest ''key-b'' ''REF(1)'' 200 0 (Some ''STANDARD''),
                                   SearchRequest ''key-a'' ''REF(1)'' 200 0 (Some ''STANDARD''),
                                   SearchRequest ''key-b'' ''REF(1)'' 200 0 (Some ''STANDARD'')],
                      current_api_key_index := 0\<rparr>)"
proof -
  let ?A = "\<lambda>key. AbstractRequest key ''1''"
  let ?S = "\<lambda>key. SearchRequest key ''REF(1)'' 200 0 (Some ''STANDARD'')"
  let ?W = "example_world\<lparr>http_log := [?A ''key-a'', ?A ''key-b'', ?A ''key-c''],
                          current_api_key_index := 0\<rparr>"
  let ?md0 = "[(''Scopus_ID'', JStr ''1''), (''Title'', JStr ''A title''),
               (''Abstract'', JStr ''N/A''), (''Authors'', JArr []),
               (''Affiliation_Name'', JStr ''N/A''), (''Affiliation_Country'', JStr ''N/A''),
               (''Publication_Date'', JStr ''N/A''), (''DOI'', JStr ''N/A''),
               (''Keywords'', JStr ''N/A''), (''Cited_By_Count'', JInt 0),
               (''Source'', JStr ''N/A'')]"
  let ?md2 = "[(''Scopus_ID'', JStr ''1''), (''Title'', JStr ''A title''),
               (''Abstract'', JStr ''N/A''), (''Authors'', JArr []),
               (''Affiliation_Name'', JStr ''N/A''), (''Affiliation_Country'', JStr ''N/A''),
               (''Publication_Date'', JStr ''N/A''), (''DOI'', JStr ''N/A''),
               (''Keywords'', JStr ''N/A''), (''Cited_By_Count'', JInt 2),
               (''Source'', JStr ''N/A'')]"
  let ?e1 = "enrich_world\<lparr>http_log := [?A ''key-a'']\<rparr>"
  let ?e2 = "enrich_world\<lparr>http_log := [?A ''key-a'', ?A ''key-a'', ?A ''key-b'', ?A ''key-a''],
                           current_api_key_index := 1\<rparr>"
  let ?c1 = "cited_world\<lparr>http_log := [?A ''key-a'']\<rparr>"
  let ?c2 = "cited_world\<lparr>http_log := [?A ''key-a'', ?A ''key-a'', ?A ''key-b'', ?A ''key-a''],
                          current_api_key_index := 1\<rparr>"
  let ?c3 = "cited_world\<lparr>http_log := [?A ''key-a'', ?A ''key-a'', ?A ''key-b'', ?A ''key-a'',
                                       ?S ''key-b'', ?S ''key-a'', ?S ''key-b''],
                          current_api_key_index := 0\<rparr>"
  have f1: "all_attempts_fail ?A ''abstracts-retrieval-response'' 3 example_world"
    and f2: "all_attempts_fail ?S ''search-results'' 3 example_world"
    by (rule example_world_fails)+
  have f3: "all_attempts_fail ?A ''abstracts-retrieval-response'' 3 ?e1"
    by (rule enrich_world_fails)
  have f4: "all_attempts_fail ?A ''abstracts-retrieval-response'' 3 ?c1"
  proof -
    have "cited_world\<lparr>http_log := [?A ''key-a''], current_api_key_index := 0\<rparr> = ?c1"
      by (simp add: cited_world_def)
    with cited_world_fails [of 0 ?A "''abstracts-retrieval-response''" 3 "?A ''key-a''" "[]"]
    show ?thesis by simp
  qed
  have f5: "all_attempts_fail ?S ''search-results'' 3 ?c2"
    by (rule cited_world_fails) simp
  note t1 = retry_exhaustion
    [where w = example_world and scopus_id = "''1''" and retries = 3 and count = 200
       and entry = example_entry and lib = example_lib and year_dir = "year_folder ''2023''"
       and month = "''MAY''" and st = "(JArr [], 0)" and articles = "JArr []" and rest = "[]"
       and ?w1.0 = ?W
       and md = "[]" and abstract = JNull and ?w2.0 = example_world and c = 0
       and citations = JNull and ?w3.0 = example_world and total_processed = 0 and xs = "[]"]
  from t1 f1 have m: "fetch_metadata ''1'' 3 example_world = (Inr JNull, ?W)"
    and a: "fetch_abstract ''1'' 3 example_world = (Inr (JStr ''N/A''), ?W)"
    by (simp_all add: example_world_sel attempt_keys_3)
  from t1 f2 have c: "fetch_citations ''1'' 200 3 example_world
      = (Inr (JObj [(''citations'', JArr [])]),
         example_world\<lparr>http_log := [?S ''key-a'', ?S ''key-b'', ?S ''key-c''],
                       current_api_key_index := 0\<rparr>)"
    by (simp add: example_world_sel attempt_keys_3)
  from t1 example_entry_id m have s:
    "process_entry example_lib (year_folder ''2023'') ''MAY'' example_entry (JArr [], 0)
       example_world = (Inr (JArr [], 0), ?W)"
    "process_entry_patch example_lib (year_folder ''2023'') ''MAY'' example_entry (JArr [])
       example_world = (Inr (JArr []), ?W)"
    by simp_all
  note t2 = retry_exhaustion
    [where w = ?e1 and scopus_id = "''1''" and retries = 3 and count = 200
       and entry = example_entry and lib = example_lib and year_dir = "year_folder ''2023''"
       and month = "''MAY''" and st = "(JArr [], 0)" and articles = "JArr []" and rest = "[]"
       and ?w1.0 = ?e1
       and md = "[]" and abstract = JNull and ?w2.0 = ?e1 and c = 0
       and citations = JNull and ?w3.0 = ?e1 and total_processed = 0 and xs = "[]"]
  from t2 f3 have ea: "fetch_abstract ''1'' 3 ?e1 = (Inr (JStr ''N/A''), ?e2)"
    by (simp add: enrich_world_sel attempt_keys_3 mod_two_evals)
  note t3 = retry_exhaustion
    [where w = enrich_world and scopus_id = "''1''" and retries = 3 and count = 200
       and entry = example_entry and lib = example_lib and year_dir = "year_folder ''2023''"
       and month = "''MAY''" and st = "(JArr [], 0)" and articles = "JArr []" and rest = "[]"
       and ?w1.0 = ?e1 and md = ?md0 and abstract = "JStr ''N/A''" and ?w2.0 = ?e2 and c = 0
       and citations = "JArr []" and ?w3.0 = ?e2 and total_processed = 0 and xs = "[]"]
  from t3 example_entry_id example_metadata ea have k0:
    "process_entry example_lib (year_folder ''2023'') ''MAY'' example_entry (JArr [], 0)
       enrich_world
     = (Inr (JArr [JObj (AList.update ''Citations'' (JArr [])
                           (AList.update ''Abstract'' (JStr ''N/A'') ?md0))], 1), ?e2)"
    by simp
  note t4 = retry_exhaustion
    [where w = enrich_world and scopus_id = "''1''" and retries = 3 and count = 200
       and entry = example_entry and lib = example_lib and year_dir = "year_folder ''2023''"
       and month = "''MAY''" and st = "(JArr [], 0)" and articles = "JArr []" and rest = "[]"
       and ?w1.0 = ?e1 and md = ?md0 and abstract = "JStr ''N/A''" and ?w2.0 = ?e2 and c = 0
       and citations = "JArr []" and ?w3.0 = ?e2 and total_processed = 499 and xs = "[]"]
  from t4 example_entry_id example_metadata ea have k499:
    "process_entry example_lib (year_folder ''2023'') ''MAY'' example_entry (JArr [], 499)
       enrich_world
     = (Inr (JArr [JObj (AList.update ''Citations'' (JArr [])
                           (AList.update ''Abstract'' (JStr ''N/A'') ?md0))], 500),
        ?e2\<lparr>hfiles :=
               [([''data'', ''comp'', ''post'', ''2023'', ''MAY_500_comp_23_25.json''],
                 JArr [JObj (AList.update ''Citations'' (JArr [])
                               (AList.update ''Abstract'' (JStr ''N/A'') ?md0))])]\<rparr>)"
    by (simp add: backup_data_def dump_to_def example_json_dump example_backup_500
        year_folder_def enrich_world_sel)
  note t5 = retry_exhaustion
    [where w = ?c1 and scopus_id = "''1''" and retries = 3 and count = 200
       and entry = example_entry and lib = example_lib and year_dir = "year_folder ''2023''"
       and month = "''MAY''" and st = "(JArr [], 0)" and articles = "JArr []" and rest = "[]"
       and ?w1.0 = ?c1
       and md = "[]" and abstract = JNull and ?w2.0 = ?c1 and c = 0
       and citations = JNull and ?w3.0 = ?c1 and total_processed = 0 and xs = "[]"]
  from t5 f4 have ca: "fetch_abstract ''1'' 3 ?c1 = (Inr (JStr ''N/A''), ?c2)"
    by (simp add: cited_world_sel attempt_keys_3 mod_two_evals)
  note t6 = retry_exhaustion
    [where w = ?c2 and scopus_id = "''1''" and retries = 3 and count = 200
       and entry = example_entry and lib = example_lib and year_dir = "year_folder ''2023''"
       and month = "''MAY''" and st = "(JArr [], 0)" and articles = "JArr []" and rest = "[]"
       and ?w1.0 = ?c1
       and md = "[]" and abstract = JNull and ?w2.0 = ?c1 and c = 0
       and citations = JNull and ?w3.0 = ?c1 and total_processed = 0 and xs = "[]"]
  from t6 f5 have cc: "fetch_citations ''1'' 200 3 ?c2
      = (Inr (JObj [(''citations'', JArr [])]), ?c3)"
    by (simp add: cited_world_sel attempt_keys_3 mod_two_evals)
  note t7 = retry_exhaustion
    [where w = cited_world and scopus_id = "''1''" and retries = 3 and count = 200
       and entry = example_entry and lib = example_lib and year_dir = "year_folder ''2023''"
       and month = "''MAY''" and st = "(JArr [], 0)" and articles = "JArr []" and rest = "[]"
       and ?w1.0 = ?c1 and md = ?md2 and abstract = "JStr ''N/A''" and ?w2.0 = ?c2 and c = 2
       and citations = "JArr []" and ?w3.0 = ?c3 and total_processed = 0 and xs = "[]"]
  from t7 example_entry_id cited_metadata ca cc have kc:
    "process_entry example_lib (year_folder ''2023'') ''MAY'' example_entry (JArr [], 0)
       cited_world
     = (Inr (JArr [JObj (AList.update ''Citations'' (JArr [])
                           (AList.update ''Abstract'' (JStr ''N/A'') ?md2))], 1), ?c3)"
    by simp
  have u0: "AList.update ''Citations'' (JArr []) (AList.update ''Abstract'' (JStr ''N/A'') ?md0)
      = ?md0 @ [(''Citations'', JArr [])]"
    and u2: "AList.update ''Citations'' (JArr []) (AList.update ''Abstract'' (JStr ''N/A'') ?md2)
      = ?md2 @ [(''Citations'', JArr [])]"
    by simp_all
  from k0 have k0': "process_entry example_lib (year_folder ''2023'') ''MAY'' example_entry
       (JArr [], 0) enrich_world = (Inr (JArr [JObj (?md0 @ [(''Citations'', JArr [])])], 1), ?e2)"
    unfolding u0 .
  from k499 have k499': "process_entry example_lib (year_folder ''2023'') ''MAY'' example_entry
       (JArr [], 499) enrich_world
     = (Inr (JArr [JObj (?md0 @ [(''Citations'', JArr [])])], 500),
        ?e2\<lparr>hfiles :=
               [([''data'', ''comp'', ''post'', ''2023'', ''MAY_500_comp_23_25.json''],
                 JArr [JObj (?md0 @ [(''Citations'', JArr [])])])]\<rparr>)"
    unfolding u0 .
  from kc have kc': "process_entry example_lib (year_folder ''2023'') ''MAY'' example_entry
       (JArr [], 0) cited_world = (Inr (JArr [JObj (?md2 @ [(''Citations'', JArr [])])], 1), ?c3)"
    unfolding u2 .
  show ?thesis
    apply (intro conjI)
    subgoal by (rule f1)
    subgoal by (rule f2)
    subgoal by (rule m)
    subgoal by (rule a)
    subgoal by (rule c)
    subgoal by (rule s)
    subgoal by (rule s)
    subgoal by (rule f3)
    subgoal using k0' by simp
    subgoal using k499' by simp
    subgoal by (rule f5)
    subgoal using kc' by simp
    done
qed

text \<open>
  The abstract call uses up its three attempts and returns "N/A", and the caller does not
  leave the record out: it is appended, with that abstract.
\<close>

theorem retry_exhaustion_counterexample:
  "fst (fetch_metadata ''1'' 3 enrich_world)
     = Inr (JObj [(''Scopus_ID'', JStr ''1''), (''Title'', JStr ''A title''),
                 (''Abstract'', JStr ''N/A''), (''Authors'', JArr []),
                 (''Affiliation_Name'', JStr ''N/A''), (''Affiliation_Country'', JStr ''N/A''),
                 (''Publication_Date'', JStr ''N/A''), (''DOI'', JStr ''N/A''),
                 (''Keywords'', JStr ''N/A''), (''Cited_By_Count'', JInt 0),
                 (''Source'', JStr ''N/A'')])
   \<and> fst (fetch_abstract ''1'' 3 (snd (fetch_metadata ''1'' 3 enrich_world))) = Inr (JStr ''N/A'')
   \<and> length (http_log (snd (fetch_abstract ''1'' 3 (snd (fetch_metadata ''1'' 3 enrich_world)))))
       = length (http_log (snd (fetch_metadata ''1'' 3 enrich_world))) + 3
   \<and> fst (process_entry example_lib (year_folder ''2023'') ''MAY'' example_entry
            (JArr [], 0) enrich_world)
       = Inr (JArr [JObj [(''Scopus_ID'', JStr ''1''), (''Title'', JStr ''A title''),
                         (''Abstract'', JStr ''N/A''), (''Authors'', JArr []),
                         (''Affiliation_Name'', JStr ''N/A''),
                         (''Affiliation_Country'', JStr ''N/A''),
                         (''Publication_Date'', JStr ''N/A''), (''DOI'', JStr ''N/A''),
                         (''Keywords'', JStr ''N/A''), (''Cited_By_Count'', JInt 0),
                         (''Source'', JStr ''N/A''), (''Citations'', JArr [])]], 1)"
  using example_abstract by (simp add: example_metadata example_kept)

lemma rate_page_loop:
  "page_loop example_lib year_dir month_name query 0 (JArr [], 0) rate_world
     = Ret (JArr [], 0) (rate_world\<lparr>http_log := [SearchRequest ''key-a'' query 200 0 None]\<rparr>)"
  by (subst page_loop.simps)
     (simp add: rate_world_def pause_point_def check_for_pause_def get_headers_def
        requests_get_def)

lemma rate_page_loop_patch:
  "page_loop_patch 2 example_lib year_dir month query 0 (JArr []) rate_world
     = Some (Ret (JArr [])
         (rate_world\<lparr>http_log := [SearchRequest ''key-a'' query 200 0 (Some ''STANDARD''),
                                  SearchRequest ''key-b'' query 200 0 (Some ''STANDARD'')],
                     current_api_key_index := 1\<rparr>))"
  by (simp add: numeral_2_eq_2 rate_world_def pause_point_def check_for_pause_def
        get_headers_def requests_get_def cycle_api_key_def empty_page_def search_entries_def
        raise_or_def dict_get_def save_articles_def)

lemma page_loop_patch_429:
  assumes "pause_point w = Some w0"
    and "get_headers w0 = Inr key"
    and "server w0 (http_log w0 @ [SearchRequest key query 200 start (Some ''STANDARD'')])
           = Inr response"
    and "status_code response = 429"
  shows "page_loop_patch (Suc fuel) lib year_dir month query start articles w
     = page_loop_patch fuel lib year_dir month query start articles
         (w0\<lparr>http_log := http_log w0 @ [SearchRequest key query 200 start (Some ''STANDARD'')],
             current_api_key_index := (current_api_key_index w0 + 1) mod length (API_KEYS w0)\<rparr>)"
proof -
  from assms(2) have "API_KEYS w0 \<noteq> []"
    by (auto simp: get_headers_def split: if_splits)
  with assms show ?thesis
    by (simp add: requests_get_def Let_def cycle_api_key_def)
qed

lemma page_loop_not_200:
  assumes "current_offset < 5000"
    and "pause_point w = Some w0"
    and "get_headers w0 = Inr key"
    and "server w0 (http_log w0 @ [SearchRequest key query 200 current_offset None])
           = Inr response"
    and "status_code response \<noteq> 200"
    and "body response = Some b"
  shows "page_loop lib year_dir month_name query current_offset st w
     = Ret st (w0\<lparr>http_log := http_log w0 @ [SearchRequest key query 200 current_offset None]\<rparr>)"
  using assms by (subst page_loop.simps) (simp add: requests_get_def Let_def)

lemma rate_harvest_month:
  "harvest_month example_lib 2023 1 rate_world
     = Ret ()
         (rate_world
            \<lparr>hdirs := [[''data''], [''data'', ''comp''], [''data'', ''comp'', ''post''],
                       [''data'', ''comp'', ''post'', ''2023'']],
             http_log := [SearchRequest ''key-a''
                            ''SUBJAREA(COMP) AND PUBDATETXT(JANUARY+2023)'' 200 0 None],
             hfiles := [([''data'', ''comp'', ''post'', ''2023'', ''JANUARY_comp_23_25.json''],
                         JArr [])]\<rparr>)"
  by (simp add: harvest_month_def month_list_def str_int_def str_nat.simps digit_char_def
      year_folder_def get_year_folder_def makedirs_def rate_world_def path_exists_def
      pause_point_def check_for_pause_def resume_backup_def glob_backups_def
      List.map_filter_simps page_loop.simps get_headers_def requests_get_def dump_to_def
      example_json_dump)

text \<open>
  C7, at the failing input. The service answers the first page request of a bucket with
  status 429. In 0\_compsci.py the pagination loop ends after that one request: the key
  pointer is where it was and the page is not asked for again; the bucket's round then
  writes the final output file with the records it has, none here. In 0\_compsci\_patch.py
  the loop, on the same answers, moves the pointer by one and asks for the same page with
  the next key.
\<close>

theorem page_request_429:
  "server rate_world
      [SearchRequest ''key-a'' ''SUBJAREA(COMP) AND PUBDATETXT(JANUARY+2023)'' 200 0 None]
     = Inr \<lparr>status_code = 429, body = Some (JObj [])\<rparr>
   \<and> page_loop example_lib (year_folder ''2023'') ''JANUARY''
        ''SUBJAREA(COMP) AND PUBDATETXT(JANUARY+2023)'' 0 (JArr [], 0) rate_world
      = Ret (JArr [], 0)
          (rate_world\<lparr>http_log := [SearchRequest ''key-a''
                            ''SUBJAREA(COMP) AND PUBDATETXT(JANUARY+2023)'' 200 0 None]\<rparr>)
   \<and> current_api_key_index
        (rate_world\<lparr>http_log := [SearchRequest ''key-a''
                            ''SUBJAREA(COMP) AND PUBDATETXT(JANUARY+2023)'' 200 0 None]\<rparr>)
      = current_api_key_index rate_world
   \<and> harvest_month example_lib 2023 1 rate_world
      = Ret ()
         (rate_world
            \<lparr>hdirs := [[''data''], [''data'', ''comp''], [''data'', ''comp'', ''post''],
                       [''data'', ''comp'', ''post'', ''2023'']],
             http_log := [SearchRequest ''key-a''
                            ''SUBJAREA(COMP) AND PUBDATETXT(JANUARY+2023)'' 200 0 None],
             hfiles := [([''data'', ''comp'', ''post'', ''2023'', ''JANUARY_comp_23_25.json''],
                         JArr [])]\<rparr>)
   \<and> page_loop_patch 2 example_lib (year_folder ''2023'') ''MAY''
        ''SUBJAREA(COMP) AND PUBDATETXT(May+2023)'' 0 (JArr []) rate_world
      = Some (Ret (JArr [])
         (rate_world\<lparr>http_log :=
                       [SearchRequest ''key-a'' ''SUBJAREA(COMP) AND PUBDATETXT(May+2023)''
                          200 0 (Some ''STANDARD''),
                        SearchRequest ''key-b'' ''SUBJAREA(COMP) AND PUBDATETXT(May+2023)''
                          200 0 (Some ''STANDARD'')],
                     current_api_key_index := 1\<rparr>))"
  using rate_page_loop rate_page_loop_patch rate_harvest_month
  by (simp add: rate_world_def)

lemma makedirs_existing:
  assumes c: "consistent w" and e: "path_exists w (dir @ [name])"
  shows "makedirs dir w = Inr w"
proof -
  have mem: "dir @ [name] \<in> set (map fst (hfiles w)) \<union> set (hdirs w)"
    using e by (auto simp: path_exists_def map_of_eq_None_iff)
  have in_dirs: "q \<in> set (hdirs w)" if "q \<in> set (prefixes dir)" "q \<noteq> []" for q
  proof -
    from that(1) have "prefix q dir" by simp
    then have "prefix q (dir @ [name])" "q \<noteq> dir @ [name]"
      by (auto simp: prefix_def)
    then have "q \<in> set (prefixes (dir @ [name]))" by simp
    with c mem that(2) \<open>q \<noteq> dir @ [name]\<close> show ?thesis
      unfolding consistent_def by blast
  qed
  have no_file: "map_of (hfiles w) q = None" if "q \<in> set (prefixes dir)" for q
  proof (cases "q = []")
    case True
    with c show ?thesis by (simp add: consistent_def)
  next
    case False
    from in_dirs [OF that False] c show ?thesis by (simp add: consistent_def)
  qed
  have 1: "\<not> list_ex (\<lambda>q. map_of (hfiles w) q \<noteq> None) (prefixes dir)"
    using no_file by (auto simp: list_ex_iff)
  have 2: "filter (\<lambda>q. q \<noteq> [] \<and> q \<notin> set (hdirs w)) (prefixes dir) = []"
    unfolding filter_empty_conv using in_dirs by blast
  show ?thesis unfolding makedirs_def using 1 2 by (simp del: not_None_eq)
qed

lemma harvest_month_skip:
  assumes "consistent w" "1 \<le> month" "month \<le> 12" "path_exists w (final_output year month)"
  shows "harvest_month lib year month w = Ret () w"
proof -
  from assms(1,4) have mk: "makedirs (year_folder (str_int year)) w = Inr w"
    unfolding final_output_def by (rule makedirs_existing)
  from assms(2,3) have range: "\<not> (month < 1 \<or> 12 < month)" by arith
  from assms(4) have ex: "path_exists w
      (year_folder (str_int year) @ [month_list ! (month - 1) @ ''_comp_23_25.json''])"
    unfolding final_output_def .
  show ?thesis
    unfolding harvest_month_def Let_def get_year_folder_def
    by (simp only: if_not_P [OF range] mk sum.case if_P [OF ex])
qed

lemma main_loop_step:
  assumes c: "year < 2025 \<or> (year = 2025 \<and> month \<le> 1)"
    and h: "harvest_month lib year month w = Ret () w'"
  shows "main_loop lib year month w =
           (if month = 12 then main_loop lib (year + 1) 1 w'
            else main_loop lib year (month + 1) w')"
proof -
  have "main_loop lib year month w =
      (case harvest_month lib year month w of
           Hang \<Rightarrow> Hang
         | Exc e w' \<Rightarrow> Exc e w'
         | Ret u w' \<Rightarrow>
             if month = 12 then main_loop lib (year + 1) 1 w'
             else main_loop lib year (month + 1) w')"
    by (subst main_loop.simps) (rule if_P [OF c])
  also have "\<dots> = (if month = 12 then main_loop lib (year + 1) 1 w'
            else main_loop lib year (month + 1) w')"
    by (simp only: h outcome.case)
  finally show ?thesis .
qed

lemma main_loop_done:
  assumes c: "\<not> (year < 2025 \<or> (year = 2025 \<and> month \<le> 1))"
  shows "main_loop lib year month w = Ret () w"
  by (subst main_loop.simps) (rule if_not_P [OF c])

lemma main_loop_all_skipped:
  "consistent w \<Longrightarrow>
   \<forall>y m. 2023 \<le> y \<and> (y < 2025 \<or> (y = 2025 \<and> m \<le> 1)) \<and> 1 \<le> m \<and> m \<le> 12
          \<longrightarrow> path_exists w (final_output y m) \<Longrightarrow>
   2023 \<le> year \<Longrightarrow> 1 \<le> month \<Longrightarrow> month \<le> 12 \<Longrightarrow>
   main_loop lib year month w = Ret () w"
proof (induction lib year month w rule: main_loop.induct)
  case (1 lib year month w)
  show ?case
  proof (cases "year < 2025 \<or> (year = 2025 \<and> month \<le> 1)")
    case False
    then show ?thesis by (rule main_loop_done)
  next
    case True
    from "1.prems"(2,3,4,5) True have ex: "path_exists w (final_output year month)" by blast
    have skip: "harvest_month lib year month w = Ret () w"
      by (rule harvest_month_skip [OF "1.prems"(1) "1.prems"(4) "1.prems"(5) ex])
    note step = main_loop_step [OF True skip]
    show ?thesis
    proof (cases "month = 12")
      case m: True
      have one: "(1::nat) \<le> 1" "(1::nat) \<le> 12" by simp_all
      from "1.prems"(3) have y: "2023 \<le> year + 1" by arith
      have r: "main_loop lib (year + 1) 1 w = Ret () w"
        by (rule "1.IH"(1) [OF True skip m "1.prems"(1,2) y one])
      from step have "main_loop lib year month w = main_loop lib (year + 1) 1 w"
        by (simp only: if_P [OF m])
      then show ?thesis by (simp only: r)
    next
      case m: False
      from "1.prems"(4,5) m have b: "1 \<le> month + 1" "month + 1 \<le> 12" by arith+
      have r: "main_loop lib year (month + 1) w = Ret () w"
        by (rule "1.IH"(2) [OF True skip m "1.prems"(1,2,3) b])
      from step have "main_loop lib year month w = main_loop lib year (month + 1) w"
        by (simp only: if_not_P [OF m])
      then show ?thesis by (simp only: r)
    qed
  qed
qed

text \<open>
  C6 (as amended). Bucket skip in 0\_compsci.py. In a consistent file system, a round of
  the outer loop for a bucket whose final output file exists returns with the world as it
  was: no request is made, no input is read, no file or directory is written, the key
  pointer stays; and the loop goes on with the next bucket in that same world. When the
  final output files of all the buckets from January 2023 to January 2025 exist, the
  whole run returns with the world as it was.
\<close>

theorem bucket_skip:
  "(consistent w \<and> 1 \<le> month \<and> month \<le> 12 \<and> path_exists w (final_output year month)
      \<longrightarrow> harvest_month lib year month w = Ret () w \<and>
          (year < 2025 \<or> (year = 2025 \<and> month \<le> 1)
             \<longrightarrow> main_loop lib year month w =
                   (if month = 12 then main_loop lib (year + 1) 1 w
                    else main_loop lib year (month + 1) w)))
   \<and> (consistent w \<and>
       (\<forall>y m. 2023 \<le> y \<and> (y < 2025 \<or> (y = 2025 \<and> m \<le> 1)) \<and> 1 \<le> m \<and> m \<le> 12
              \<longrightarrow> path_exists w (final_output y m))
      \<longrightarrow> harvester_main lib w = Ret () w)"
proof (intro conjI impI)
  assume h: "consistent w \<and> 1 \<le> month \<and> month \<le> 12 \<and> path_exists w (final_output year month)"
  then show skip: "harvest_month lib year month w = Ret () w"
    by (intro harvest_month_skip) simp_all
  show "main_loop lib year month w =
          (if month = 12 then main_loop lib (year + 1) 1 w
           else main_loop lib year (month + 1) w)"
    if "year < 2025 \<or> (year = 2025 \<and> month \<le> 1)"
    by (rule main_loop_step [OF that skip])
next
  assume h: "consistent w \<and>
       (\<forall>y m. 2023 \<le> y \<and> (y < 2025 \<or> (y = 2025 \<and> m \<le> 1)) \<and> 1 \<le> m \<and> m \<le> 12
              \<longrightarrow> path_exists w (final_output y m))"
  then have c: "consistent w"
    and a: "\<forall>y m. 2023 \<le> y \<and> (y < 2025 \<or> (y = 2025 \<and> m \<le> 1)) \<and> 1 \<le> m \<and> m \<le> 12
              \<longrightarrow> path_exists w (final_output y m)"
    by blast+
  show "harvester_main lib w = Ret () w"
    unfolding harvester_main_def
    by (rule main_loop_all_skipped [OF c a]) simp_all
qed

lemma example_world_consistent: "consistent example_world"
  by (simp add: consistent_def example_world_def)

lemma patch_world_consistent: "consistent patch_world"
  by (simp add: consistent_def patch_world_def)

lemma complete_world_consistent: "consistent complete_world"
  by (simp add: consistent_def complete_world_def)

lemma year_texts:
  "str_int 2023 = ''2023'' \<and> str_int 2024 = ''2024'' \<and> str_int 2025 = ''2025''"
  by (simp add: str_int_def str_nat.simps digit_char_def)

lemma complete_world_outputs:
  assumes "2023 \<le> y" "y < 2025 \<or> (y = 2025 \<and> m \<le> 1)" "1 \<le> m" "m \<le> 12"
  shows "path_exists complete_world (final_output y m)"
proof -
  from assms have y: "y = 2023 \<or> y = 2024 \<or> (y = 2025 \<and> m = 1)" by arith
  from assms have m: "m = 1 \<or> m = 2 \<or> m = 3 \<or> m = 4 \<or> m = 5 \<or> m = 6 \<or> m = 7 \<or> m = 8 \<or>
      m = 9 \<or> m = 10 \<or> m = 11 \<or> m = 12" by arith
  from y m show ?thesis
    by (elim disjE conjE)
       (simp_all add: final_output_def year_texts year_folder_def month_list_def
          path_exists_def complete_world_def)
qed

lemma example_april:
  "path_exists example_world (final_output 2023 4) \<and> (1::nat) \<le> 4 \<and> (4::nat) \<le> 12"
  by (simp add: final_output_def year_texts year_folder_def month_list_def path_exists_def
      example_world_def)

theorem bucket_skip_witness:
  "consistent example_world
   \<and> path_exists example_world (final_output 2023 4)
   \<and> harvest_month example_lib 2023 4 example_world = Ret () example_world
   \<and> main_loop example_lib 2023 4 example_world = main_loop example_lib 2023 5 example_world
   \<and> consistent complete_world
   \<and> path_exists complete_world (final_output 2023 1)
   \<and> path_exists complete_world (final_output 2025 1)
   \<and> http_log complete_world = []
   \<and> harvester_main example_lib complete_world = Ret () complete_world"
proof -
  note t1 = bucket_skip
    [where w = example_world and year = 2023 and month = 4 and lib = example_lib]
  from t1 example_world_consistent example_april
  have s: "harvest_month example_lib 2023 4 example_world = Ret () example_world"
    and n: "main_loop example_lib 2023 4 example_world
              = main_loop example_lib 2023 5 example_world"
    by simp_all
  have a: "\<forall>y m. 2023 \<le> y \<and> (y < 2025 \<or> (y = 2025 \<and> m \<le> 1)) \<and> 1 \<le> m \<and> m \<le> 12
              \<longrightarrow> path_exists complete_world (final_output y m)"
    using complete_world_outputs by blast
  note t2 = bucket_skip
    [where w = complete_world and year = 2023 and month = 1 and lib = example_lib]
  from t2 complete_world_consistent a
  have r: "harvester_main example_lib complete_world = Ret () complete_world"
    by blast
  have o: "path_exists complete_world (final_output 2023 1)"
    "path_exists complete_world (final_output 2025 1)"
    by (rule complete_world_outputs; simp)+
  have l: "http_log complete_world = []" by (simp add: complete_world_def)
  from example_april have e: "path_exists example_world (final_output 2023 4)" by blast
  show ?thesis
    by (intro conjI example_world_consistent e s n complete_world_consistent o l r)
qed

lemma patch_world_outputs:
  "path_exists patch_world (final_output 2023 5) \<and> path_exists patch_world (final_output 2023 7)"
  by (simp add: final_output_def year_texts year_folder_def month_list_def path_exists_def
      patch_world_def)

lemma patch_world_run:
  "harvester_patch_main 1 example_lib patch_world
     = Some (Ret ()
         (patch_world\<lparr>http_log :=
            [SearchRequest ''key-a'' ''SUBJAREA(COMP) AND PUBDATETXT(May+2023)'' 200 0
               (Some ''STANDARD''),
             SearchRequest ''key-a'' ''SUBJAREA(COMP) AND PUBDATETXT(July+2023)'' 200 0
               (Some ''STANDARD'')]\<rparr>))"
  by (simp add: harvester_patch_main_def harvest_month_patch_def get_year_folder_def
      makedirs_def year_folder_def patch_world_def resume_backup_def glob_backups_def
      matches_backup_def suffix_to_prefix List.map_filter_simps pause_point_def
      check_for_pause_def get_headers_def requests_get_def empty_page_def search_entries_def
      raise_or_def dict_get_def save_articles_def)

text \<open>
  In 0\_compsci\_patch.py the final output files of May and July 2023 exist, and the script
  makes a request for each of the two buckets all the same.
\<close>

theorem bucket_skip_counterexample:
  "consistent patch_world
   \<and> path_exists patch_world (final_output 2023 5)
   \<and> path_exists patch_world (final_output 2023 7)
   \<and> http_log patch_world = []
   \<and> harvester_patch_main 1 example_lib patch_world
     = Some (Ret ()
         (patch_world\<lparr>http_log :=
            [SearchRequest ''key-a'' ''SUBJAREA(COMP) AND PUBDATETXT(May+2023)'' 200 0
               (Some ''STANDARD''),
             SearchRequest ''key-a'' ''SUBJAREA(COMP) AND PUBDATETXT(July+2023)'' 200 0
               (Some ''STANDARD'')]\<rparr>))"
  using patch_world_consistent patch_world_outputs patch_world_run
  by (simp add: patch_world_def)

end
